theory Spec2Isabelle
  imports Complex_Main
begin

section \<open>Python values, errors and the native library\<close>

text \<open>
  The module \<^verbatim>\<open>wand/drawing.py\<close> is a thin wrapper: every method of
  \<^verbatim>\<open>Drawing\<close> checks its arguments and then calls entry points of the native
  library on the handle \<^verbatim>\<open>self.resource\<close>. The embedding makes the three
  ingredients explicit: the dynamically typed arguments (\<open>pyval\<close>), the exceptions
  (\<open>error\<close>, returned as \<open>Inl\<close>), and the state of the native library
  (\<open>library\<close>), which every method takes and returns.

  A Python float and a C double are the same IEEE binary64 value. A finite one is read
  as the real number it denotes (\<open>PFloat\<close>, \<open>Finite\<close>; the sign of zero is not
  kept), the two infinities and NaN are values of their own. Conversion of an integer to
  a float and the sum of two floats round to the nearest double, ties to even.
\<close>

record drawing =
  resource :: nat

datatype color = Color string

datatype nonfinite = PosInf | NegInf | NaN

datatype double = Finite real | Nonfinite nonfinite

datatype pyval =
    PNone
  | PBool bool
  | PInt int
  | PFloat real
  | PNonfinite nonfinite
  | PStr string
  | PTuple "pyval list"
  | PList "pyval list"
  | PColor color
  | PDrawing drawing

datatype error =
    TypeError string
  | ValueError string
  | IndexError string
  | OverflowError string
  | WandLibraryVersionError string
  | NativeError string

text \<open>An argument as it is handed to a native entry point.\<close>

datatype carg =
    IntArg int
  | DoubleArg double
  | BoolArg bool
  | PyArg pyval
  | ArrayArg "double list"
  | ColorArg color

text \<open>One call of a native entry point: its name, the wand handle, the other arguments.\<close>

datatype native_call = NativeCall string nat "carg list"

text \<open>
  The state behind one drawing-wand handle, as far as the properties verified here read
  it: the integer codes of the enumerated options, two numeric settings, the stroke
  colour, and the pending exception of the wand (the last-error channel).
\<close>

record wand =
  w_clip_rule :: int
  w_clip_units :: int
  w_fill_rule :: int
  w_stroke_line_cap :: int
  w_stroke_line_join :: int
  w_text_alignment :: int
  w_text_decoration :: int
  w_text_direction :: int
  w_gravity :: int
  w_font_size :: double
  w_stroke_width :: double
  w_stroke_color :: color
  w_text_interline_spacing :: double
  w_exception :: "string option"

text \<open>
  The native library: the wands by handle, the next free handle, the state of a newly
  made wand, the trace of all calls made so far, and whether the two optional entry
  points for inter-line spacing were resolved when the library was loaded
  (\<open>False\<close> stands for the attribute being \<^verbatim>\<open>None\<close>).
\<close>

record library =
  wands :: "nat \<Rightarrow> wand"
  next_handle :: nat
  fresh_wand :: wand
  calls :: "native_call list"
  has_DrawGetTextInterlineSpacing :: bool
  has_DrawSetTextInterlineSpacing :: bool

type_synonym 'a py = "library \<Rightarrow> (error + 'a) \<times> library"

subsection \<open>Python built-ins used by the module\<close>

definition isinstance_string :: "pyval \<Rightarrow> bool" where
  "isinstance_string v = (case v of PStr _ \<Rightarrow> True | _ \<Rightarrow> False)"

text \<open>\<^verbatim>\<open>isinstance(v, numbers.Real)\<close>: \<^verbatim>\<open>bool\<close> is a subclass of \<^verbatim>\<open>int\<close>.\<close>

definition isinstance_Real :: "pyval \<Rightarrow> bool" where
  "isinstance_Real v =
     (case v of
        PBool _ \<Rightarrow> True
      | PInt _ \<Rightarrow> True
      | PFloat _ \<Rightarrow> True
      | PNonfinite _ \<Rightarrow> True
      | _ \<Rightarrow> False)"

definition isinstance_list :: "pyval \<Rightarrow> bool" where
  "isinstance_list v = (case v of PList _ \<Rightarrow> True | _ \<Rightarrow> False)"

text \<open>
  The value of a finite number, and the integer value of a \<^verbatim>\<open>bool\<close> or \<^verbatim>\<open>int\<close>
  (both are 0 on everything else).
\<close>

definition num_val :: "pyval \<Rightarrow> real" where
  "num_val v =
     (case v of PBool b \<Rightarrow> (if b then 1 else 0)
      | PInt i \<Rightarrow> real_of_int i
      | PFloat r \<Rightarrow> r
      | _ \<Rightarrow> 0)"

definition int_val :: "pyval \<Rightarrow> int" where
  "int_val v = (case v of PBool b \<Rightarrow> (if b then 1 else 0) | PInt i \<Rightarrow> i | _ \<Rightarrow> 0)"

definition nonfinite_of :: "pyval \<Rightarrow> nonfinite option" where
  "nonfinite_of v = (case v of PNonfinite n \<Rightarrow> Some n | _ \<Rightarrow> None)"

text \<open>
  \<^verbatim>\<open>a < b\<close> on numbers (the module applies it to checked reals only). Python
  compares an \<^verbatim>\<open>int\<close> with a \<^verbatim>\<open>float\<close> exactly; every comparison with NaN is false.
\<close>

definition py_lt :: "pyval \<Rightarrow> pyval \<Rightarrow> bool" where
  "py_lt a b =
     (case nonfinite_of a of
        Some NaN \<Rightarrow> False
      | Some PosInf \<Rightarrow> False
      | Some NegInf \<Rightarrow>
          (case nonfinite_of b of Some NaN \<Rightarrow> False | Some NegInf \<Rightarrow> False | _ \<Rightarrow> True)
      | None \<Rightarrow>
          (case nonfinite_of b of
             Some NaN \<Rightarrow> False
           | Some NegInf \<Rightarrow> False
           | Some PosInf \<Rightarrow> True
           | None \<Rightarrow> num_val a < num_val b))"

definition is_float :: "pyval \<Rightarrow> bool" where
  "is_float v = (case v of PFloat _ \<Rightarrow> True | PNonfinite _ \<Rightarrow> True | _ \<Rightarrow> False)"

subsection \<open>Floating point\<close>

text \<open>
  The number of binary digits of a natural number, powers of two with an integer
  exponent, and the exponent \<open>e\<close> of a real \<open>r \<noteq> 0\<close>, for which
  \<open>pow2 e \<le> \<bar>r\<bar>\<close> and \<open>\<bar>r\<bar> < pow2 (e + 1)\<close>.
\<close>

fun bit_length :: "nat \<Rightarrow> nat" where
  "bit_length n = (if n = 0 then 0 else Suc (bit_length (n div 2)))"

declare bit_length.simps [simp del]

definition pow2 :: "int \<Rightarrow> real" where
  "pow2 k = (if 0 \<le> k then 2 ^ nat k else 1 / 2 ^ nat (- k))"

definition float_exponent :: "real \<Rightarrow> int" where
  "float_exponent r =
     (if 1 \<le> \<bar>r\<bar> then int (bit_length (nat \<lfloor>\<bar>r\<bar>\<rfloor>)) - 1
      else - int (bit_length (nat (\<lceil>1 / \<bar>r\<bar>\<rceil> - 1))))"

text \<open>Rounding to the nearest integer, a tie to the even one.\<close>

definition round_half_even :: "real \<Rightarrow> int" where
  "round_half_even q =
     (let f = \<lfloor>q\<rfloor>; d = q - of_int f
      in if d < 1 / 2 then f
         else if 1 / 2 < d then f + 1
         else if even f then f else f + 1)"

text \<open>
  Rounding a real to binary64: 53 significant bits, the spacing \<open>pow2 (- 1074)\<close> of
  the subnormal numbers below \<open>pow2 (- 1022)\<close>, and an infinity once the rounded value
  reaches \<open>2 ^ 1024\<close>.
\<close>

definition round_double :: "real \<Rightarrow> double" where
  "round_double r =
     (if r = 0 then Finite 0
      else (let e = max (float_exponent r) (- 1022);
                ulp = pow2 (e - 52);
                v = of_int (round_half_even (r / ulp)) * ulp
            in if 2 ^ 1024 \<le> \<bar>v\<bar> then Nonfinite (if 0 < r then PosInf else NegInf)
               else Finite v))"

text \<open>The sum of two doubles.\<close>

definition double_add :: "double \<Rightarrow> double \<Rightarrow> double" where
  "double_add x y =
     (case x of
        Finite a \<Rightarrow> (case y of Finite b \<Rightarrow> round_double (a + b) | Nonfinite n \<Rightarrow> Nonfinite n)
      | Nonfinite m \<Rightarrow>
          (case y of
             Finite b \<Rightarrow> Nonfinite m
           | Nonfinite n \<Rightarrow> (if m = n then Nonfinite m else Nonfinite NaN)))"

text \<open>
  An \<^verbatim>\<open>int\<close> as a float: \<^verbatim>\<open>OverflowError\<close> when the rounded value is not finite.
  \<open>to_double\<close> is the conversion of a number (\<^verbatim>\<open>bool\<close>, \<^verbatim>\<open>int\<close> or
  \<^verbatim>\<open>float\<close>), \<open>float_val\<close> the Python float of a double.
\<close>

definition double_of_int :: "int \<Rightarrow> error + double" where
  "double_of_int i =
     (case round_double (real_of_int i) of
        Finite v \<Rightarrow> Inr (Finite v)
      | Nonfinite n \<Rightarrow> Inl (OverflowError ''int too large to convert to float''))"

definition to_double :: "pyval \<Rightarrow> error + double" where
  "to_double v =
     (case v of
        PFloat r \<Rightarrow> Inr (Finite r)
      | PNonfinite n \<Rightarrow> Inr (Nonfinite n)
      | _ \<Rightarrow> double_of_int (int_val v))"

definition float_val :: "double \<Rightarrow> pyval" where
  "float_val d = (case d of Finite r \<Rightarrow> PFloat r | Nonfinite n \<Rightarrow> PNonfinite n)"

text \<open>
  \<^verbatim>\<open>a + b\<close> on numbers: exact on integers; with a float on either side the other
  operand is converted to a float first and the sum is the sum of two doubles.
\<close>

definition py_add :: "pyval \<Rightarrow> pyval \<Rightarrow> error + pyval" where
  "py_add a b =
     (if is_float a \<or> is_float b
      then (case to_double a of
              Inl e \<Rightarrow> Inl e
            | Inr x \<Rightarrow>
                (case to_double b of
                   Inl e \<Rightarrow> Inl e
                 | Inr y \<Rightarrow> Inr (float_val (double_add x y))))
      else Inr (PInt (int_val a + int_val b)))"

text \<open>Equality of two numbers: by value; NaN equals nothing.\<close>

definition py_num_eq :: "pyval \<Rightarrow> pyval \<Rightarrow> bool" where
  "py_num_eq a b =
     (case nonfinite_of a of
        None \<Rightarrow> (case nonfinite_of b of None \<Rightarrow> num_val a = num_val b | Some n \<Rightarrow> False)
      | Some m \<Rightarrow> (case nonfinite_of b of None \<Rightarrow> False | Some n \<Rightarrow> m = n \<and> m \<noteq> NaN))"

text \<open>
  \<^verbatim>\<open>a == b\<close>: numbers compare by value across \<^verbatim>\<open>bool\<close>, \<^verbatim>\<open>int\<close> and
  \<^verbatim>\<open>float\<close>; strings, tuples and lists compare with their own kind only; a number
  never equals a string.
\<close>

fun py_eq :: "pyval \<Rightarrow> pyval \<Rightarrow> bool"
  and py_eq_list :: "pyval list \<Rightarrow> pyval list \<Rightarrow> bool" where
  "py_eq a b =
     (if isinstance_Real a \<and> isinstance_Real b then py_num_eq a b
      else (case a of
              PNone \<Rightarrow> b = PNone
            | PStr s \<Rightarrow> b = PStr s
            | PTuple xs \<Rightarrow> (case b of PTuple ys \<Rightarrow> py_eq_list xs ys | _ \<Rightarrow> False)
            | PList xs \<Rightarrow> (case b of PList ys \<Rightarrow> py_eq_list xs ys | _ \<Rightarrow> False)
            | PColor c \<Rightarrow> b = PColor c
            | PDrawing d \<Rightarrow> b = PDrawing d
            | _ \<Rightarrow> False))"
| "py_eq_list [] [] = True"
| "py_eq_list (x # xs) (y # ys) = (py_eq x y \<and> py_eq_list xs ys)"
| "py_eq_list [] (y # ys) = False"
| "py_eq_list (x # xs) [] = False"

text \<open>\<^verbatim>\<open>v in xs\<close> and \<^verbatim>\<open>xs.index(v)\<close> on a tuple.\<close>

fun py_in :: "pyval \<Rightarrow> pyval list \<Rightarrow> bool" where
  "py_in v [] = False"
| "py_in v (x # xs) = (py_eq x v \<or> py_in v xs)"

fun py_index :: "pyval list \<Rightarrow> pyval \<Rightarrow> error + nat" where
  "py_index [] v = Inl (ValueError ''tuple.index(x): x not in tuple'')"
| "py_index (x # xs) v =
     (if py_eq x v then Inr 0
      else (case py_index xs v of Inl e \<Rightarrow> Inl e | Inr i \<Rightarrow> Inr (Suc i)))"

text \<open>\<^verbatim>\<open>xs[i]\<close> on a tuple: a negative index counts from the end.\<close>

definition py_getitem :: "pyval list \<Rightarrow> int \<Rightarrow> error + pyval" where
  "py_getitem xs i =
     (let n = int (length xs) in
      if 0 \<le> i \<and> i < n then Inr (xs ! nat i)
      else if - n \<le> i \<and> i < 0 then Inr (xs ! nat (n + i))
      else Inl (IndexError ''tuple index out of range''))"

text \<open>Sequencing of two steps: the second runs only if the first did not raise.\<close>

definition py_bind :: "'a py \<Rightarrow> ('a \<Rightarrow> 'b py) \<Rightarrow> 'b py" where
  "py_bind m f lib =
     (case m lib of (Inl e, lib') \<Rightarrow> (Inl e, lib') | (Inr v, lib') \<Rightarrow> f v lib')"

definition py_raise :: "error \<Rightarrow> 'a py" where
  "py_raise e lib = (Inl e, lib)"

definition py_return :: "'a \<Rightarrow> 'a py" where
  "py_return v lib = (Inr v, lib)"

subsection \<open>The option tables\<close>

definition CLIP_PATH_UNITS :: "pyval list" where
  "CLIP_PATH_UNITS =
     [PStr ''undefined_path_units'', PStr ''user_space'', PStr ''user_space_on_use'',
      PStr ''object_bounding_box'']"

definition TEXT_ALIGN_TYPES :: "pyval list" where
  "TEXT_ALIGN_TYPES = [PStr ''undefined'', PStr ''left'', PStr ''center'', PStr ''right'']"

definition TEXT_DECORATION_TYPES :: "pyval list" where
  "TEXT_DECORATION_TYPES =
     [PStr ''undefined'', PStr ''no'', PStr ''underline'', PStr ''overline'',
      PStr ''line_through'']"

definition TEXT_DIRECTION_TYPES :: "pyval list" where
  "TEXT_DIRECTION_TYPES =
     [PStr ''undefined'', PStr ''right_to_left'', PStr ''left_to_right'']"

definition GRAVITY_TYPES :: "pyval list" where
  "GRAVITY_TYPES =
     [PStr ''forget'', PStr ''north_west'', PStr ''north'', PStr ''north_east'',
      PStr ''west'', PStr ''center'', PStr ''east'', PStr ''south_west'', PStr ''south'',
      PStr ''south_east'', PStr ''static'']"

definition FILL_RULE_TYPES :: "pyval list" where
  "FILL_RULE_TYPES = [PStr ''undefined'', PStr ''evenodd'', PStr ''nonzero'']"

definition LINE_CAP_TYPES :: "pyval list" where
  "LINE_CAP_TYPES = [PStr ''undefined'', PStr ''butt'', PStr ''round'', PStr ''square'']"

definition LINE_JOIN_TYPES :: "pyval list" where
  "LINE_JOIN_TYPES = [PStr ''undefined'', PStr ''miter'', PStr ''round'', PStr ''bevel'']"

section \<open>The native entry points\<close>

text \<open>
  Modelled from the spec: the native library is not part of the sources. Following the
  spec's data model (no value is mirrored in the wrapper; a set enters the native
  library, a get queries it again), a native setter stores its argument in the wand
  behind the handle, a native getter reads the stored value, and every call is appended
  to the trace. Arguments are recorded as the wrapper hands them over.
\<close>

definition library_call :: "string \<Rightarrow> nat \<Rightarrow> carg list \<Rightarrow> library \<Rightarrow> library" where
  "library_call name h args lib = lib\<lparr>calls := calls lib @ [NativeCall name h args]\<rparr>"

definition wand_update :: "nat \<Rightarrow> (wand \<Rightarrow> wand) \<Rightarrow> library \<Rightarrow> library" where
  "wand_update h f lib = lib\<lparr>wands := (wands lib)(h := f (wands lib h))\<rparr>"

definition DrawSetClipRule :: "nat \<Rightarrow> int \<Rightarrow> library \<Rightarrow> library" where
  "DrawSetClipRule h i lib =
     wand_update h (\<lambda>w. w\<lparr>w_clip_rule := i\<rparr>) (library_call ''DrawSetClipRule'' h [IntArg i] lib)"

definition DrawGetClipRule :: "nat \<Rightarrow> library \<Rightarrow> int \<times> library" where
  "DrawGetClipRule h lib = (w_clip_rule (wands lib h), library_call ''DrawGetClipRule'' h [] lib)"

definition DrawSetClipUnits :: "nat \<Rightarrow> int \<Rightarrow> library \<Rightarrow> library" where
  "DrawSetClipUnits h i lib =
     wand_update h (\<lambda>w. w\<lparr>w_clip_units := i\<rparr>) (library_call ''DrawSetClipUnits'' h [IntArg i] lib)"

definition DrawGetClipUnits :: "nat \<Rightarrow> library \<Rightarrow> int \<times> library" where
  "DrawGetClipUnits h lib = (w_clip_units (wands lib h), library_call ''DrawGetClipUnits'' h [] lib)"

definition DrawSetFillRule :: "nat \<Rightarrow> int \<Rightarrow> library \<Rightarrow> library" where
  "DrawSetFillRule h i lib =
     wand_update h (\<lambda>w. w\<lparr>w_fill_rule := i\<rparr>) (library_call ''DrawSetFillRule'' h [IntArg i] lib)"

definition DrawGetFillRule :: "nat \<Rightarrow> library \<Rightarrow> int \<times> library" where
  "DrawGetFillRule h lib = (w_fill_rule (wands lib h), library_call ''DrawGetFillRule'' h [] lib)"

definition DrawSetStrokeLineCap :: "nat \<Rightarrow> int \<Rightarrow> library \<Rightarrow> library" where
  "DrawSetStrokeLineCap h i lib =
     wand_update h (\<lambda>w. w\<lparr>w_stroke_line_cap := i\<rparr>) (library_call ''DrawSetStrokeLineCap'' h [IntArg i] lib)"

definition DrawGetStrokeLineCap :: "nat \<Rightarrow> library \<Rightarrow> int \<times> library" where
  "DrawGetStrokeLineCap h lib = (w_stroke_line_cap (wands lib h), library_call ''DrawGetStrokeLineCap'' h [] lib)"

definition DrawSetStrokeLineJoin :: "nat \<Rightarrow> int \<Rightarrow> library \<Rightarrow> library" where
  "DrawSetStrokeLineJoin h i lib =
     wand_update h (\<lambda>w. w\<lparr>w_stroke_line_join := i\<rparr>) (library_call ''DrawSetStrokeLineJoin'' h [IntArg i] lib)"

definition DrawGetStrokeLineJoin :: "nat \<Rightarrow> library \<Rightarrow> int \<times> library" where
  "DrawGetStrokeLineJoin h lib = (w_stroke_line_join (wands lib h), library_call ''DrawGetStrokeLineJoin'' h [] lib)"

definition DrawSetTextAlignment :: "nat \<Rightarrow> int \<Rightarrow> library \<Rightarrow> library" where
  "DrawSetTextAlignment h i lib =
     wand_update h (\<lambda>w. w\<lparr>w_text_alignment := i\<rparr>) (library_call ''DrawSetTextAlignment'' h [IntArg i] lib)"

definition DrawGetTextAlignment :: "nat \<Rightarrow> library \<Rightarrow> int \<times> library" where
  "DrawGetTextAlignment h lib = (w_text_alignment (wands lib h), library_call ''DrawGetTextAlignment'' h [] lib)"

definition DrawSetTextDecoration :: "nat \<Rightarrow> int \<Rightarrow> library \<Rightarrow> library" where
  "DrawSetTextDecoration h i lib =
     wand_update h (\<lambda>w. w\<lparr>w_text_decoration := i\<rparr>) (library_call ''DrawSetTextDecoration'' h [IntArg i] lib)"

definition DrawGetTextDecoration :: "nat \<Rightarrow> library \<Rightarrow> int \<times> library" where
  "DrawGetTextDecoration h lib = (w_text_decoration (wands lib h), library_call ''DrawGetTextDecoration'' h [] lib)"

definition DrawSetTextDirection :: "nat \<Rightarrow> int \<Rightarrow> library \<Rightarrow> library" where
  "DrawSetTextDirection h i lib =
     wand_update h (\<lambda>w. w\<lparr>w_text_direction := i\<rparr>) (library_call ''DrawSetTextDirection'' h [IntArg i] lib)"

definition DrawGetTextDirection :: "nat \<Rightarrow> library \<Rightarrow> int \<times> library" where
  "DrawGetTextDirection h lib = (w_text_direction (wands lib h), library_call ''DrawGetTextDirection'' h [] lib)"

definition DrawSetGravity :: "nat \<Rightarrow> int \<Rightarrow> library \<Rightarrow> library" where
  "DrawSetGravity h i lib =
     wand_update h (\<lambda>w. w\<lparr>w_gravity := i\<rparr>) (library_call ''DrawSetGravity'' h [IntArg i] lib)"

definition DrawGetGravity :: "nat \<Rightarrow> library \<Rightarrow> int \<times> library" where
  "DrawGetGravity h lib = (w_gravity (wands lib h), library_call ''DrawGetGravity'' h [] lib)"

text \<open>
  The double a numeric argument arrives as on the native side (what becomes of an
  \<^verbatim>\<open>int\<close> beyond the range of a double is decided by the foreign-function layer,
  which is not part of the sources; here it arrives as an infinity).
\<close>

definition stored_double :: "pyval \<Rightarrow> double" where
  "stored_double v =
     (case v of
        PFloat r \<Rightarrow> Finite r
      | PNonfinite n \<Rightarrow> Nonfinite n
      | _ \<Rightarrow> round_double (real_of_int (int_val v)))"

definition DrawSetFontSize :: "nat \<Rightarrow> pyval \<Rightarrow> library \<Rightarrow> library" where
  "DrawSetFontSize h v lib =
     wand_update h (\<lambda>w. w\<lparr>w_font_size := stored_double v\<rparr>)
       (library_call ''DrawSetFontSize'' h [PyArg v] lib)"

definition DrawGetFontSize :: "nat \<Rightarrow> library \<Rightarrow> double \<times> library" where
  "DrawGetFontSize h lib = (w_font_size (wands lib h), library_call ''DrawGetFontSize'' h [] lib)"

definition DrawSetStrokeWidth :: "nat \<Rightarrow> pyval \<Rightarrow> library \<Rightarrow> library" where
  "DrawSetStrokeWidth h v lib =
     wand_update h (\<lambda>w. w\<lparr>w_stroke_width := stored_double v\<rparr>)
       (library_call ''DrawSetStrokeWidth'' h [PyArg v] lib)"

definition DrawGetStrokeWidth :: "nat \<Rightarrow> library \<Rightarrow> double \<times> library" where
  "DrawGetStrokeWidth h lib = (w_stroke_width (wands lib h), library_call ''DrawGetStrokeWidth'' h [] lib)"

definition DrawSetTextInterlineSpacing :: "nat \<Rightarrow> pyval \<Rightarrow> library \<Rightarrow> library" where
  "DrawSetTextInterlineSpacing h v lib =
     wand_update h (\<lambda>w. w\<lparr>w_text_interline_spacing := stored_double v\<rparr>)
       (library_call ''DrawSetTextInterlineSpacing'' h [PyArg v] lib)"

definition DrawGetTextInterlineSpacing :: "nat \<Rightarrow> library \<Rightarrow> double \<times> library" where
  "DrawGetTextInterlineSpacing h lib = (w_text_interline_spacing (wands lib h), library_call ''DrawGetTextInterlineSpacing'' h [] lib)"

definition DrawGetException :: "nat \<Rightarrow> library \<Rightarrow> string option \<times> library" where
  "DrawGetException h lib = (w_exception (wands lib h), library_call ''DrawGetException'' h [] lib)"

definition DrawClearException :: "nat \<Rightarrow> library \<Rightarrow> library" where
  "DrawClearException h lib =
     wand_update h (\<lambda>w. w\<lparr>w_exception := None\<rparr>) (library_call ''DrawClearException'' h [] lib)"

section \<open>The class Drawing\<close>

text \<open>
  The base class \<^verbatim>\<open>Resource\<close> is not part of the sources. A drawing is taken to be
  open, so that \<^verbatim>\<open>self.resource\<close> is its handle.

  Modelled from the spec: \<^verbatim>\<open>Resource.raise_exception\<close>, which the getters and
  \<^verbatim>\<open>rectangle\<close> call. It queries the last-error channel of the wand
  (\<^verbatim>\<open>c_get_exception = library.DrawGetException\<close>); a pending error is raised as a
  host exception carrying the native message and the native error state is cleared
  (\<^verbatim>\<open>c_clear_exception = library.DrawClearException\<close>); with nothing pending it
  returns. That it returns then is what \<^verbatim>\<open>rectangle\<close> relies on, which calls it
  after every \<^verbatim>\<open>DrawRectangle\<close>.
\<close>

definition raise_exception :: "drawing \<Rightarrow> unit py" where
  "raise_exception self lib =
     (let (e, lib1) = DrawGetException (resource self) lib in
      case e of
        None \<Rightarrow> (Inr (), lib1)
      | Some msg \<Rightarrow> (Inl (NativeError msg), DrawClearException (resource self) lib1))"

definition py_lift :: "error + 'a \<Rightarrow> 'a py" where
  "py_lift r = (case r of Inl e \<Rightarrow> py_raise e | Inr v \<Rightarrow> py_return v)"

subsection \<open>Enumerated properties\<close>

text \<open>
  Each getter is the property of that name; each setter is its \<^verbatim>\<open>@<name>.setter\<close>.
  \<^verbatim>\<open>text(s)\<close> is the identity on the strings of the model.
\<close>

definition clip_rule_getter :: "drawing \<Rightarrow> pyval py" where
  "clip_rule_getter self lib =
     (let (clip_rule, lib1) = DrawGetClipRule (resource self) lib in
      py_lift (py_getitem FILL_RULE_TYPES clip_rule) lib1)"

definition clip_rule_setter :: "drawing \<Rightarrow> pyval \<Rightarrow> unit py" where
  "clip_rule_setter self clip_rule lib =
     (if \<not> isinstance_string clip_rule then (Inl (TypeError ''expected a string, not ''), lib)
      else if \<not> py_in clip_rule FILL_RULE_TYPES
      then (Inl (ValueError ''expected a string from FILE_RULE_TYPES, not''), lib)
      else (case py_index FILL_RULE_TYPES clip_rule of
              Inl e \<Rightarrow> (Inl e, lib)
            | Inr i \<Rightarrow> (Inr (), DrawSetClipRule (resource self) (int i) lib)))"

definition clip_units_getter :: "drawing \<Rightarrow> pyval py" where
  "clip_units_getter self lib =
     (let (clip_unit, lib1) = DrawGetClipUnits (resource self) lib in
      py_lift (py_getitem CLIP_PATH_UNITS clip_unit) lib1)"

definition clip_units_setter :: "drawing \<Rightarrow> pyval \<Rightarrow> unit py" where
  "clip_units_setter self clip_unit lib =
     (if \<not> isinstance_string clip_unit then (Inl (TypeError ''expected a string, not ''), lib)
      else if \<not> py_in clip_unit CLIP_PATH_UNITS
      then (Inl (ValueError ''expected a string from CLIP_PATH_UNITS, not''), lib)
      else (case py_index CLIP_PATH_UNITS clip_unit of
              Inl e \<Rightarrow> (Inl e, lib)
            | Inr i \<Rightarrow> (Inr (), DrawSetClipUnits (resource self) (int i) lib)))"

definition fill_rule_getter :: "drawing \<Rightarrow> pyval py" where
  "fill_rule_getter self lib =
     (let (fill_rule_index, lib1) = DrawGetFillRule (resource self) lib in
      py_bind (if \<not> py_in (PInt fill_rule_index) FILL_RULE_TYPES then raise_exception self else py_return ())
        (\<lambda>_. py_lift (py_getitem FILL_RULE_TYPES fill_rule_index)) lib1)"

definition fill_rule_setter :: "drawing \<Rightarrow> pyval \<Rightarrow> unit py" where
  "fill_rule_setter self fill_rule lib =
     (if \<not> isinstance_string fill_rule then (Inl (TypeError ''expected a string, not ''), lib)
      else if \<not> py_in fill_rule FILL_RULE_TYPES
      then (Inl (ValueError ''expected a string from FILE_RULE_TYPES, not''), lib)
      else (case py_index FILL_RULE_TYPES fill_rule of
              Inl e \<Rightarrow> (Inl e, lib)
            | Inr i \<Rightarrow> (Inr (), DrawSetFillRule (resource self) (int i) lib)))"

definition stroke_line_cap_getter :: "drawing \<Rightarrow> pyval py" where
  "stroke_line_cap_getter self lib =
     (let (line_cap_index, lib1) = DrawGetStrokeLineCap (resource self) lib in
      py_bind (if \<not> py_in (PInt line_cap_index) LINE_CAP_TYPES then raise_exception self else py_return ())
        (\<lambda>_. py_lift (py_getitem LINE_CAP_TYPES line_cap_index)) lib1)"

definition stroke_line_cap_setter :: "drawing \<Rightarrow> pyval \<Rightarrow> unit py" where
  "stroke_line_cap_setter self line_cap lib =
     (if \<not> isinstance_string line_cap then (Inl (TypeError ''expected a string, not ''), lib)
      else if \<not> py_in line_cap LINE_CAP_TYPES
      then (Inl (ValueError ''expected a string from LINE_CAP_TYPES, not''), lib)
      else (case py_index LINE_CAP_TYPES line_cap of
              Inl e \<Rightarrow> (Inl e, lib)
            | Inr i \<Rightarrow> (Inr (), DrawSetStrokeLineCap (resource self) (int i) lib)))"

definition stroke_line_join_getter :: "drawing \<Rightarrow> pyval py" where
  "stroke_line_join_getter self lib =
     (let (line_join_index, lib1) = DrawGetStrokeLineJoin (resource self) lib in
      py_bind (if \<not> py_in (PInt line_join_index) LINE_JOIN_TYPES then raise_exception self else py_return ())
        (\<lambda>_. py_lift (py_getitem LINE_JOIN_TYPES line_join_index)) lib1)"

definition stroke_line_join_setter :: "drawing \<Rightarrow> pyval \<Rightarrow> unit py" where
  "stroke_line_join_setter self line_join lib =
     (if \<not> isinstance_string line_join then (Inl (TypeError ''expected a string, not ''), lib)
      else if \<not> py_in line_join LINE_JOIN_TYPES
      then (Inl (ValueError ''expected a string from LINE_JOIN_TYPES, not''), lib)
      else (case py_index LINE_JOIN_TYPES line_join of
              Inl e \<Rightarrow> (Inl e, lib)
            | Inr i \<Rightarrow> (Inr (), DrawSetStrokeLineJoin (resource self) (int i) lib)))"

definition text_alignment_getter :: "drawing \<Rightarrow> pyval py" where
  "text_alignment_getter self lib =
     (let (text_alignment_index, lib1) = DrawGetTextAlignment (resource self) lib in
      py_bind (if text_alignment_index = 0 then raise_exception self else py_return ())
        (\<lambda>_. py_lift (py_getitem TEXT_ALIGN_TYPES text_alignment_index)) lib1)"

definition text_alignment_setter :: "drawing \<Rightarrow> pyval \<Rightarrow> unit py" where
  "text_alignment_setter self align lib =
     (if \<not> isinstance_string align then (Inl (TypeError ''expected a string, not ''), lib)
      else if \<not> py_in align TEXT_ALIGN_TYPES
      then (Inl (ValueError ''expected a string from TEXT_ALIGN_TYPES, not ''), lib)
      else (case py_index TEXT_ALIGN_TYPES align of
              Inl e \<Rightarrow> (Inl e, lib)
            | Inr i \<Rightarrow> (Inr (), DrawSetTextAlignment (resource self) (int i) lib)))"

definition text_decoration_getter :: "drawing \<Rightarrow> pyval py" where
  "text_decoration_getter self lib =
     (let (text_decoration_index, lib1) = DrawGetTextDecoration (resource self) lib in
      py_bind (if text_decoration_index = 0 then raise_exception self else py_return ())
        (\<lambda>_. py_lift (py_getitem TEXT_DECORATION_TYPES text_decoration_index)) lib1)"

definition text_decoration_setter :: "drawing \<Rightarrow> pyval \<Rightarrow> unit py" where
  "text_decoration_setter self decoration lib =
     (if \<not> isinstance_string decoration then (Inl (TypeError ''expected a string, not ''), lib)
      else if \<not> py_in decoration TEXT_DECORATION_TYPES
      then (Inl (ValueError ''expected a string from TEXT_DECORATION_TYPES, not ''), lib)
      else (case py_index TEXT_DECORATION_TYPES decoration of
              Inl e \<Rightarrow> (Inl e, lib)
            | Inr i \<Rightarrow> (Inr (), DrawSetTextDecoration (resource self) (int i) lib)))"

definition text_direction_getter :: "drawing \<Rightarrow> pyval py" where
  "text_direction_getter self lib =
     (let (text_direction_index, lib1) = DrawGetTextDirection (resource self) lib in
      py_bind (if text_direction_index = 0 then raise_exception self else py_return ())
        (\<lambda>_. py_lift (py_getitem TEXT_DIRECTION_TYPES text_direction_index)) lib1)"

definition text_direction_setter :: "drawing \<Rightarrow> pyval \<Rightarrow> unit py" where
  "text_direction_setter self direction lib =
     (if \<not> isinstance_string direction then (Inl (TypeError ''expected a string, not ''), lib)
      else if \<not> py_in direction TEXT_DIRECTION_TYPES
      then (Inl (ValueError ''expected a string from TEXT_DIRECTION_TYPES, not ''), lib)
      else (case py_index TEXT_DIRECTION_TYPES direction of
              Inl e \<Rightarrow> (Inl e, lib)
            | Inr i \<Rightarrow> (Inr (), DrawSetTextDirection (resource self) (int i) lib)))"

definition gravity_getter :: "drawing \<Rightarrow> pyval py" where
  "gravity_getter self lib =
     (let (gravity_index, lib1) = DrawGetGravity (resource self) lib in
      py_bind (if gravity_index = 0 then raise_exception self else py_return ())
        (\<lambda>_. py_lift (py_getitem GRAVITY_TYPES gravity_index)) lib1)"

definition gravity_setter :: "drawing \<Rightarrow> pyval \<Rightarrow> unit py" where
  "gravity_setter self value lib =
     (if \<not> isinstance_string value then (Inl (TypeError ''expected a string, not ''), lib)
      else if \<not> py_in value GRAVITY_TYPES
      then (Inl (ValueError ''expected a string from GRAVITY_TYPES, not ''), lib)
      else (case py_index GRAVITY_TYPES value of
              Inl e \<Rightarrow> (Inl e, lib)
            | Inr i \<Rightarrow> (Inr (), DrawSetGravity (resource self) (int i) lib)))"

subsection \<open>Numeric properties\<close>

definition font_size_getter :: "drawing \<Rightarrow> pyval py" where
  "font_size_getter self lib =
     (let (r, lib1) = DrawGetFontSize (resource self) lib in (Inr (float_val r), lib1))"

definition font_size_setter :: "drawing \<Rightarrow> pyval \<Rightarrow> unit py" where
  "font_size_setter self size' lib =
     (if \<not> isinstance_Real size'
      then (Inl (TypeError ''expected a numbers.Real, but got ''), lib)
      else if py_lt size' (PFloat 0)
      then (Inl (ValueError ''cannot be less then 0.0, but got ''), lib)
      else (Inr (), DrawSetFontSize (resource self) size' lib))"

definition stroke_width_getter :: "drawing \<Rightarrow> pyval py" where
  "stroke_width_getter self lib =
     (let (r, lib1) = DrawGetStrokeWidth (resource self) lib in (Inr (float_val r), lib1))"

definition stroke_width_setter :: "drawing \<Rightarrow> pyval \<Rightarrow> unit py" where
  "stroke_width_setter self width lib =
     (if \<not> isinstance_Real width
      then (Inl (TypeError ''expected a numbers.Real, but got ''), lib)
      else if py_lt width (PFloat 0)
      then (Inl (ValueError ''cannot be less then 0.0, but got ''), lib)
      else (Inr (), DrawSetStrokeWidth (resource self) width lib))"

text \<open>The guarded property: each accessor first tests its own entry point against \<^verbatim>\<open>None\<close>.\<close>

definition text_interline_spacing_getter :: "drawing \<Rightarrow> pyval py" where
  "text_interline_spacing_getter self lib =
     (if \<not> has_DrawGetTextInterlineSpacing lib
      then (Inl (WandLibraryVersionError
                  ''The installed version of ImageMagick does not support this feature''), lib)
      else (let (r, lib1) = DrawGetTextInterlineSpacing (resource self) lib
            in (Inr (float_val r), lib1)))"

definition text_interline_spacing_setter :: "drawing \<Rightarrow> pyval \<Rightarrow> unit py" where
  "text_interline_spacing_setter self spacing lib =
     (if \<not> has_DrawSetTextInterlineSpacing lib
      then (Inl (WandLibraryVersionError
                  ''The installed version of ImageMagick does not support this feature''), lib)
      else if \<not> isinstance_Real spacing
      then (Inl (TypeError ''expected a numbers.Real, but got ''), lib)
      else (Inr (), DrawSetTextInterlineSpacing (resource self) spacing lib))"

subsection \<open>Construction, cloning and the stroke colour\<close>

text \<open>
  Modelled from the spec: \<^verbatim>\<open>NewDrawingWand\<close> and \<^verbatim>\<open>CloneDrawingWand\<close> of the
  native library. Both hand out the next free handle; a clone starts with a copy of the
  state of its source ("cloning allocates a brand-new handle by asking the native
  library to duplicate internal state").
\<close>

definition NewDrawingWand :: "library \<Rightarrow> nat \<times> library" where
  "NewDrawingWand lib =
     (next_handle lib,
      lib\<lparr>wands := (wands lib)(next_handle lib := fresh_wand lib),
          next_handle := Suc (next_handle lib),
          calls := calls lib @ [NativeCall ''NewDrawingWand'' (next_handle lib) []]\<rparr>)"

definition CloneDrawingWand :: "nat \<Rightarrow> library \<Rightarrow> nat \<times> library" where
  "CloneDrawingWand h lib =
     (next_handle lib,
      lib\<lparr>wands := (wands lib)(next_handle lib := wands lib h),
          next_handle := Suc (next_handle lib),
          calls := calls lib @ [NativeCall ''CloneDrawingWand'' h []]\<rparr>)"

text \<open>Truth value of a Python object, as \<^verbatim>\<open>if\<close>, \<^verbatim>\<open>not\<close> and \<^verbatim>\<open>bool()\<close> take it.\<close>

definition truthy :: "pyval \<Rightarrow> bool" where
  "truthy v =
     (case v of
        PNone \<Rightarrow> False
      | PBool b \<Rightarrow> b
      | PInt i \<Rightarrow> i \<noteq> 0
      | PFloat r \<Rightarrow> r \<noteq> 0
      | PNonfinite n \<Rightarrow> True
      | PStr s \<Rightarrow> s \<noteq> []
      | PTuple xs \<Rightarrow> xs \<noteq> []
      | PList xs \<Rightarrow> xs \<noteq> []
      | PColor c \<Rightarrow> True
      | PDrawing d \<Rightarrow> True)"

text \<open>\<^verbatim>\<open>Drawing.__init__(self, drawing=None)\<close>; the result is the new object.\<close>

definition Drawing_init :: "pyval \<Rightarrow> drawing py" where
  "Drawing_init drawing lib =
     (if \<not> truthy drawing
      then (let (wand, lib1) = NewDrawingWand lib in (Inr \<lparr>resource = wand\<rparr>, lib1))
      else (case drawing of
              PDrawing d \<Rightarrow>
                (let (wand, lib1) = CloneDrawingWand (resource d) lib
                 in (Inr \<lparr>resource = wand\<rparr>, lib1))
            | _ \<Rightarrow>
                (Inl (TypeError ''drawing must be a wand.drawing.Drawing instance, not ''),
                 lib)))"

definition clone :: "drawing \<Rightarrow> drawing py" where
  "clone self = Drawing_init (PDrawing self)"

text \<open>
  The colour travels through a pixel wand of the class \<^verbatim>\<open>Color\<close>, which is not part
  of the sources; the trace records the drawing-wand call only.
\<close>

definition DrawSetStrokeColor :: "nat \<Rightarrow> color \<Rightarrow> library \<Rightarrow> library" where
  "DrawSetStrokeColor h c lib =
     wand_update h (\<lambda>w. w\<lparr>w_stroke_color := c\<rparr>)
       (library_call ''DrawSetStrokeColor'' h [ColorArg c] lib)"

definition DrawGetStrokeColor :: "nat \<Rightarrow> library \<Rightarrow> color \<times> library" where
  "DrawGetStrokeColor h lib =
     (w_stroke_color (wands lib h), library_call ''DrawGetStrokeColor'' h [] lib)"

definition stroke_color_getter :: "drawing \<Rightarrow> pyval py" where
  "stroke_color_getter self lib =
     (let (c, lib1) = DrawGetStrokeColor (resource self) lib in (Inr (PColor c), lib1))"

definition stroke_color_setter :: "drawing \<Rightarrow> pyval \<Rightarrow> unit py" where
  "stroke_color_setter self color lib =
     (case color of
        PColor c \<Rightarrow> (Inr (), DrawSetStrokeColor (resource self) c lib)
      | _ \<Rightarrow> (Inl (TypeError ''color must be a wand.color.Color object, not ''), lib))"

subsection \<open>Rectangles\<close>

definition DrawRectangle :: "nat \<Rightarrow> pyval \<Rightarrow> pyval \<Rightarrow> pyval \<Rightarrow> pyval \<Rightarrow> library \<Rightarrow> library" where
  "DrawRectangle h x1 y1 x2 y2 lib =
     library_call ''DrawRectangle'' h [PyArg x1, PyArg y1, PyArg x2, PyArg y2] lib"

text \<open>
  The two \<^verbatim>\<open>if\<close> statements after the chain of type checks: each yields the second
  corner coordinate or raises.
\<close>

definition rectangle_right :: "pyval \<Rightarrow> pyval \<Rightarrow> pyval \<Rightarrow> error + pyval" where
  "rectangle_right left right width =
     (if right = PNone
      then (if py_lt width (PInt 0) then Inl (ValueError ''width must be positive, not '')
            else py_add left width)
      else if py_lt right left then Inl (ValueError ''right must be more than left'')
      else Inr right)"

definition rectangle_bottom :: "pyval \<Rightarrow> pyval \<Rightarrow> pyval \<Rightarrow> error + pyval" where
  "rectangle_bottom top' bottom height =
     (if bottom = PNone
      then (if py_lt height (PInt 0) then Inl (ValueError ''height must be positive, not '')
            else py_add top' height)
      else if py_lt bottom top' then Inl (ValueError ''bottom must be more than top'')
      else Inr bottom)"

definition rectangle ::
  "drawing \<Rightarrow> pyval \<Rightarrow> pyval \<Rightarrow> pyval \<Rightarrow> pyval \<Rightarrow> pyval \<Rightarrow> pyval \<Rightarrow> unit py" where
  "rectangle self left top' right bottom width height lib =
     (if left = PNone then (Inl (TypeError ''left is missing''), lib)
      else if top' = PNone then (Inl (TypeError ''top is missing''), lib)
      else if right = PNone \<and> width = PNone
      then (Inl (TypeError ''right/width is missing''), lib)
      else if bottom = PNone \<and> height = PNone
      then (Inl (TypeError ''bottom/height is missing''), lib)
      else if \<not> (right = PNone \<or> width = PNone)
      then (Inl (TypeError
             ''parameters right and width are exclusive each other; use one at a time''), lib)
      else if \<not> (bottom = PNone \<or> height = PNone)
      then (Inl (TypeError
             ''parameters bottom and height are exclusive each other; use one at a time''), lib)
      else if \<not> isinstance_Real left
      then (Inl (TypeError ''left must be numbers.Real, not ''), lib)
      else if \<not> isinstance_Real top'
      then (Inl (TypeError ''top must be numbers.Real, not ''), lib)
      else if \<not> (right = PNone \<or> isinstance_Real right)
      then (Inl (TypeError ''right must be numbers.Real, not ''), lib)
      else if \<not> (bottom = PNone \<or> isinstance_Real bottom)
      then (Inl (TypeError ''bottom must be numbers.Real, not ''), lib)
      else if \<not> (width = PNone \<or> isinstance_Real width)
      then (Inl (TypeError ''width must be numbers.Real, not ''), lib)
      else if \<not> (height = PNone \<or> isinstance_Real height)
      then (Inl (TypeError ''height must be numbers.Real, not ''), lib)
      else (case rectangle_right left right width of
              Inl e \<Rightarrow> (Inl e, lib)
            | Inr right' \<Rightarrow>
                (case rectangle_bottom top' bottom height of
                   Inl e \<Rightarrow> (Inl e, lib)
                 | Inr bottom' \<Rightarrow>
                     raise_exception self
                       (DrawRectangle (resource self) left top' right' bottom' lib))))"

subsection \<open>Coordinate lists\<close>

text \<open>
  \<^verbatim>\<open>p[i]\<close> on an arbitrary object with a non-negative index, \<^verbatim>\<open>ctypes.c_double(v)\<close>,
  and the loop of \<^verbatim>\<open>_list_to_point_info\<close> over the indices of the flat array.
\<close>

definition py_subscript :: "pyval \<Rightarrow> nat \<Rightarrow> error + pyval" where
  "py_subscript p i =
     (case p of
        PTuple xs \<Rightarrow>
          (if i < length xs then Inr (xs ! i) else Inl (IndexError ''tuple index out of range''))
      | PList xs \<Rightarrow>
          (if i < length xs then Inr (xs ! i) else Inl (IndexError ''list index out of range''))
      | PStr s \<Rightarrow>
          (if i < length s then Inr (PStr [s ! i])
           else Inl (IndexError ''string index out of range''))
      | _ \<Rightarrow> Inl (TypeError ''object is not subscriptable''))"

definition c_double :: "pyval \<Rightarrow> error + double" where
  "c_double v =
     (if isinstance_Real v then to_double v else Inl (TypeError ''float expected''))"

fun point_info_loop :: "pyval list \<Rightarrow> nat list \<Rightarrow> double list \<Rightarrow> error + double list" where
  "point_info_loop points [] point_info = Inr point_info"
| "point_info_loop points (double_index # rest) point_info =
     (let tuple_index = double_index div 2;
          tuple_offset = double_index mod 2
      in case py_subscript (PList points) tuple_index of
           Inl e \<Rightarrow> Inl e
         | Inr p \<Rightarrow>
             (case py_subscript p tuple_offset of
                Inl e \<Rightarrow> Inl e
              | Inr v \<Rightarrow>
                  (case c_double v of
                     Inl e \<Rightarrow> Inl e
                   | Inr r \<Rightarrow>
                       point_info_loop points rest (point_info[double_index := r]))))"

definition list_to_point_info :: "pyval \<Rightarrow> error + nat \<times> double list" where
  "list_to_point_info points =
     (case points of
        PList ps \<Rightarrow>
          (let point_length = length ps;
               tuple_size = 2;
               point_info_size = point_length * tuple_size;
               point_info = replicate point_info_size (Finite 0)
           in case point_info_loop ps [0..<point_info_size] point_info of
                Inl e \<Rightarrow> Inl e
              | Inr arr \<Rightarrow> Inr (point_length, arr))
      | _ \<Rightarrow> Inl (TypeError ''points must be a list, not ''))"

definition DrawPolygon :: "nat \<Rightarrow> nat \<Rightarrow> double list \<Rightarrow> library \<Rightarrow> library" where
  "DrawPolygon h n arr lib = library_call ''DrawPolygon'' h [IntArg (int n), ArrayArg arr] lib"

definition polygon :: "drawing \<Rightarrow> pyval \<Rightarrow> unit py" where
  "polygon self points lib =
     (case list_to_point_info points of
        Inl e \<Rightarrow> (Inl e, lib)
      | Inr (points_l, points_p) \<Rightarrow> (Inr (), DrawPolygon (resource self) points_l points_p lib))"

definition DrawPolyline :: "nat \<Rightarrow> nat \<Rightarrow> double list \<Rightarrow> library \<Rightarrow> library" where
  "DrawPolyline h n arr lib = library_call ''DrawPolyline'' h [IntArg (int n), ArrayArg arr] lib"

definition polyline :: "drawing \<Rightarrow> pyval \<Rightarrow> unit py" where
  "polyline self points lib =
     (case list_to_point_info points of
        Inl e \<Rightarrow> (Inl e, lib)
      | Inr (points_l, points_p) \<Rightarrow> (Inr (), DrawPolyline (resource self) points_l points_p lib))"

definition DrawBezier :: "nat \<Rightarrow> nat \<Rightarrow> double list \<Rightarrow> library \<Rightarrow> library" where
  "DrawBezier h n arr lib = library_call ''DrawBezier'' h [IntArg (int n), ArrayArg arr] lib"

definition bezier :: "drawing \<Rightarrow> pyval \<Rightarrow> unit py" where
  "bezier self points lib =
     (case list_to_point_info points of
        Inl e \<Rightarrow> (Inl e, lib)
      | Inr (points_l, points_p) \<Rightarrow> (Inr (), DrawBezier (resource self) points_l points_p lib))"

subsection \<open>Path operators\<close>

text \<open>
  \<^verbatim>\<open>x, y = v\<close> unpacks any iterable of exactly two items; a string of two characters
  is one.
\<close>

definition unpack2 :: "pyval \<Rightarrow> error + pyval \<times> pyval" where
  "unpack2 v =
     (case v of
        PTuple xs \<Rightarrow>
          (case xs of [a, b] \<Rightarrow> Inr (a, b) | _ \<Rightarrow> Inl (ValueError ''wrong number of values to unpack''))
      | PList xs \<Rightarrow>
          (case xs of [a, b] \<Rightarrow> Inr (a, b) | _ \<Rightarrow> Inl (ValueError ''wrong number of values to unpack''))
      | PStr cs \<Rightarrow>
          (case cs of
             [a, b] \<Rightarrow> Inr (PStr [a], PStr [b])
           | _ \<Rightarrow> Inl (ValueError ''wrong number of values to unpack''))
      | _ \<Rightarrow> Inl (TypeError ''object is not iterable''))"

text \<open>
  \<^verbatim>\<open>float(v)\<close>. Python also parses strings; the parser of float literals is the
  parameter \<open>float_of_str\<close> (\<open>None\<close> where Python raises \<^verbatim>\<open>ValueError\<close>).
  \<open>py_floats\<close> converts the arguments of one call, left to right.
\<close>

definition py_float :: "(string \<Rightarrow> double option) \<Rightarrow> pyval \<Rightarrow> error + double" where
  "py_float float_of_str v =
     (case v of
        PBool b \<Rightarrow> to_double v
      | PInt i \<Rightarrow> to_double v
      | PFloat r \<Rightarrow> to_double v
      | PNonfinite n \<Rightarrow> to_double v
      | PStr s \<Rightarrow>
          (case float_of_str s of
             Some r \<Rightarrow> Inr r
           | None \<Rightarrow> Inl (ValueError ''could not convert string to float''))
      | _ \<Rightarrow> Inl (TypeError ''float() argument must be a string or a number''))"

fun py_floats :: "(string \<Rightarrow> double option) \<Rightarrow> pyval list \<Rightarrow> error + double list" where
  "py_floats float_of_str [] = Inr []"
| "py_floats float_of_str (v # vs) =
     (case py_float float_of_str v of
        Inl e \<Rightarrow> Inl e
      | Inr r \<Rightarrow>
          (case py_floats float_of_str vs of Inl e \<Rightarrow> Inl e | Inr rs \<Rightarrow> Inr (r # rs)))"

definition path_close :: "drawing \<Rightarrow> drawing py" where
  "path_close self lib = (Inr self, library_call ''DrawPathClose'' (resource self) [] lib)"

definition path_curve :: "drawing \<Rightarrow> pyval \<Rightarrow> pyval \<Rightarrow> pyval \<Rightarrow> pyval \<Rightarrow> drawing py" where
  "path_curve self to controls smooth relative lib =
     (if to = PNone then (Inl (TypeError ''to is missing''), lib)
      else if controls = PNone then (Inl (TypeError ''controls is missing''), lib)
      else (case unpack2 to of
              Inl e \<Rightarrow> (Inl e, lib)
            | Inr (x, y) \<Rightarrow>
                (if truthy smooth
                 then (case unpack2 controls of
                         Inl e \<Rightarrow> (Inl e, lib)
                       | Inr (x2, y2) \<Rightarrow>
                           (Inr self,
                            library_call
                              (if truthy relative then ''DrawPathCurveToSmoothRelative''
                               else ''DrawPathCurveToSmoothAbsolute'')
                              (resource self) [PyArg x2, PyArg y2, PyArg x, PyArg y] lib))
                 else (case unpack2 controls of
                         Inl e \<Rightarrow> (Inl e, lib)
                       | Inr (c1, c2) \<Rightarrow>
                           (case unpack2 c1 of
                              Inl e \<Rightarrow> (Inl e, lib)
                            | Inr (x1, y1) \<Rightarrow>
                                (case unpack2 c2 of
                                   Inl e \<Rightarrow> (Inl e, lib)
                                 | Inr (x2, y2) \<Rightarrow>
                                     (Inr self,
                                      library_call
                                        (if truthy relative then ''DrawPathCurveToRelative''
                                         else ''DrawPathCurveToAbsolute'')
                                        (resource self)
                                        [PyArg x1, PyArg y1, PyArg x2, PyArg y2, PyArg x, PyArg y]
                                        lib)))))))"

definition path_curve_to_quadratic_bezier ::
  "(string \<Rightarrow> double option) \<Rightarrow> drawing \<Rightarrow> pyval \<Rightarrow> pyval \<Rightarrow> pyval \<Rightarrow> pyval \<Rightarrow> drawing py" where
  "path_curve_to_quadratic_bezier float_of_str self to control smooth relative lib =
     (if to = PNone then (Inl (TypeError ''to is missing''), lib)
      else (case unpack2 to of
              Inl e \<Rightarrow> (Inl e, lib)
            | Inr (x, y) \<Rightarrow>
                (if truthy smooth
                 then (case py_floats float_of_str [x, y] of
                         Inl e \<Rightarrow> (Inl e, lib)
                       | Inr rs \<Rightarrow>
                           (Inr self,
                            library_call
                              (if truthy relative
                               then ''DrawPathCurveToQuadraticBezierSmoothRelative''
                               else ''DrawPathCurveToQuadraticBezierSmoothAbsolute'')
                              (resource self) (map DoubleArg rs) lib))
                 else if control = PNone then (Inl (TypeError ''control is missing''), lib)
                 else (case unpack2 control of
                         Inl e \<Rightarrow> (Inl e, lib)
                       | Inr (x1, y1) \<Rightarrow>
                           (case py_floats float_of_str [x1, y1, x, y] of
                              Inl e \<Rightarrow> (Inl e, lib)
                            | Inr rs \<Rightarrow>
                                (Inr self,
                                 library_call
                                   (if truthy relative
                                    then ''DrawPathCurveToQuadraticBezierRelative''
                                    else ''DrawPathCurveToQuadraticBezierAbsolute'')
                                   (resource self) (map DoubleArg rs) lib))))))"

definition path_elliptic_arc ::
  "(string \<Rightarrow> double option) \<Rightarrow> drawing \<Rightarrow> pyval \<Rightarrow> pyval \<Rightarrow> pyval \<Rightarrow> pyval \<Rightarrow> pyval \<Rightarrow> pyval
     \<Rightarrow> drawing py" where
  "path_elliptic_arc float_of_str self to radius rotation large_arc clockwise relative lib =
     (if to = PNone then (Inl (TypeError ''to is missing''), lib)
      else if radius = PNone then (Inl (TypeError ''radius is missing''), lib)
      else (case unpack2 to of
              Inl e \<Rightarrow> (Inl e, lib)
            | Inr (x, y) \<Rightarrow>
                (case unpack2 radius of
                   Inl e \<Rightarrow> (Inl e, lib)
                 | Inr (rx, ry) \<Rightarrow>
                     (case py_floats float_of_str [rx, ry, rotation] of
                        Inl e \<Rightarrow> (Inl e, lib)
                      | Inr rs \<Rightarrow>
                          (case py_floats float_of_str [x, y] of
                             Inl e \<Rightarrow> (Inl e, lib)
                           | Inr ts \<Rightarrow>
                               (Inr self,
                                library_call
                                  (if truthy relative then ''DrawPathEllipticArcRelative''
                                   else ''DrawPathEllipticArcAbsolute'')
                                  (resource self)
                                  (map DoubleArg rs
                                   @ [BoolArg (truthy large_arc), BoolArg (truthy clockwise)]
                                   @ map DoubleArg ts)
                                  lib))))))"

definition path_finish :: "drawing \<Rightarrow> drawing py" where
  "path_finish self lib = (Inr self, library_call ''DrawPathFinish'' (resource self) [] lib)"

definition path_line :: "(string \<Rightarrow> double option) \<Rightarrow> drawing \<Rightarrow> pyval \<Rightarrow> pyval \<Rightarrow> drawing py" where
  "path_line float_of_str self to relative lib =
     (if to = PNone then (Inl (TypeError ''to is missing''), lib)
      else (case unpack2 to of
              Inl e \<Rightarrow> (Inl e, lib)
            | Inr (x, y) \<Rightarrow>
                (case py_floats float_of_str [x, y] of
                   Inl e \<Rightarrow> (Inl e, lib)
                 | Inr rs \<Rightarrow>
                     (Inr self,
                      library_call
                        (if truthy relative then ''DrawPathLineToRelative''
                         else ''DrawPathLineToAbsolute'')
                        (resource self) (map DoubleArg rs) lib))))"

definition path_horizontal_line ::
  "(string \<Rightarrow> double option) \<Rightarrow> drawing \<Rightarrow> pyval \<Rightarrow> pyval \<Rightarrow> drawing py" where
  "path_horizontal_line float_of_str self x relative lib =
     (if x = PNone then (Inl (TypeError ''x is missing''), lib)
      else (case py_floats float_of_str [x] of
              Inl e \<Rightarrow> (Inl e, lib)
            | Inr rs \<Rightarrow>
                (Inr self,
                 library_call
                   (if truthy relative then ''DrawPathLineToHorizontalRelative''
                    else ''DrawPathLineToHorizontalAbsolute'')
                   (resource self) (map DoubleArg rs) lib)))"

definition path_vertical_line ::
  "(string \<Rightarrow> double option) \<Rightarrow> drawing \<Rightarrow> pyval \<Rightarrow> pyval \<Rightarrow> drawing py" where
  "path_vertical_line float_of_str self y relative lib =
     (if y = PNone then (Inl (TypeError ''y is missing''), lib)
      else (case py_floats float_of_str [y] of
              Inl e \<Rightarrow> (Inl e, lib)
            | Inr rs \<Rightarrow>
                (Inr self,
                 library_call
                   (if truthy relative then ''DrawPathLineToVerticalRelative''
                    else ''DrawPathLineToVerticalAbsolute'')
                   (resource self) (map DoubleArg rs) lib)))"

definition path_move :: "(string \<Rightarrow> double option) \<Rightarrow> drawing \<Rightarrow> pyval \<Rightarrow> pyval \<Rightarrow> drawing py" where
  "path_move float_of_str self to relative lib =
     (if to = PNone then (Inl (TypeError ''to is missing''), lib)
      else (case unpack2 to of
              Inl e \<Rightarrow> (Inl e, lib)
            | Inr (x, y) \<Rightarrow>
                (case py_floats float_of_str [x, y] of
                   Inl e \<Rightarrow> (Inl e, lib)
                 | Inr rs \<Rightarrow>
                     (Inr self,
                      library_call
                        (if truthy relative then ''DrawPathMoveToRelative''
                         else ''DrawPathMoveToAbsolute'')
                        (resource self) (map DoubleArg rs) lib))))"

definition path_start :: "drawing \<Rightarrow> drawing py" where
  "path_start self lib = (Inr self, library_call ''DrawPathStart'' (resource self) [] lib)"

section \<open>Well-formed coordinate lists\<close>

text \<open>
  What the documentation of \<^verbatim>\<open>polygon\<close> calls a list of x,y tuples: each item a
  tuple or list of exactly two numbers. A pair is convertible when both numbers have a
  double, which excludes only an \<^verbatim>\<open>int\<close> too large for one. \<open>flat_coordinates\<close>
  is the array \<open>x0, y0, x1, y1, \<dots>\<close> of the coordinates as doubles; it states the
  expected result of \<open>list_to_point_info\<close> and is not used by the model of the code.
\<close>

definition numeric_pair :: "pyval \<Rightarrow> bool" where
  "numeric_pair p =
     (case p of
        PTuple [x, y] \<Rightarrow> isinstance_Real x \<and> isinstance_Real y
      | PList [x, y] \<Rightarrow> isinstance_Real x \<and> isinstance_Real y
      | _ \<Rightarrow> False)"

definition has_double :: "pyval \<Rightarrow> bool" where
  "has_double v = (case to_double v of Inl e \<Rightarrow> False | Inr d \<Rightarrow> True)"

definition double_val :: "pyval \<Rightarrow> double" where
  "double_val v = (case to_double v of Inl e \<Rightarrow> Finite 0 | Inr d \<Rightarrow> d)"

definition convertible_pair :: "pyval \<Rightarrow> bool" where
  "convertible_pair p =
     (case p of
        PTuple [x, y] \<Rightarrow> isinstance_Real x \<and> isinstance_Real y \<and> has_double x \<and> has_double y
      | PList [x, y] \<Rightarrow> isinstance_Real x \<and> isinstance_Real y \<and> has_double x \<and> has_double y
      | _ \<Rightarrow> False)"

definition pair_coordinates :: "pyval \<Rightarrow> double list" where
  "pair_coordinates p =
     (case p of
        PTuple [x, y] \<Rightarrow> [double_val x, double_val y]
      | PList [x, y] \<Rightarrow> [double_val x, double_val y]
      | _ \<Rightarrow> [])"

definition flat_coordinates :: "pyval list \<Rightarrow> double list" where
  "flat_coordinates ps = concat (map pair_coordinates ps)"

text \<open>The coordinate at position \<open>d\<close> of the flat order \<open>x0, y0, x1, y1, \<dots>\<close>.\<close>

definition coordinate :: "pyval list \<Rightarrow> nat \<Rightarrow> pyval" where
  "coordinate ps d =
     (case ps ! (d div 2) of
        PTuple xs \<Rightarrow> xs ! (d mod 2)
      | PList xs \<Rightarrow> xs ! (d mod 2)
      | _ \<Rightarrow> PNone)"

section \<open>Example states\<close>

text \<open>
  A library with one open wand (handle 0) and nothing pending, the same library with an
  error pending on that wand, and a library loaded without the inter-line spacing entry
  points.
\<close>

definition example_wand :: wand where
  "example_wand =
     \<lparr>w_clip_rule = 0, w_clip_units = 0, w_fill_rule = 1, w_stroke_line_cap = 1,
      w_stroke_line_join = 1, w_text_alignment = 1, w_text_decoration = 1,
      w_text_direction = 1, w_gravity = 0, w_font_size = Finite 12,
      w_stroke_width = Finite 1,
      w_stroke_color = Color ''#000'', w_text_interline_spacing = Finite 0,
      w_exception = None\<rparr>"

definition example_library :: library where
  "example_library =
     \<lparr>wands = (\<lambda>_. example_wand), next_handle = 1, fresh_wand = example_wand,
      calls = [], has_DrawGetTextInterlineSpacing = True,
      has_DrawSetTextInterlineSpacing = True\<rparr>"

definition pending_library :: library where
  "pending_library =
     wand_update 0 (\<lambda>w. w\<lparr>w_exception := Some ''MemoryAllocationFailed''\<rparr>) example_library"

definition old_library :: library where
  "old_library =
     example_library\<lparr>has_DrawGetTextInterlineSpacing := False,
                     has_DrawSetTextInterlineSpacing := False\<rparr>"

definition example_drawing :: drawing where
  "example_drawing = \<lparr>resource = 0\<rparr>"

section \<open>Properties\<close>

subsection \<open>Floating point\<close>

lemma bit_length_0: "bit_length 0 = 0"
  by (simp add: bit_length.simps)

lemma bit_length_Suc: "n \<noteq> 0 \<Longrightarrow> bit_length n = Suc (bit_length (n div 2))"
  by (subst bit_length.simps) simp

lemma bit_length_unique: "2 ^ k \<le> n \<Longrightarrow> n < 2 ^ Suc k \<Longrightarrow> bit_length n = Suc k"
proof (induction k arbitrary: n)
  case 0
  then have "n = 1" by simp
  then show ?case by (simp add: bit_length_Suc bit_length_0)
next
  case (Suc k)
  then have "n \<noteq> 0" "2 ^ k \<le> n div 2" "n div 2 < 2 ^ Suc k" by auto
  with Suc.IH [of "n div 2"] show ?case by (simp add: bit_length_Suc)
qed

lemma bit_length_le: "n < 2 ^ k \<Longrightarrow> bit_length n \<le> k"
proof (induction k arbitrary: n)
  case 0
  then show ?case by (simp add: bit_length_0)
next
  case (Suc k)
  show ?case
  proof (cases "n = 0")
    case True
    then show ?thesis by (simp add: bit_length_0)
  next
    case False
    from Suc.prems have "n div 2 < 2 ^ k" by auto
    with Suc.IH [of "n div 2"] False show ?thesis by (simp add: bit_length_Suc)
  qed
qed

lemma bit_length_pos: "n \<noteq> 0 \<Longrightarrow> 0 < bit_length n"
  by (simp add: bit_length_Suc)

lemma float_exponent_eq:
  assumes "2 ^ k \<le> \<bar>r\<bar>" "\<bar>r\<bar> < 2 ^ Suc k"
  shows "float_exponent r = int k"
proof -
  have one: "1 \<le> \<bar>r\<bar>"
    using assms(1) one_le_power [of "2::real" k] by linarith
  let ?n = "nat \<lfloor>\<bar>r\<bar>\<rfloor>"
  have "(2::int) ^ k \<le> \<lfloor>\<bar>r\<bar>\<rfloor>"
    using assms(1) by (simp add: le_floor_iff)
  then have lo: "2 ^ k \<le> ?n"
    by (metis nat_mono nat_power_eq nat_numeral zero_le_numeral numeral_2_eq_2)
  have "\<lfloor>\<bar>r\<bar>\<rfloor> < (2::int) ^ Suc k"
    using assms(2) by (simp add: floor_less_iff)
  then have hi: "?n < 2 ^ Suc k"
    by (simp add: nat_less_iff)
  from bit_length_unique [OF lo hi] one show ?thesis
    by (simp add: float_exponent_def)
qed

lemma round_half_even_of_int: "round_half_even (of_int k) = k"
  by (simp add: round_half_even_def)

lemma round_double_at:
  assumes "2 ^ k \<le> \<bar>r\<bar>" "\<bar>r\<bar> < 2 ^ Suc k"
  shows "round_double r =
     (let v = of_int (round_half_even (r / pow2 (int k - 52))) * pow2 (int k - 52)
      in if 2 ^ 1024 \<le> \<bar>v\<bar> then Nonfinite (if 0 < r then PosInf else NegInf) else Finite v)"
proof -
  have "(0::real) < 2 ^ k" by simp
  with assms(1) have "0 < \<bar>r\<bar>" by linarith
  then have "r \<noteq> 0" by auto
  then show ?thesis
    by (simp add: round_double_def float_exponent_eq [OF assms] Let_def max_def)
qed

lemma round_double_int:
  assumes "\<bar>i\<bar> < 2 ^ 53"
  shows "round_double (of_int i) = Finite (of_int i)"
proof (cases "i = 0")
  case True
  then show ?thesis by (simp add: round_double_def)
next
  case False
  let ?n = "nat \<bar>i\<bar>"
  have n: "?n \<noteq> 0" "?n < 2 ^ 53"
    using False assms by (simp_all add: nat_less_iff)
  define b where "b = bit_length ?n"
  have b: "0 < b" "b \<le> 53"
    using bit_length_pos [OF n(1)] bit_length_le [OF n(2)] by (simp_all add: b_def)
  have one: "1 \<le> \<bar>real_of_int i\<bar>"
    using False by (metis of_int_abs of_int_1_le_iff int_one_le_iff_zero_less zero_less_abs_iff)
  have fl: "\<lfloor>\<bar>real_of_int i\<bar>\<rfloor> = \<bar>i\<bar>"
    by (metis floor_of_int of_int_abs)
  have e: "float_exponent (of_int i) = int b - 1"
    using one by (simp add: float_exponent_def fl b_def)
  define j where "j = 53 - b"
  have j: "int b - 1 - 52 = - int j" "max (int b - 1) (- 1022) = int b - 1"
    using b by (simp_all add: j_def)
  have ulp: "pow2 (max (float_exponent (real_of_int i)) (- 1022) - 52) = 1 / 2 ^ j"
    by (simp only: e j) (simp add: pow2_def)
  have q: "real_of_int i / (1 / 2 ^ j) = of_int (i * 2 ^ j)"
    by simp
  have v: "of_int (round_half_even (real_of_int i / (1 / 2 ^ j))) * (1 / 2 ^ j) = real_of_int i"
    by (simp only: q round_half_even_of_int) simp
  have small: "\<not> (2::real) ^ 1024 \<le> \<bar>real_of_int i\<bar>"
  proof -
    have "\<bar>real_of_int i\<bar> < 2 ^ 53"
      using assms by (metis of_int_abs of_int_less_iff of_int_numeral of_int_power)
    moreover have "(2::real) ^ 53 \<le> 2 ^ 1024" by (rule power_increasing) simp_all
    ultimately show ?thesis by linarith
  qed
  show ?thesis
    unfolding round_double_def Let_def ulp v using False small by simp
qed

lemma round_double_2_53_1: "round_double (2 ^ 53 + 1) = Finite (2 ^ 53)"
proof -
  have "(2::real) ^ 53 \<le> \<bar>2 ^ 53 + 1\<bar>" "\<bar>(2::real) ^ 53 + 1\<bar> < 2 ^ Suc 53"
    by simp_all
  from round_double_at [OF this] show ?thesis
    by (simp add: pow2_def round_half_even_def Let_def)
qed

lemma round_double_2_53: "round_double (2 ^ 53) = Finite (2 ^ 53)"
proof -
  have "(2::real) ^ 53 \<le> \<bar>2 ^ 53\<bar>" "\<bar>(2::real) ^ 53\<bar> < 2 ^ Suc 53"
    by simp_all
  from round_double_at [OF this] show ?thesis
    by (simp add: pow2_def round_half_even_def Let_def)
qed

lemma round_double_2_1024: "round_double (2 ^ 1024) = Nonfinite PosInf"
proof -
  have "(2::real) ^ 1024 \<le> \<bar>2 ^ 1024\<bar>" "\<bar>(2::real) ^ 1024\<bar> < 2 ^ Suc 1024"
    by simp_all
  from round_double_at [OF this] show ?thesis
    by (simp add: pow2_def round_half_even_def Let_def)
qed


lemma bit_length_bounds:
  "n \<noteq> 0 \<Longrightarrow> 2 ^ (bit_length n - 1) \<le> n \<and> n < 2 ^ bit_length n"
proof (induction n rule: less_induct)
  case (less n)
  show ?case
  proof (cases "n div 2 = 0")
    case True
    with less.prems have "n = 1" by auto
    then show ?thesis by (simp add: bit_length_Suc bit_length_0)
  next
    case False
    with less.prems have "n div 2 < n" by simp
    from less.IH [OF this False]
    have ih: "2 ^ (bit_length (n div 2) - 1) \<le> n div 2" "n div 2 < 2 ^ bit_length (n div 2)"
      by simp_all
    have p: "0 < bit_length (n div 2)" using False by (rule bit_length_pos)
    have b: "bit_length n = Suc (bit_length (n div 2))"
      using less.prems by (rule bit_length_Suc)
    have "(2::nat) ^ bit_length (n div 2) = 2 * 2 ^ (bit_length (n div 2) - 1)"
      using p by (cases "bit_length (n div 2)") simp_all
    moreover have "2 * (n div 2) \<le> n" by simp
    ultimately have lo: "2 ^ bit_length (n div 2) \<le> n" using ih(1) by linarith
    have "n < 2 * (n div 2) + 2" by presburger
    then have hi: "n < 2 * 2 ^ bit_length (n div 2)" using ih(2) by linarith
    show ?thesis using lo hi by (simp add: b)
  qed
qed

lemma real_pow2_le: "2 ^ k \<le> n \<Longrightarrow> (2::real) ^ k \<le> real n"
proof -
  assume "2 ^ k \<le> n"
  then have "real (2 ^ k) \<le> real n" by (simp only: of_nat_le_iff)
  then show ?thesis by simp
qed

lemma real_less_pow2: "n < 2 ^ k \<Longrightarrow> real n + 1 \<le> 2 ^ k"
proof -
  assume "n < 2 ^ k"
  then have "Suc n \<le> 2 ^ k" by simp
  then have "real (Suc n) \<le> real (2 ^ k)" by (simp only: of_nat_le_iff)
  then show ?thesis by simp
qed

lemma float_exponent_bracket:
  assumes "r \<noteq> 0"
  shows "pow2 (float_exponent r) \<le> \<bar>r\<bar> \<and> \<bar>r\<bar> < pow2 (float_exponent r + 1)"
proof (cases "1 \<le> \<bar>r\<bar>")
  case True
  let ?n = "nat \<lfloor>\<bar>r\<bar>\<rfloor>"
  have n: "?n \<noteq> 0" using True by (simp add: le_floor_iff)
  let ?b = "bit_length ?n"
  from bit_length_bounds [OF n] have bb: "2 ^ (?b - 1) \<le> ?n" "?n < 2 ^ ?b" by simp_all
  have p: "0 < ?b" using n by (rule bit_length_pos)
  have e: "float_exponent r = int ?b - 1" using True by (simp add: float_exponent_def)
  have "real ?n \<le> \<bar>r\<bar>" by simp
  with real_pow2_le [OF bb(1)] have lo: "(2::real) ^ (?b - 1) \<le> \<bar>r\<bar>" by linarith
  have "\<bar>r\<bar> < real ?n + 1" by linarith
  with real_less_pow2 [OF bb(2)] have hi: "\<bar>r\<bar> < 2 ^ ?b" by linarith
  have "nat (int ?b - 1) = ?b - 1" by simp
  then have 1: "pow2 (int ?b - 1) = 2 ^ (?b - 1)" using p by (simp add: pow2_def)
  have 2: "pow2 (int ?b - 1 + 1) = 2 ^ ?b" by (simp add: pow2_def)
  show ?thesis unfolding e 1 2 using lo hi by blast
next
  case False
  define x where "x = 1 / \<bar>r\<bar>"
  have r: "0 < \<bar>r\<bar>" "\<bar>r\<bar> < 1" using assms False by simp_all
  have x: "1 < x" using r by (simp add: x_def)
  let ?m = "nat (\<lceil>x\<rceil> - 1)"
  have c: "2 \<le> \<lceil>x\<rceil>" using x by linarith
  then have m: "?m \<noteq> 0" by simp
  let ?b = "bit_length ?m"
  from bit_length_bounds [OF m] have bb: "2 ^ (?b - 1) \<le> ?m" "?m < 2 ^ ?b" by simp_all
  have p: "0 < ?b" using m by (rule bit_length_pos)
  have e: "float_exponent r = - int ?b" using False by (simp add: float_exponent_def x_def)
  have mr: "real ?m = of_int \<lceil>x\<rceil> - 1" using c by simp
  have "x \<le> real ?m + 1" using mr by linarith
  with real_less_pow2 [OF bb(2)] have xb: "x \<le> 2 ^ ?b" by linarith
  have lo: "1 / 2 ^ ?b \<le> \<bar>r\<bar>"
  proof -
    have "1 / 2 ^ ?b \<le> 1 / x" using xb x by (simp add: frac_le)
    then show ?thesis using r(1) by (simp add: x_def)
  qed
  have "real ?m < x" using mr by linarith
  with real_pow2_le [OF bb(1)] have bx: "2 ^ (?b - 1) < x" by linarith
  have hi: "\<bar>r\<bar> < 1 / 2 ^ (?b - 1)"
  proof -
    have "1 / x < 1 / 2 ^ (?b - 1)" using bx by (simp add: frac_less2)
    then show ?thesis using r(1) by (simp add: x_def)
  qed
  have 1: "pow2 (- int ?b) = 1 / 2 ^ ?b" using p by (simp add: pow2_def)
  have 2: "pow2 (- int ?b + 1) = 1 / 2 ^ (?b - 1)"
  proof (cases "?b = 1")
    case True
    then show ?thesis by (simp add: pow2_def)
  next
    case False
    with p have "- int ?b + 1 < 0" "nat (int ?b - 1) = ?b - 1" by simp_all
    then show ?thesis by (simp add: pow2_def)
  qed
  show ?thesis unfolding e 1 2 using lo hi by blast
qed

lemma round_double_examples:
  "round_double 9007199254740993 = Finite 9007199254740992"
  "round_double 9007199254740992 = Finite 9007199254740992"
  using round_double_2_53_1 round_double_2_53 by simp_all

lemma to_double_PInt: "\<bar>i\<bar> < 2 ^ 53 \<Longrightarrow> to_double (PInt i) = Inr (Finite (real_of_int i))"
  by (simp add: to_double_def int_val_def double_of_int_def round_double_int)

lemma to_double_PBool: "to_double (PBool b) = Inr (Finite (if b then 1 else 0))"
  using round_double_int [of 1] round_double_int [of 0]
  by (simp add: to_double_def int_val_def double_of_int_def)

lemma to_double_PFloat: "to_double (PFloat r) = Inr (Finite r)"
  by (simp add: to_double_def)

lemma to_double_PNonfinite: "to_double (PNonfinite n) = Inr (Nonfinite n)"
  by (simp add: to_double_def)

lemmas to_double_simps = to_double_PInt to_double_PBool to_double_PFloat to_double_PNonfinite

lemma to_double_error: "to_double v = Inl e \<Longrightarrow> \<exists>m. e = OverflowError m"
  by (cases v) (auto simp: to_double_def double_of_int_def split: double.splits)

lemma double_of_int_2_1024:
  "double_of_int (2 ^ 1024) = Inl (OverflowError ''int too large to convert to float'')"
proof -
  have "real_of_int (2 ^ 1024) = 2 ^ 1024" by simp
  then show ?thesis
    unfolding double_of_int_def by (simp only: round_double_2_1024 double.case)
qed


subsection \<open>Tables, membership and the trace\<close>

lemma py_eq_PStr: "py_eq (PStr s) v = (v = PStr s)"
  by (simp add: isinstance_Real_def)

lemma py_in_strings:
  "\<forall>x\<in>set xs. isinstance_string x \<Longrightarrow> py_in v xs = (v \<in> set xs)"
proof (induction xs)
  case Nil
  then show ?case by simp
next
  case (Cons x xs)
  then obtain s where "x = PStr s"
    by (cases x) (auto simp: isinstance_string_def)
  with Cons show ?case by (auto simp: isinstance_Real_def)
qed

lemma py_in_PInt_strings:
  "\<forall>x\<in>set xs. isinstance_string x \<Longrightarrow> \<not> py_in (PInt i) xs"
  by (auto simp: py_in_strings isinstance_string_def)

lemma py_index_nth:
  "distinct xs \<Longrightarrow> \<forall>x\<in>set xs. isinstance_string x \<Longrightarrow> i < length xs
     \<Longrightarrow> py_index xs (xs ! i) = Inr i"
proof (induction xs arbitrary: i)
  case Nil
  then show ?case by simp
next
  case (Cons x xs)
  then obtain s where x: "x = PStr s"
    by (cases x) (auto simp: isinstance_string_def)
  show ?case
  proof (cases i)
    case 0
    then show ?thesis by (simp add: x isinstance_Real_def)
  next
    case (Suc j)
    with Cons.prems have "xs ! j \<noteq> x" "j < length xs" by auto
    with Cons Suc x show ?thesis by (auto simp: isinstance_Real_def)
  qed
qed

lemma py_getitem_nth: "i < length xs \<Longrightarrow> py_getitem xs (int i) = Inr (xs ! i)"
  by (simp add: py_getitem_def Let_def)

lemmas tables_defs = CLIP_PATH_UNITS_def TEXT_ALIGN_TYPES_def TEXT_DECORATION_TYPES_def
  TEXT_DIRECTION_TYPES_def GRAVITY_TYPES_def FILL_RULE_TYPES_def LINE_CAP_TYPES_def
  LINE_JOIN_TYPES_def

lemma tables_strings:
  "\<forall>x\<in>set CLIP_PATH_UNITS. isinstance_string x"
  "\<forall>x\<in>set TEXT_ALIGN_TYPES. isinstance_string x"
  "\<forall>x\<in>set TEXT_DECORATION_TYPES. isinstance_string x"
  "\<forall>x\<in>set TEXT_DIRECTION_TYPES. isinstance_string x"
  "\<forall>x\<in>set GRAVITY_TYPES. isinstance_string x"
  "\<forall>x\<in>set FILL_RULE_TYPES. isinstance_string x"
  "\<forall>x\<in>set LINE_CAP_TYPES. isinstance_string x"
  "\<forall>x\<in>set LINE_JOIN_TYPES. isinstance_string x"
  by (simp_all add: tables_defs isinstance_string_def)

lemma tables_distinct:
  "distinct CLIP_PATH_UNITS"
  "distinct TEXT_ALIGN_TYPES"
  "distinct TEXT_DECORATION_TYPES"
  "distinct TEXT_DIRECTION_TYPES"
  "distinct GRAVITY_TYPES"
  "distinct FILL_RULE_TYPES"
  "distinct LINE_CAP_TYPES"
  "distinct LINE_JOIN_TYPES"
  by (simp_all add: tables_defs)

lemma calls_library_call [simp]:
  "calls (library_call name h args lib) = calls lib @ [NativeCall name h args]"
  by (simp add: library_call_def)

lemma calls_wand_update [simp]: "calls (wand_update h f lib) = calls lib"
  by (simp add: wand_update_def)

lemma wands_library_call [simp]: "wands (library_call name h args lib) = wands lib"
  by (simp add: library_call_def)

lemma wands_wand_update [simp]:
  "wands (wand_update h f lib) = (wands lib)(h := f (wands lib h))"
  by (simp add: wand_update_def)


lemmas py_in_tables =
  py_in_strings [OF tables_strings(1)] py_in_strings [OF tables_strings(2)]
  py_in_strings [OF tables_strings(3)] py_in_strings [OF tables_strings(4)]
  py_in_strings [OF tables_strings(5)] py_in_strings [OF tables_strings(6)]
  py_in_strings [OF tables_strings(7)] py_in_strings [OF tables_strings(8)]

lemmas py_index_tables =
  py_index_nth [OF tables_distinct(1) tables_strings(1)]
  py_index_nth [OF tables_distinct(2) tables_strings(2)]
  py_index_nth [OF tables_distinct(3) tables_strings(3)]
  py_index_nth [OF tables_distinct(4) tables_strings(4)]
  py_index_nth [OF tables_distinct(5) tables_strings(5)]
  py_index_nth [OF tables_distinct(6) tables_strings(6)]
  py_index_nth [OF tables_distinct(7) tables_strings(7)]
  py_index_nth [OF tables_distinct(8) tables_strings(8)]

lemmas py_in_PInt_tables =
  py_in_PInt_strings [OF tables_strings(1)] py_in_PInt_strings [OF tables_strings(2)]
  py_in_PInt_strings [OF tables_strings(3)] py_in_PInt_strings [OF tables_strings(4)]
  py_in_PInt_strings [OF tables_strings(5)] py_in_PInt_strings [OF tables_strings(6)]
  py_in_PInt_strings [OF tables_strings(7)] py_in_PInt_strings [OF tables_strings(8)]

lemma nth_isinstance_string:
  "\<forall>x\<in>set xs. isinstance_string x \<Longrightarrow> i < length xs \<Longrightarrow> isinstance_string (xs ! i)"
  by simp

lemmas nth_string_tables =
  nth_isinstance_string [OF tables_strings(1)] nth_isinstance_string [OF tables_strings(2)]
  nth_isinstance_string [OF tables_strings(3)] nth_isinstance_string [OF tables_strings(4)]
  nth_isinstance_string [OF tables_strings(5)] nth_isinstance_string [OF tables_strings(6)]
  nth_isinstance_string [OF tables_strings(7)] nth_isinstance_string [OF tables_strings(8)]


lemma clip_rule_setter_reject:
  "PStr s \<notin> set FILL_RULE_TYPES \<Longrightarrow>
   clip_rule_setter self (PStr s) lib = (Inl (ValueError ''expected a string from FILE_RULE_TYPES, not''), lib)"
  by (simp add: clip_rule_setter_def isinstance_string_def py_in_tables)

lemma clip_rule_setter_accept:
  "i < length FILL_RULE_TYPES \<Longrightarrow>
   clip_rule_setter self (FILL_RULE_TYPES ! i) lib = (Inr (), DrawSetClipRule (resource self) (int i) lib)"
  by (simp add: clip_rule_setter_def py_in_tables py_index_tables nth_string_tables)

lemma calls_DrawSetClipRule:
  "calls (DrawSetClipRule h i lib) = calls lib @ [NativeCall ''DrawSetClipRule'' h [IntArg i]]"
  by (simp add: DrawSetClipRule_def)

lemma DrawGet_DrawSet_ClipRule:
  "fst (DrawGetClipRule h (DrawSetClipRule h i lib)) = i"
  by (simp add: DrawGetClipRule_def DrawSetClipRule_def)

lemma exception_DrawSetClipRule:
  "w_exception (wands (DrawSetClipRule h i lib) h') = w_exception (wands lib h')"
  by (simp add: DrawSetClipRule_def)

lemma clip_rule_roundtrip:
  "i < length FILL_RULE_TYPES \<Longrightarrow>
   fst (clip_rule_getter self (snd (clip_rule_setter self (FILL_RULE_TYPES ! i) lib))) = Inr (FILL_RULE_TYPES ! i)"
  by (simp add: clip_rule_setter_accept clip_rule_getter_def DrawGetClipRule_def DrawSetClipRule_def
      py_getitem_nth py_lift_def py_return_def)

lemma clip_units_setter_reject:
  "PStr s \<notin> set CLIP_PATH_UNITS \<Longrightarrow>
   clip_units_setter self (PStr s) lib = (Inl (ValueError ''expected a string from CLIP_PATH_UNITS, not''), lib)"
  by (simp add: clip_units_setter_def isinstance_string_def py_in_tables)

lemma clip_units_setter_accept:
  "i < length CLIP_PATH_UNITS \<Longrightarrow>
   clip_units_setter self (CLIP_PATH_UNITS ! i) lib = (Inr (), DrawSetClipUnits (resource self) (int i) lib)"
  by (simp add: clip_units_setter_def py_in_tables py_index_tables nth_string_tables)

lemma calls_DrawSetClipUnits:
  "calls (DrawSetClipUnits h i lib) = calls lib @ [NativeCall ''DrawSetClipUnits'' h [IntArg i]]"
  by (simp add: DrawSetClipUnits_def)

lemma DrawGet_DrawSet_ClipUnits:
  "fst (DrawGetClipUnits h (DrawSetClipUnits h i lib)) = i"
  by (simp add: DrawGetClipUnits_def DrawSetClipUnits_def)

lemma exception_DrawSetClipUnits:
  "w_exception (wands (DrawSetClipUnits h i lib) h') = w_exception (wands lib h')"
  by (simp add: DrawSetClipUnits_def)

lemma clip_units_roundtrip:
  "i < length CLIP_PATH_UNITS \<Longrightarrow>
   fst (clip_units_getter self (snd (clip_units_setter self (CLIP_PATH_UNITS ! i) lib))) = Inr (CLIP_PATH_UNITS ! i)"
  by (simp add: clip_units_setter_accept clip_units_getter_def DrawGetClipUnits_def DrawSetClipUnits_def
      py_getitem_nth py_lift_def py_return_def)

lemma fill_rule_setter_reject:
  "PStr s \<notin> set FILL_RULE_TYPES \<Longrightarrow>
   fill_rule_setter self (PStr s) lib = (Inl (ValueError ''expected a string from FILE_RULE_TYPES, not''), lib)"
  by (simp add: fill_rule_setter_def isinstance_string_def py_in_tables)

lemma fill_rule_setter_accept:
  "i < length FILL_RULE_TYPES \<Longrightarrow>
   fill_rule_setter self (FILL_RULE_TYPES ! i) lib = (Inr (), DrawSetFillRule (resource self) (int i) lib)"
  by (simp add: fill_rule_setter_def py_in_tables py_index_tables nth_string_tables)

lemma calls_DrawSetFillRule:
  "calls (DrawSetFillRule h i lib) = calls lib @ [NativeCall ''DrawSetFillRule'' h [IntArg i]]"
  by (simp add: DrawSetFillRule_def)

lemma DrawGet_DrawSet_FillRule:
  "fst (DrawGetFillRule h (DrawSetFillRule h i lib)) = i"
  by (simp add: DrawGetFillRule_def DrawSetFillRule_def)

lemma exception_DrawSetFillRule:
  "w_exception (wands (DrawSetFillRule h i lib) h') = w_exception (wands lib h')"
  by (simp add: DrawSetFillRule_def)

lemma fill_rule_roundtrip:
  "w_exception (wands lib (resource self)) = None \<Longrightarrow> i < length FILL_RULE_TYPES \<Longrightarrow>
   fst (fill_rule_getter self (snd (fill_rule_setter self (FILL_RULE_TYPES ! i) lib))) = Inr (FILL_RULE_TYPES ! i)"
  using py_getitem_nth [of i FILL_RULE_TYPES]
  by (auto simp: fill_rule_setter_accept fill_rule_getter_def DrawGetFillRule_def DrawSetFillRule_def
      py_lift_def py_return_def py_bind_def raise_exception_def
      DrawGetException_def)

lemma stroke_line_cap_setter_reject:
  "PStr s \<notin> set LINE_CAP_TYPES \<Longrightarrow>
   stroke_line_cap_setter self (PStr s) lib = (Inl (ValueError ''expected a string from LINE_CAP_TYPES, not''), lib)"
  by (simp add: stroke_line_cap_setter_def isinstance_string_def py_in_tables)

lemma stroke_line_cap_setter_accept:
  "i < length LINE_CAP_TYPES \<Longrightarrow>
   stroke_line_cap_setter self (LINE_CAP_TYPES ! i) lib = (Inr (), DrawSetStrokeLineCap (resource self) (int i) lib)"
  by (simp add: stroke_line_cap_setter_def py_in_tables py_index_tables nth_string_tables)

lemma calls_DrawSetStrokeLineCap:
  "calls (DrawSetStrokeLineCap h i lib) = calls lib @ [NativeCall ''DrawSetStrokeLineCap'' h [IntArg i]]"
  by (simp add: DrawSetStrokeLineCap_def)

lemma DrawGet_DrawSet_StrokeLineCap:
  "fst (DrawGetStrokeLineCap h (DrawSetStrokeLineCap h i lib)) = i"
  by (simp add: DrawGetStrokeLineCap_def DrawSetStrokeLineCap_def)

lemma exception_DrawSetStrokeLineCap:
  "w_exception (wands (DrawSetStrokeLineCap h i lib) h') = w_exception (wands lib h')"
  by (simp add: DrawSetStrokeLineCap_def)

lemma stroke_line_cap_roundtrip:
  "w_exception (wands lib (resource self)) = None \<Longrightarrow> i < length LINE_CAP_TYPES \<Longrightarrow>
   fst (stroke_line_cap_getter self (snd (stroke_line_cap_setter self (LINE_CAP_TYPES ! i) lib))) = Inr (LINE_CAP_TYPES ! i)"
  using py_getitem_nth [of i LINE_CAP_TYPES]
  by (auto simp: stroke_line_cap_setter_accept stroke_line_cap_getter_def DrawGetStrokeLineCap_def DrawSetStrokeLineCap_def
      py_lift_def py_return_def py_bind_def raise_exception_def
      DrawGetException_def)

lemma stroke_line_join_setter_reject:
  "PStr s \<notin> set LINE_JOIN_TYPES \<Longrightarrow>
   stroke_line_join_setter self (PStr s) lib = (Inl (ValueError ''expected a string from LINE_JOIN_TYPES, not''), lib)"
  by (simp add: stroke_line_join_setter_def isinstance_string_def py_in_tables)

lemma stroke_line_join_setter_accept:
  "i < length LINE_JOIN_TYPES \<Longrightarrow>
   stroke_line_join_setter self (LINE_JOIN_TYPES ! i) lib = (Inr (), DrawSetStrokeLineJoin (resource self) (int i) lib)"
  by (simp add: stroke_line_join_setter_def py_in_tables py_index_tables nth_string_tables)

lemma calls_DrawSetStrokeLineJoin:
  "calls (DrawSetStrokeLineJoin h i lib) = calls lib @ [NativeCall ''DrawSetStrokeLineJoin'' h [IntArg i]]"
  by (simp add: DrawSetStrokeLineJoin_def)

lemma DrawGet_DrawSet_StrokeLineJoin:
  "fst (DrawGetStrokeLineJoin h (DrawSetStrokeLineJoin h i lib)) = i"
  by (simp add: DrawGetStrokeLineJoin_def DrawSetStrokeLineJoin_def)

lemma exception_DrawSetStrokeLineJoin:
  "w_exception (wands (DrawSetStrokeLineJoin h i lib) h') = w_exception (wands lib h')"
  by (simp add: DrawSetStrokeLineJoin_def)

lemma stroke_line_join_roundtrip:
  "w_exception (wands lib (resource self)) = None \<Longrightarrow> i < length LINE_JOIN_TYPES \<Longrightarrow>
   fst (stroke_line_join_getter self (snd (stroke_line_join_setter self (LINE_JOIN_TYPES ! i) lib))) = Inr (LINE_JOIN_TYPES ! i)"
  using py_getitem_nth [of i LINE_JOIN_TYPES]
  by (auto simp: stroke_line_join_setter_accept stroke_line_join_getter_def DrawGetStrokeLineJoin_def DrawSetStrokeLineJoin_def
      py_lift_def py_return_def py_bind_def raise_exception_def
      DrawGetException_def)

lemma text_alignment_setter_reject:
  "PStr s \<notin> set TEXT_ALIGN_TYPES \<Longrightarrow>
   text_alignment_setter self (PStr s) lib = (Inl (ValueError ''expected a string from TEXT_ALIGN_TYPES, not ''), lib)"
  by (simp add: text_alignment_setter_def isinstance_string_def py_in_tables)

lemma text_alignment_setter_accept:
  "i < length TEXT_ALIGN_TYPES \<Longrightarrow>
   text_alignment_setter self (TEXT_ALIGN_TYPES ! i) lib = (Inr (), DrawSetTextAlignment (resource self) (int i) lib)"
  by (simp add: text_alignment_setter_def py_in_tables py_index_tables nth_string_tables)

lemma calls_DrawSetTextAlignment:
  "calls (DrawSetTextAlignment h i lib) = calls lib @ [NativeCall ''DrawSetTextAlignment'' h [IntArg i]]"
  by (simp add: DrawSetTextAlignment_def)

lemma DrawGet_DrawSet_TextAlignment:
  "fst (DrawGetTextAlignment h (DrawSetTextAlignment h i lib)) = i"
  by (simp add: DrawGetTextAlignment_def DrawSetTextAlignment_def)

lemma exception_DrawSetTextAlignment:
  "w_exception (wands (DrawSetTextAlignment h i lib) h') = w_exception (wands lib h')"
  by (simp add: DrawSetTextAlignment_def)

lemma text_alignment_roundtrip:
  "w_exception (wands lib (resource self)) = None \<Longrightarrow> i < length TEXT_ALIGN_TYPES \<Longrightarrow>
   fst (text_alignment_getter self (snd (text_alignment_setter self (TEXT_ALIGN_TYPES ! i) lib))) = Inr (TEXT_ALIGN_TYPES ! i)"
  using py_getitem_nth [of i TEXT_ALIGN_TYPES]
  by (auto simp: text_alignment_setter_accept text_alignment_getter_def DrawGetTextAlignment_def DrawSetTextAlignment_def
      py_lift_def py_return_def py_bind_def raise_exception_def
      DrawGetException_def)

lemma text_decoration_setter_reject:
  "PStr s \<notin> set TEXT_DECORATION_TYPES \<Longrightarrow>
   text_decoration_setter self (PStr s) lib = (Inl (ValueError ''expected a string from TEXT_DECORATION_TYPES, not ''), lib)"
  by (simp add: text_decoration_setter_def isinstance_string_def py_in_tables)

lemma text_decoration_setter_accept:
  "i < length TEXT_DECORATION_TYPES \<Longrightarrow>
   text_decoration_setter self (TEXT_DECORATION_TYPES ! i) lib = (Inr (), DrawSetTextDecoration (resource self) (int i) lib)"
  by (simp add: text_decoration_setter_def py_in_tables py_index_tables nth_string_tables)

lemma calls_DrawSetTextDecoration:
  "calls (DrawSetTextDecoration h i lib) = calls lib @ [NativeCall ''DrawSetTextDecoration'' h [IntArg i]]"
  by (simp add: DrawSetTextDecoration_def)

lemma DrawGet_DrawSet_TextDecoration:
  "fst (DrawGetTextDecoration h (DrawSetTextDecoration h i lib)) = i"
  by (simp add: DrawGetTextDecoration_def DrawSetTextDecoration_def)

lemma exception_DrawSetTextDecoration:
  "w_exception (wands (DrawSetTextDecoration h i lib) h') = w_exception (wands lib h')"
  by (simp add: DrawSetTextDecoration_def)

lemma text_decoration_roundtrip:
  "w_exception (wands lib (resource self)) = None \<Longrightarrow> i < length TEXT_DECORATION_TYPES \<Longrightarrow>
   fst (text_decoration_getter self (snd (text_decoration_setter self (TEXT_DECORATION_TYPES ! i) lib))) = Inr (TEXT_DECORATION_TYPES ! i)"
  using py_getitem_nth [of i TEXT_DECORATION_TYPES]
  by (auto simp: text_decoration_setter_accept text_decoration_getter_def DrawGetTextDecoration_def DrawSetTextDecoration_def
      py_lift_def py_return_def py_bind_def raise_exception_def
      DrawGetException_def)

lemma text_direction_setter_reject:
  "PStr s \<notin> set TEXT_DIRECTION_TYPES \<Longrightarrow>
   text_direction_setter self (PStr s) lib = (Inl (ValueError ''expected a string from TEXT_DIRECTION_TYPES, not ''), lib)"
  by (simp add: text_direction_setter_def isinstance_string_def py_in_tables)

lemma text_direction_setter_accept:
  "i < length TEXT_DIRECTION_TYPES \<Longrightarrow>
   text_direction_setter self (TEXT_DIRECTION_TYPES ! i) lib = (Inr (), DrawSetTextDirection (resource self) (int i) lib)"
  by (simp add: text_direction_setter_def py_in_tables py_index_tables nth_string_tables)

lemma calls_DrawSetTextDirection:
  "calls (DrawSetTextDirection h i lib) = calls lib @ [NativeCall ''DrawSetTextDirection'' h [IntArg i]]"
  by (simp add: DrawSetTextDirection_def)

lemma DrawGet_DrawSet_TextDirection:
  "fst (DrawGetTextDirection h (DrawSetTextDirection h i lib)) = i"
  by (simp add: DrawGetTextDirection_def DrawSetTextDirection_def)

lemma exception_DrawSetTextDirection:
  "w_exception (wands (DrawSetTextDirection h i lib) h') = w_exception (wands lib h')"
  by (simp add: DrawSetTextDirection_def)

lemma text_direction_roundtrip:
  "w_exception (wands lib (resource self)) = None \<Longrightarrow> i < length TEXT_DIRECTION_TYPES \<Longrightarrow>
   fst (text_direction_getter self (snd (text_direction_setter self (TEXT_DIRECTION_TYPES ! i) lib))) = Inr (TEXT_DIRECTION_TYPES ! i)"
  using py_getitem_nth [of i TEXT_DIRECTION_TYPES]
  by (auto simp: text_direction_setter_accept text_direction_getter_def DrawGetTextDirection_def DrawSetTextDirection_def
      py_lift_def py_return_def py_bind_def raise_exception_def
      DrawGetException_def)

lemma gravity_setter_reject:
  "PStr s \<notin> set GRAVITY_TYPES \<Longrightarrow>
   gravity_setter self (PStr s) lib = (Inl (ValueError ''expected a string from GRAVITY_TYPES, not ''), lib)"
  by (simp add: gravity_setter_def isinstance_string_def py_in_tables)

lemma gravity_setter_accept:
  "i < length GRAVITY_TYPES \<Longrightarrow>
   gravity_setter self (GRAVITY_TYPES ! i) lib = (Inr (), DrawSetGravity (resource self) (int i) lib)"
  by (simp add: gravity_setter_def py_in_tables py_index_tables nth_string_tables)

lemma calls_DrawSetGravity:
  "calls (DrawSetGravity h i lib) = calls lib @ [NativeCall ''DrawSetGravity'' h [IntArg i]]"
  by (simp add: DrawSetGravity_def)

lemma DrawGet_DrawSet_Gravity:
  "fst (DrawGetGravity h (DrawSetGravity h i lib)) = i"
  by (simp add: DrawGetGravity_def DrawSetGravity_def)

lemma exception_DrawSetGravity:
  "w_exception (wands (DrawSetGravity h i lib) h') = w_exception (wands lib h')"
  by (simp add: DrawSetGravity_def)

lemma gravity_roundtrip:
  "w_exception (wands lib (resource self)) = None \<Longrightarrow> i < length GRAVITY_TYPES \<Longrightarrow>
   fst (gravity_getter self (snd (gravity_setter self (GRAVITY_TYPES ! i) lib))) = Inr (GRAVITY_TYPES ! i)"
  using py_getitem_nth [of i GRAVITY_TYPES]
  by (auto simp: gravity_setter_accept gravity_getter_def DrawGetGravity_def DrawSetGravity_def
      py_lift_def py_return_def py_bind_def raise_exception_def
      DrawGetException_def)


text \<open>
  C4: each setter of an enumerated property, given a string outside its table, raises
  \<^verbatim>\<open>ValueError\<close> and leaves the library as it was (no native call); given the
  token at position \<open>i\<close> of its table it returns normally and adds exactly one native
  call, \<^verbatim>\<open>DrawSet...\<close> on the wand of the drawing with argument \<open>i\<close>.
\<close>

theorem enum_setters_validate:
  "(\<forall>s. PStr s \<notin> set FILL_RULE_TYPES \<longrightarrow>
        clip_rule_setter self (PStr s) lib = (Inl (ValueError ''expected a string from FILE_RULE_TYPES, not''), lib))
   \<and> (\<forall>i<length FILL_RULE_TYPES.
        fst (clip_rule_setter self (FILL_RULE_TYPES ! i) lib) = Inr ()
        \<and> calls (snd (clip_rule_setter self (FILL_RULE_TYPES ! i) lib)) =
            calls lib @ [NativeCall ''DrawSetClipRule'' (resource self) [IntArg (int i)]])
   \<and> (\<forall>s. PStr s \<notin> set CLIP_PATH_UNITS \<longrightarrow>
        clip_units_setter self (PStr s) lib = (Inl (ValueError ''expected a string from CLIP_PATH_UNITS, not''), lib))
   \<and> (\<forall>i<length CLIP_PATH_UNITS.
        fst (clip_units_setter self (CLIP_PATH_UNITS ! i) lib) = Inr ()
        \<and> calls (snd (clip_units_setter self (CLIP_PATH_UNITS ! i) lib)) =
            calls lib @ [NativeCall ''DrawSetClipUnits'' (resource self) [IntArg (int i)]])
   \<and> (\<forall>s. PStr s \<notin> set FILL_RULE_TYPES \<longrightarrow>
        fill_rule_setter self (PStr s) lib = (Inl (ValueError ''expected a string from FILE_RULE_TYPES, not''), lib))
   \<and> (\<forall>i<length FILL_RULE_TYPES.
        fst (fill_rule_setter self (FILL_RULE_TYPES ! i) lib) = Inr ()
        \<and> calls (snd (fill_rule_setter self (FILL_RULE_TYPES ! i) lib)) =
            calls lib @ [NativeCall ''DrawSetFillRule'' (resource self) [IntArg (int i)]])
   \<and> (\<forall>s. PStr s \<notin> set LINE_CAP_TYPES \<longrightarrow>
        stroke_line_cap_setter self (PStr s) lib = (Inl (ValueError ''expected a string from LINE_CAP_TYPES, not''), lib))
   \<and> (\<forall>i<length LINE_CAP_TYPES.
        fst (stroke_line_cap_setter self (LINE_CAP_TYPES ! i) lib) = Inr ()
        \<and> calls (snd (stroke_line_cap_setter self (LINE_CAP_TYPES ! i) lib)) =
            calls lib @ [NativeCall ''DrawSetStrokeLineCap'' (resource self) [IntArg (int i)]])
   \<and> (\<forall>s. PStr s \<notin> set LINE_JOIN_TYPES \<longrightarrow>
        stroke_line_join_setter self (PStr s) lib = (Inl (ValueError ''expected a string from LINE_JOIN_TYPES, not''), lib))
   \<and> (\<forall>i<length LINE_JOIN_TYPES.
        fst (stroke_line_join_setter self (LINE_JOIN_TYPES ! i) lib) = Inr ()
        \<and> calls (snd (stroke_line_join_setter self (LINE_JOIN_TYPES ! i) lib)) =
            calls lib @ [NativeCall ''DrawSetStrokeLineJoin'' (resource self) [IntArg (int i)]])
   \<and> (\<forall>s. PStr s \<notin> set TEXT_ALIGN_TYPES \<longrightarrow>
        text_alignment_setter self (PStr s) lib = (Inl (ValueError ''expected a string from TEXT_ALIGN_TYPES, not ''), lib))
   \<and> (\<forall>i<length TEXT_ALIGN_TYPES.
        fst (text_alignment_setter self (TEXT_ALIGN_TYPES ! i) lib) = Inr ()
        \<and> calls (snd (text_alignment_setter self (TEXT_ALIGN_TYPES ! i) lib)) =
            calls lib @ [NativeCall ''DrawSetTextAlignment'' (resource self) [IntArg (int i)]])
   \<and> (\<forall>s. PStr s \<notin> set TEXT_DECORATION_TYPES \<longrightarrow>
        text_decoration_setter self (PStr s) lib = (Inl (ValueError ''expected a string from TEXT_DECORATION_TYPES, not ''), lib))
   \<and> (\<forall>i<length TEXT_DECORATION_TYPES.
        fst (text_decoration_setter self (TEXT_DECORATION_TYPES ! i) lib) = Inr ()
        \<and> calls (snd (text_decoration_setter self (TEXT_DECORATION_TYPES ! i) lib)) =
            calls lib @ [NativeCall ''DrawSetTextDecoration'' (resource self) [IntArg (int i)]])
   \<and> (\<forall>s. PStr s \<notin> set TEXT_DIRECTION_TYPES \<longrightarrow>
        text_direction_setter self (PStr s) lib = (Inl (ValueError ''expected a string from TEXT_DIRECTION_TYPES, not ''), lib))
   \<and> (\<forall>i<length TEXT_DIRECTION_TYPES.
        fst (text_direction_setter self (TEXT_DIRECTION_TYPES ! i) lib) = Inr ()
        \<and> calls (snd (text_direction_setter self (TEXT_DIRECTION_TYPES ! i) lib)) =
            calls lib @ [NativeCall ''DrawSetTextDirection'' (resource self) [IntArg (int i)]])
   \<and> (\<forall>s. PStr s \<notin> set GRAVITY_TYPES \<longrightarrow>
        gravity_setter self (PStr s) lib = (Inl (ValueError ''expected a string from GRAVITY_TYPES, not ''), lib))
   \<and> (\<forall>i<length GRAVITY_TYPES.
        fst (gravity_setter self (GRAVITY_TYPES ! i) lib) = Inr ()
        \<and> calls (snd (gravity_setter self (GRAVITY_TYPES ! i) lib)) =
            calls lib @ [NativeCall ''DrawSetGravity'' (resource self) [IntArg (int i)]])"
  by (simp add: clip_rule_setter_reject clip_rule_setter_accept calls_DrawSetClipRule clip_units_setter_reject clip_units_setter_accept calls_DrawSetClipUnits fill_rule_setter_reject fill_rule_setter_accept calls_DrawSetFillRule stroke_line_cap_setter_reject stroke_line_cap_setter_accept calls_DrawSetStrokeLineCap stroke_line_join_setter_reject stroke_line_join_setter_accept calls_DrawSetStrokeLineJoin text_alignment_setter_reject text_alignment_setter_accept calls_DrawSetTextAlignment text_decoration_setter_reject text_decoration_setter_accept calls_DrawSetTextDecoration text_direction_setter_reject text_direction_setter_accept calls_DrawSetTextDirection gravity_setter_reject gravity_setter_accept calls_DrawSetGravity)

theorem enum_setters_validate_witness:
  "fill_rule_setter example_drawing (PStr ''winding'') example_library =
     (Inl (ValueError ''expected a string from FILE_RULE_TYPES, not''), example_library)
   \<and> fst (text_decoration_setter example_drawing (PStr ''underline'') example_library) = Inr ()
   \<and> calls (snd (text_decoration_setter example_drawing (PStr ''underline'') example_library)) =
       [NativeCall ''DrawSetTextDecoration'' 0 [IntArg 2]]"
proof -
  have a: "PStr ''winding'' \<notin> set FILL_RULE_TYPES"
    by (simp add: FILL_RULE_TYPES_def)
  have b: "2 < length TEXT_DECORATION_TYPES"
    by (simp add: TEXT_DECORATION_TYPES_def)
  have c: "TEXT_DECORATION_TYPES ! 2 = PStr ''underline''"
    by (simp add: TEXT_DECORATION_TYPES_def)
  have d: "calls example_library = []" "resource example_drawing = 0"
    by (simp_all add: example_library_def example_drawing_def)
  from enum_setters_validate [of example_drawing example_library] a b
  have "fill_rule_setter example_drawing (PStr ''winding'') example_library =
          (Inl (ValueError ''expected a string from FILE_RULE_TYPES, not''), example_library)"
    and "fst (text_decoration_setter example_drawing (TEXT_DECORATION_TYPES ! 2) example_library)
          = Inr ()"
    and "calls (snd (text_decoration_setter example_drawing (TEXT_DECORATION_TYPES ! 2)
            example_library)) =
          calls example_library
          @ [NativeCall ''DrawSetTextDecoration'' (resource example_drawing) [IntArg (int 2)]]"
    by blast+
  then show ?thesis by (simp add: c d)
qed

lemma py_lt_zero: "isinstance_Real v \<Longrightarrow> num_val v < 0 \<Longrightarrow> py_lt v (PFloat 0)"
  by (cases v) (simp_all add: isinstance_Real_def py_lt_def nonfinite_of_def num_val_def)

text \<open>
  C5: the setters of \<^verbatim>\<open>stroke_width\<close> and \<^verbatim>\<open>font_size\<close> raise
  \<^verbatim>\<open>ValueError\<close> on a negative real (a finite one of negative value, and in general
  any real that compares below \<^verbatim>\<open>0.0\<close>, which adds the negative infinity) and
  \<^verbatim>\<open>TypeError\<close> on a value that is not a real; in both cases the library is returned
  unchanged, so no native call was made.
\<close>

theorem numeric_setters_validate:
  "(isinstance_Real v \<and> num_val v < 0 \<longrightarrow>
      stroke_width_setter self v lib =
        (Inl (ValueError ''cannot be less then 0.0, but got ''), lib)
      \<and> font_size_setter self v lib =
        (Inl (ValueError ''cannot be less then 0.0, but got ''), lib))
   \<and> (\<not> isinstance_Real v \<longrightarrow>
      stroke_width_setter self v lib =
        (Inl (TypeError ''expected a numbers.Real, but got ''), lib)
      \<and> font_size_setter self v lib =
        (Inl (TypeError ''expected a numbers.Real, but got ''), lib))
   \<and> (isinstance_Real v \<and> py_lt v (PFloat 0) \<longrightarrow>
      stroke_width_setter self v lib =
        (Inl (ValueError ''cannot be less then 0.0, but got ''), lib)
      \<and> font_size_setter self v lib =
        (Inl (ValueError ''cannot be less then 0.0, but got ''), lib))"
  using py_lt_zero [of v]
  by (auto simp: stroke_width_setter_def font_size_setter_def)

theorem numeric_setters_validate_witness:
  "stroke_width_setter example_drawing (PFloat (- 1.5)) example_library =
     (Inl (ValueError ''cannot be less then 0.0, but got ''), example_library)
   \<and> font_size_setter example_drawing (PInt (- 3)) example_library =
     (Inl (ValueError ''cannot be less then 0.0, but got ''), example_library)
   \<and> stroke_width_setter example_drawing (PStr ''2'') example_library =
     (Inl (TypeError ''expected a numbers.Real, but got ''), example_library)
   \<and> font_size_setter example_drawing PNone example_library =
     (Inl (TypeError ''expected a numbers.Real, but got ''), example_library)
   \<and> font_size_setter example_drawing (PNonfinite NegInf) example_library =
     (Inl (ValueError ''cannot be less then 0.0, but got ''), example_library)"
  using numeric_setters_validate [of "PFloat (- 1.5)" example_drawing example_library]
    numeric_setters_validate [of "PInt (- 3)" example_drawing example_library]
    numeric_setters_validate [of "PStr ''2''" example_drawing example_library]
    numeric_setters_validate [of PNone example_drawing example_library]
    numeric_setters_validate [of "PNonfinite NegInf" example_drawing example_library]
  by (simp add: isinstance_Real_def num_val_def py_lt_def nonfinite_of_def)

text \<open>
  C8: when the entry point of the getter (of the setter) of
  \<^verbatim>\<open>text_interline_spacing\<close> was not resolved, the getter (the setter, whatever
  its argument) raises \<^verbatim>\<open>WandLibraryVersionError\<close> and the library is unchanged:
  no native call, and no silent return.
\<close>

theorem text_interline_spacing_guard:
  "(\<not> has_DrawGetTextInterlineSpacing lib \<longrightarrow>
      text_interline_spacing_getter self lib =
        (Inl (WandLibraryVersionError
               ''The installed version of ImageMagick does not support this feature''), lib))
   \<and> (\<not> has_DrawSetTextInterlineSpacing lib \<longrightarrow>
      text_interline_spacing_setter self spacing lib =
        (Inl (WandLibraryVersionError
               ''The installed version of ImageMagick does not support this feature''), lib))"
  by (simp add: text_interline_spacing_getter_def text_interline_spacing_setter_def)

theorem text_interline_spacing_guard_witness:
  "text_interline_spacing_getter example_drawing old_library =
     (Inl (WandLibraryVersionError
            ''The installed version of ImageMagick does not support this feature''),
      old_library)
   \<and> text_interline_spacing_setter example_drawing (PFloat 1.5) old_library =
     (Inl (WandLibraryVersionError
            ''The installed version of ImageMagick does not support this feature''),
      old_library)
   \<and> text_interline_spacing_setter example_drawing (PStr ''wide'') old_library =
     (Inl (WandLibraryVersionError
            ''The installed version of ImageMagick does not support this feature''),
      old_library)"
proof -
  have h: "\<not> has_DrawGetTextInterlineSpacing old_library"
    "\<not> has_DrawSetTextInterlineSpacing old_library"
    by (simp_all add: old_library_def)
  show ?thesis
    using h text_interline_spacing_guard [of old_library example_drawing "PFloat 1.5"]
      text_interline_spacing_guard [of old_library example_drawing "PStr ''wide''"]
    by simp
qed

lemma fill_rule_getter_unfold:
  "fill_rule_getter self lib =
     py_bind (raise_exception self) (\<lambda>_. py_lift (py_getitem FILL_RULE_TYPES (w_fill_rule (wands lib (resource self)))))
       (library_call ''DrawGetFillRule'' (resource self) [] lib)"
  by (simp add: fill_rule_getter_def DrawGetFillRule_def py_in_PInt_tables)

lemma fill_rule_getter_calls:
  "calls (snd (fill_rule_getter self lib)) =
     calls lib
     @ [NativeCall ''DrawGetFillRule'' (resource self) [],
        NativeCall ''DrawGetException'' (resource self) []]
     @ (if w_exception (wands lib (resource self)) = None then []
        else [NativeCall ''DrawClearException'' (resource self) []])"
  by (simp add: fill_rule_getter_unfold py_bind_def raise_exception_def DrawGetException_def
      DrawClearException_def py_lift_def py_raise_def py_return_def
      split: option.splits sum.splits)

lemma fill_rule_getter_pending:
  "w_exception (wands lib (resource self)) = Some msg \<Longrightarrow>
   fst (fill_rule_getter self lib) = Inl (NativeError msg)"
  by (simp add: fill_rule_getter_unfold py_bind_def raise_exception_def DrawGetException_def)

lemma stroke_line_cap_getter_unfold:
  "stroke_line_cap_getter self lib =
     py_bind (raise_exception self) (\<lambda>_. py_lift (py_getitem LINE_CAP_TYPES (w_stroke_line_cap (wands lib (resource self)))))
       (library_call ''DrawGetStrokeLineCap'' (resource self) [] lib)"
  by (simp add: stroke_line_cap_getter_def DrawGetStrokeLineCap_def py_in_PInt_tables)

lemma stroke_line_cap_getter_calls:
  "calls (snd (stroke_line_cap_getter self lib)) =
     calls lib
     @ [NativeCall ''DrawGetStrokeLineCap'' (resource self) [],
        NativeCall ''DrawGetException'' (resource self) []]
     @ (if w_exception (wands lib (resource self)) = None then []
        else [NativeCall ''DrawClearException'' (resource self) []])"
  by (simp add: stroke_line_cap_getter_unfold py_bind_def raise_exception_def DrawGetException_def
      DrawClearException_def py_lift_def py_raise_def py_return_def
      split: option.splits sum.splits)

lemma stroke_line_cap_getter_pending:
  "w_exception (wands lib (resource self)) = Some msg \<Longrightarrow>
   fst (stroke_line_cap_getter self lib) = Inl (NativeError msg)"
  by (simp add: stroke_line_cap_getter_unfold py_bind_def raise_exception_def DrawGetException_def)

lemma stroke_line_join_getter_unfold:
  "stroke_line_join_getter self lib =
     py_bind (raise_exception self) (\<lambda>_. py_lift (py_getitem LINE_JOIN_TYPES (w_stroke_line_join (wands lib (resource self)))))
       (library_call ''DrawGetStrokeLineJoin'' (resource self) [] lib)"
  by (simp add: stroke_line_join_getter_def DrawGetStrokeLineJoin_def py_in_PInt_tables)

lemma stroke_line_join_getter_calls:
  "calls (snd (stroke_line_join_getter self lib)) =
     calls lib
     @ [NativeCall ''DrawGetStrokeLineJoin'' (resource self) [],
        NativeCall ''DrawGetException'' (resource self) []]
     @ (if w_exception (wands lib (resource self)) = None then []
        else [NativeCall ''DrawClearException'' (resource self) []])"
  by (simp add: stroke_line_join_getter_unfold py_bind_def raise_exception_def DrawGetException_def
      DrawClearException_def py_lift_def py_raise_def py_return_def
      split: option.splits sum.splits)

lemma stroke_line_join_getter_pending:
  "w_exception (wands lib (resource self)) = Some msg \<Longrightarrow>
   fst (stroke_line_join_getter self lib) = Inl (NativeError msg)"
  by (simp add: stroke_line_join_getter_unfold py_bind_def raise_exception_def DrawGetException_def)

text \<open>
  C9: in the getters of \<^verbatim>\<open>fill_rule\<close>, \<^verbatim>\<open>stroke_line_cap\<close> and
  \<^verbatim>\<open>stroke_line_join\<close> the test \<^verbatim>\<open>index not in TYPES\<close> holds for every
  integer, since the table holds strings only. So every get calls
  \<^verbatim>\<open>raise_exception\<close>: the trace of every get shows the query of the last-error
  channel right after the native getter, whatever index is stored, and a pending error
  is raised whatever index is stored.
\<close>

theorem index_test_always_fails:
  "(\<forall>i. \<not> py_in (PInt i) FILL_RULE_TYPES)
   \<and> calls (snd (fill_rule_getter self lib)) =
       calls lib
       @ [NativeCall ''DrawGetFillRule'' (resource self) [],
          NativeCall ''DrawGetException'' (resource self) []]
       @ (if w_exception (wands lib (resource self)) = None then []
          else [NativeCall ''DrawClearException'' (resource self) []])
   \<and> (\<forall>msg. w_exception (wands lib (resource self)) = Some msg \<longrightarrow>
        fst (fill_rule_getter self lib) = Inl (NativeError msg))
   \<and> (\<forall>i. \<not> py_in (PInt i) LINE_CAP_TYPES)
   \<and> calls (snd (stroke_line_cap_getter self lib)) =
       calls lib
       @ [NativeCall ''DrawGetStrokeLineCap'' (resource self) [],
          NativeCall ''DrawGetException'' (resource self) []]
       @ (if w_exception (wands lib (resource self)) = None then []
          else [NativeCall ''DrawClearException'' (resource self) []])
   \<and> (\<forall>msg. w_exception (wands lib (resource self)) = Some msg \<longrightarrow>
        fst (stroke_line_cap_getter self lib) = Inl (NativeError msg))
   \<and> (\<forall>i. \<not> py_in (PInt i) LINE_JOIN_TYPES)
   \<and> calls (snd (stroke_line_join_getter self lib)) =
       calls lib
       @ [NativeCall ''DrawGetStrokeLineJoin'' (resource self) [],
          NativeCall ''DrawGetException'' (resource self) []]
       @ (if w_exception (wands lib (resource self)) = None then []
          else [NativeCall ''DrawClearException'' (resource self) []])
   \<and> (\<forall>msg. w_exception (wands lib (resource self)) = Some msg \<longrightarrow>
        fst (stroke_line_join_getter self lib) = Inl (NativeError msg))"
  by (simp add: fill_rule_getter_calls stroke_line_cap_getter_calls
      stroke_line_join_getter_calls fill_rule_getter_pending stroke_line_cap_getter_pending
      stroke_line_join_getter_pending py_in_PInt_tables)

lemma pending_library_exception:
  "w_exception (wands pending_library 0) = Some ''MemoryAllocationFailed''"
  by (simp add: pending_library_def)

theorem index_test_always_fails_witness:
  "\<not> py_in (PInt 1) LINE_CAP_TYPES
   \<and> calls (snd (fill_rule_getter example_drawing example_library)) =
       [NativeCall ''DrawGetFillRule'' 0 [], NativeCall ''DrawGetException'' 0 []]
   \<and> fst (stroke_line_join_getter example_drawing pending_library) =
       Inl (NativeError ''MemoryAllocationFailed'')"
proof -
  have a: "w_exception (wands example_library (resource example_drawing)) = None"
    "calls example_library = []" "resource example_drawing = 0"
    by (simp_all add: example_library_def example_wand_def example_drawing_def)
  have b: "w_exception (wands pending_library (resource example_drawing))
            = Some ''MemoryAllocationFailed''"
    by (simp add: pending_library_exception example_drawing_def)
  show ?thesis
    using index_test_always_fails [of example_drawing example_library]
      index_test_always_fails [of example_drawing pending_library] a b
    by simp
qed


subsection \<open>Rectangles: the two parameterizations\<close>

lemma isinstance_Real_not_None: "isinstance_Real v \<Longrightarrow> v \<noteq> PNone"
  by (auto simp: isinstance_Real_def)

lemma isinstance_Real_py_add: "py_add a b = Inr r \<Longrightarrow> isinstance_Real r"
  by (auto simp: py_add_def isinstance_Real_def float_val_def
      split: if_splits sum.splits double.splits)

lemma py_add_integers:
  "\<not> is_float a \<Longrightarrow> \<not> is_float b \<Longrightarrow> py_add a b = Inr (PInt (int_val a + int_val b))"
  by (simp add: py_add_def)

lemma num_val_integer:
  "isinstance_Real v \<Longrightarrow> \<not> is_float v \<Longrightarrow>
   num_val v = real_of_int (int_val v) \<and> nonfinite_of v = None"
  by (cases v) (simp_all add: isinstance_Real_def is_float_def num_val_def int_val_def
      nonfinite_of_def)

lemma py_lt_finite:
  "nonfinite_of a = None \<Longrightarrow> nonfinite_of b = None \<Longrightarrow> py_lt a b = (num_val a < num_val b)"
  by (simp add: py_lt_def)

lemma integer_sum_not_less:
  assumes "isinstance_Real a" "\<not> is_float a" "isinstance_Real b" "\<not> is_float b"
    "\<not> py_lt b (PInt 0)"
  shows "\<not> py_lt (PInt (int_val a + int_val b)) a"
proof -
  have a: "num_val a = real_of_int (int_val a)" "nonfinite_of a = None"
    using num_val_integer [OF assms(1,2)] by simp_all
  have b: "num_val b = real_of_int (int_val b)" "nonfinite_of b = None"
    using num_val_integer [OF assms(3,4)] by simp_all
  have f: "nonfinite_of (PInt i) = None" "num_val (PInt i) = real_of_int i" for i
    by (simp_all add: nonfinite_of_def num_val_def)
  have "\<not> num_val b < num_val (PInt 0)"
    using assms(5) unfolding py_lt_finite [OF b(2) f(1)] .
  then have "0 \<le> int_val b"
    by (simp add: b(1) f(2))
  then show ?thesis
    by (simp add: py_lt_finite [OF f(1) a(2)] f(2) a(1))
qed

lemma rectangle_corners:
  assumes "isinstance_Real left" "isinstance_Real top'" "isinstance_Real right"
    "isinstance_Real bottom"
  shows "rectangle self left top' right bottom PNone PNone lib =
     (if py_lt right left then (Inl (ValueError ''right must be more than left''), lib)
      else if py_lt bottom top' then (Inl (ValueError ''bottom must be more than top''), lib)
      else raise_exception self (DrawRectangle (resource self) left top' right bottom lib))"
  using assms isinstance_Real_not_None [OF assms(1)] isinstance_Real_not_None [OF assms(2)]
    isinstance_Real_not_None [OF assms(3)] isinstance_Real_not_None [OF assms(4)]
  by (simp add: rectangle_def rectangle_right_def rectangle_bottom_def)

lemma rectangle_dimensions:
  assumes "isinstance_Real left" "isinstance_Real top'" "isinstance_Real width"
    "isinstance_Real height"
  shows "rectangle self left top' PNone PNone width height lib =
     (if py_lt width (PInt 0) then (Inl (ValueError ''width must be positive, not ''), lib)
      else (case py_add left width of
              Inl e \<Rightarrow> (Inl e, lib)
            | Inr r \<Rightarrow>
                (if py_lt height (PInt 0)
                 then (Inl (ValueError ''height must be positive, not ''), lib)
                 else (case py_add top' height of
                         Inl e \<Rightarrow> (Inl e, lib)
                       | Inr b \<Rightarrow>
                           raise_exception self
                             (DrawRectangle (resource self) left top' r b lib)))))"
  using assms isinstance_Real_not_None [OF assms(1)] isinstance_Real_not_None [OF assms(2)]
    isinstance_Real_not_None [OF assms(3)] isinstance_Real_not_None [OF assms(4)]
  by (simp add: rectangle_def rectangle_right_def rectangle_bottom_def split: sum.splits)

lemma rectangle_exclusive_right_width:
  "right \<noteq> PNone \<Longrightarrow> width \<noteq> PNone \<Longrightarrow>
   \<exists>m. rectangle self left top' right bottom width height lib = (Inl (TypeError m), lib)"
  by (simp add: rectangle_def)

lemma rectangle_exclusive_bottom_height:
  "bottom \<noteq> PNone \<Longrightarrow> height \<noteq> PNone \<Longrightarrow>
   \<exists>m. rectangle self left top' right bottom width height lib = (Inl (TypeError m), lib)"
  by (simp add: rectangle_def)

lemma rectangle_dimensions_call:
  assumes "isinstance_Real left" "isinstance_Real top'" "isinstance_Real width"
    "isinstance_Real height" "\<not> py_lt width (PInt 0)" "\<not> py_lt height (PInt 0)"
    "py_add left width = Inr r" "py_add top' height = Inr b"
  shows "rectangle self left top' PNone PNone width height lib =
     raise_exception self (DrawRectangle (resource self) left top' r b lib)"
  using assms by (simp add: rectangle_dimensions)

lemma rectangle_forms_agree:
  assumes "isinstance_Real left" "isinstance_Real top'" "isinstance_Real width"
    "isinstance_Real height" "\<not> py_lt width (PInt 0)" "\<not> py_lt height (PInt 0)"
    "py_add left width = Inr r" "py_add top' height = Inr b"
    "\<not> py_lt r left" "\<not> py_lt b top'"
  shows "rectangle self left top' r b PNone PNone lib =
     rectangle self left top' PNone PNone width height lib"
  using assms isinstance_Real_py_add [OF assms(7)] isinstance_Real_py_add [OF assms(8)]
  by (simp add: rectangle_dimensions_call rectangle_corners)

lemma rectangle_forms_agree_integers:
  assumes "isinstance_Real left" "\<not> is_float left" "isinstance_Real top'" "\<not> is_float top'"
    "isinstance_Real width" "\<not> is_float width" "isinstance_Real height" "\<not> is_float height"
    "\<not> py_lt width (PInt 0)" "\<not> py_lt height (PInt 0)"
  shows "rectangle self left top' PNone PNone width height lib =
     rectangle self left top' (PInt (int_val left + int_val width))
       (PInt (int_val top' + int_val height)) PNone PNone lib"
proof -
  have r: "py_add left width = Inr (PInt (int_val left + int_val width))"
    using assms(2,6) by (rule py_add_integers)
  have b: "py_add top' height = Inr (PInt (int_val top' + int_val height))"
    using assms(4,8) by (rule py_add_integers)
  have nr: "\<not> py_lt (PInt (int_val left + int_val width)) left"
    using assms(1,2,5,6,9) by (rule integer_sum_not_less)
  have nb: "\<not> py_lt (PInt (int_val top' + int_val height)) top'"
    using assms(3,4,7,8,10) by (rule integer_sum_not_less)
  show ?thesis
    using rectangle_forms_agree [OF assms(1,3,5,7,9,10) r b nr nb] by simp
qed

lemma rectangle_dimensions_overflow:
  assumes "isinstance_Real left" "isinstance_Real top'" "isinstance_Real width"
    "isinstance_Real height" "\<not> py_lt width (PInt 0)" "py_add left width = Inl e"
  shows "rectangle self left top' PNone PNone width height lib = (Inl e, lib)"
  using assms by (simp add: rectangle_dimensions)

lemma py_add_rounds:
  "py_add (PInt 9007199254740993) (PFloat 0) = Inr (PFloat 9007199254740992)"
  by (simp add: py_add_def is_float_def to_double_def int_val_def double_of_int_def
      round_double_examples double_add_def float_val_def)

text \<open>
  The general form of C2 fails: with \<^verbatim>\<open>left = 2**53 + 1\<close> (an \<^verbatim>\<open>int\<close>) and
  \<^verbatim>\<open>width = 0.0\<close> the sum \<^verbatim>\<open>left + width\<close> is the float \<^verbatim>\<open>2.0**53\<close>, which
  is less than \<^verbatim>\<open>left\<close>. The width/height form makes the native call with it; the
  corner form with that \<^verbatim>\<open>right\<close> raises \<^verbatim>\<open>ValueError\<close>.
\<close>

theorem rectangle_general_counterexample:
  "py_add (PInt 9007199254740993) (PFloat 0) = Inr (PFloat 9007199254740992)
   \<and> py_add (PInt 0) (PInt 0) = Inr (PInt 0)
   \<and> rectangle example_drawing (PInt 9007199254740993) (PInt 0) PNone PNone (PFloat 0) (PInt 0)
        example_library =
      raise_exception example_drawing
        (DrawRectangle (resource example_drawing) (PInt 9007199254740993) (PInt 0)
           (PFloat 9007199254740992) (PInt 0) example_library)
   \<and> fst (rectangle example_drawing (PInt 9007199254740993) (PInt 0) PNone PNone (PFloat 0)
        (PInt 0) example_library) = Inr ()
   \<and> rectangle example_drawing (PInt 9007199254740993) (PInt 0) (PFloat 9007199254740992)
        (PInt 0) PNone PNone example_library =
      (Inl (ValueError ''right must be more than left''), example_library)
   \<and> rectangle example_drawing (PInt 9007199254740993) (PInt 0) PNone PNone (PFloat 0) (PInt 0)
        example_library \<noteq>
      rectangle example_drawing (PInt 9007199254740993) (PInt 0) (PFloat 9007199254740992)
        (PInt 0) PNone PNone example_library"
proof -
  have r: "isinstance_Real (PInt 9007199254740993)" "isinstance_Real (PInt 0)"
    "isinstance_Real (PFloat 0)" "isinstance_Real (PFloat 9007199254740992)"
    by (simp_all add: isinstance_Real_def)
  have n: "\<not> py_lt (PFloat 0) (PInt 0)" "\<not> py_lt (PInt 0) (PInt 0)"
    "py_lt (PFloat 9007199254740992) (PInt 9007199254740993)"
    by (simp_all add: py_lt_def nonfinite_of_def num_val_def)
  have b: "py_add (PInt 0) (PInt 0) = Inr (PInt 0)"
    by (simp add: py_add_def is_float_def int_val_def)
  have 1: "rectangle example_drawing (PInt 9007199254740993) (PInt 0) PNone PNone (PFloat 0)
        (PInt 0) example_library =
      raise_exception example_drawing
        (DrawRectangle (resource example_drawing) (PInt 9007199254740993) (PInt 0)
           (PFloat 9007199254740992) (PInt 0) example_library)"
    using r(1,2,3,2) n(1,2) py_add_rounds b by (rule rectangle_dimensions_call)
  have 2: "fst (raise_exception example_drawing
        (DrawRectangle (resource example_drawing) (PInt 9007199254740993) (PInt 0)
           (PFloat 9007199254740992) (PInt 0) example_library)) = Inr ()"
    by (simp add: raise_exception_def DrawGetException_def DrawRectangle_def
        example_library_def example_wand_def example_drawing_def)
  have 3: "rectangle example_drawing (PInt 9007199254740993) (PInt 0)
        (PFloat 9007199254740992) (PInt 0) PNone PNone example_library =
      (Inl (ValueError ''right must be more than left''), example_library)"
    using n(3) by (simp add: rectangle_corners [OF r(1,2,4,2)])
  have 4: "rectangle example_drawing (PInt 9007199254740993) (PInt 0) PNone PNone (PFloat 0)
        (PInt 0) example_library \<noteq>
      rectangle example_drawing (PInt 9007199254740993) (PInt 0) (PFloat 9007199254740992)
        (PInt 0) PNone PNone example_library"
  proof
    assume "rectangle example_drawing (PInt 9007199254740993) (PInt 0) PNone PNone (PFloat 0)
        (PInt 0) example_library =
      rectangle example_drawing (PInt 9007199254740993) (PInt 0) (PFloat 9007199254740992)
        (PInt 0) PNone PNone example_library"
    then have "fst (rectangle example_drawing (PInt 9007199254740993) (PInt 0) PNone PNone
        (PFloat 0) (PInt 0) example_library) =
      Inl (ValueError ''right must be more than left'')"
      by (simp only: 3 fst_conv)
    then show False by (simp only: 1 2) simp
  qed
  show ?thesis
    using py_add_rounds b 1 2 3 4 by (simp only: simp_thms)
qed

text \<open>
  C2, amended: \<^verbatim>\<open>rectangle(left=0, top=0, width=10, height=20)\<close> and
  \<^verbatim>\<open>rectangle(left=0, top=0, right=10, bottom=20)\<close> are the same computation: the call
  \<^verbatim>\<open>DrawRectangle(0, 0, 10, 20)\<close> followed by \<^verbatim>\<open>raise_exception\<close>. In general, for
  real \<open>left\<close>, \<open>top\<close> and real \<open>width\<close>, \<open>height\<close> that are not negative, when
  Python computes \<^verbatim>\<open>left + width\<close> as \<open>r\<close> and \<^verbatim>\<open>top + height\<close> as \<open>b\<close>, the
  width/height form makes the native call with \<open>r\<close> and \<open>b\<close>, and it equals the
  corner form with \<^verbatim>\<open>right = r\<close>, \<^verbatim>\<open>bottom = b\<close> whenever \<open>r\<close> is not less than
  \<open>left\<close> and \<open>b\<close> not less than \<open>top\<close>; that is always so when the four arguments
  are integers. When \<^verbatim>\<open>left + width\<close> raises (an \<^verbatim>\<open>int\<close> too large to add to a
  float) the width/height form raises that error with the library unchanged. Supplying
  both \<^verbatim>\<open>right\<close> and \<^verbatim>\<open>width\<close>, or both \<^verbatim>\<open>bottom\<close> and \<^verbatim>\<open>height\<close>, raises
  \<^verbatim>\<open>TypeError\<close> with the library unchanged.
\<close>

theorem rectangle_parameterizations:
  "rectangle self (PInt 0) (PInt 0) PNone PNone (PInt 10) (PInt 20) lib =
     rectangle self (PInt 0) (PInt 0) (PInt 10) (PInt 20) PNone PNone lib
   \<and> rectangle self (PInt 0) (PInt 0) (PInt 10) (PInt 20) PNone PNone lib =
     raise_exception self
       (DrawRectangle (resource self) (PInt 0) (PInt 0) (PInt 10) (PInt 20) lib)
   \<and> (isinstance_Real left \<and> isinstance_Real top' \<and> isinstance_Real width
      \<and> isinstance_Real height \<and> \<not> py_lt width (PInt 0) \<and> \<not> py_lt height (PInt 0)
      \<and> py_add left width = Inr r \<and> py_add top' height = Inr b \<longrightarrow>
      rectangle self left top' PNone PNone width height lib =
        raise_exception self (DrawRectangle (resource self) left top' r b lib)
      \<and> (\<not> py_lt r left \<and> \<not> py_lt b top' \<longrightarrow>
         rectangle self left top' r b PNone PNone lib =
           rectangle self left top' PNone PNone width height lib))
   \<and> (isinstance_Real left \<and> \<not> is_float left \<and> isinstance_Real top' \<and> \<not> is_float top'
      \<and> isinstance_Real width \<and> \<not> is_float width \<and> isinstance_Real height
      \<and> \<not> is_float height \<and> \<not> py_lt width (PInt 0) \<and> \<not> py_lt height (PInt 0) \<longrightarrow>
      rectangle self left top' PNone PNone width height lib =
        rectangle self left top' (PInt (int_val left + int_val width))
          (PInt (int_val top' + int_val height)) PNone PNone lib)
   \<and> (isinstance_Real left \<and> isinstance_Real top' \<and> isinstance_Real width
      \<and> isinstance_Real height \<and> \<not> py_lt width (PInt 0) \<and> py_add left width = Inl e \<longrightarrow>
      rectangle self left top' PNone PNone width height lib = (Inl e, lib))
   \<and> (right \<noteq> PNone \<and> width \<noteq> PNone \<longrightarrow>
      (\<exists>m. rectangle self left top' right bottom width height lib = (Inl (TypeError m), lib)))
   \<and> (bottom \<noteq> PNone \<and> height \<noteq> PNone \<longrightarrow>
      (\<exists>m. rectangle self left top' right bottom width height lib = (Inl (TypeError m), lib)))"
proof -
  have i: "isinstance_Real (PInt 0)" "\<not> is_float (PInt 0)" "isinstance_Real (PInt 10)"
    "\<not> is_float (PInt 10)" "isinstance_Real (PInt 20)" "\<not> is_float (PInt 20)"
    "\<not> py_lt (PInt 10) (PInt 0)" "\<not> py_lt (PInt 20) (PInt 0)"
    by (simp_all add: isinstance_Real_def is_float_def py_lt_def nonfinite_of_def num_val_def)
  have 1: "rectangle self (PInt 0) (PInt 0) PNone PNone (PInt 10) (PInt 20) lib =
     rectangle self (PInt 0) (PInt 0) (PInt 10) (PInt 20) PNone PNone lib"
    using rectangle_forms_agree_integers [OF i(1,2,1,2,3,4,5,6,7,8), of self lib]
    by (simp add: int_val_def)
  have 2: "rectangle self (PInt 0) (PInt 0) (PInt 10) (PInt 20) PNone PNone lib =
     raise_exception self
       (DrawRectangle (resource self) (PInt 0) (PInt 0) (PInt 10) (PInt 20) lib)"
    using i(7,8) by (simp add: rectangle_corners [OF i(1,1,3,5)] py_lt_def nonfinite_of_def
        num_val_def)
  have 3: "isinstance_Real left \<and> isinstance_Real top' \<and> isinstance_Real width
      \<and> isinstance_Real height \<and> \<not> py_lt width (PInt 0) \<and> \<not> py_lt height (PInt 0)
      \<and> py_add left width = Inr r \<and> py_add top' height = Inr b \<longrightarrow>
      rectangle self left top' PNone PNone width height lib =
        raise_exception self (DrawRectangle (resource self) left top' r b lib)
      \<and> (\<not> py_lt r left \<and> \<not> py_lt b top' \<longrightarrow>
         rectangle self left top' r b PNone PNone lib =
           rectangle self left top' PNone PNone width height lib)"
    using rectangle_dimensions_call [of left top' width height r b self lib]
      rectangle_forms_agree [of left top' width height r b self lib]
    by blast
  have 4: "isinstance_Real left \<and> \<not> is_float left \<and> isinstance_Real top' \<and> \<not> is_float top'
      \<and> isinstance_Real width \<and> \<not> is_float width \<and> isinstance_Real height
      \<and> \<not> is_float height \<and> \<not> py_lt width (PInt 0) \<and> \<not> py_lt height (PInt 0) \<longrightarrow>
      rectangle self left top' PNone PNone width height lib =
        rectangle self left top' (PInt (int_val left + int_val width))
          (PInt (int_val top' + int_val height)) PNone PNone lib"
    using rectangle_forms_agree_integers [of left top' width height self lib] by blast
  have 5: "isinstance_Real left \<and> isinstance_Real top' \<and> isinstance_Real width
      \<and> isinstance_Real height \<and> \<not> py_lt width (PInt 0) \<and> py_add left width = Inl e \<longrightarrow>
      rectangle self left top' PNone PNone width height lib = (Inl e, lib)"
    using rectangle_dimensions_overflow [of left top' width height e self lib] by blast
  show ?thesis
    using 1 2 3 4 5
      rectangle_exclusive_right_width [of right width self left top' bottom height lib]
      rectangle_exclusive_bottom_height [of bottom height self left top' right width lib]
    by blast
qed

lemma py_add_overflow:
  "py_add (PInt (2 ^ 1024)) (PFloat 1) =
     Inl (OverflowError ''int too large to convert to float'')"
  by (simp only: py_add_def to_double_def int_val_def double_of_int_2_1024 is_float_def
      pyval.case sum.case simp_thms if_True)

theorem rectangle_parameterizations_witness:
  "rectangle example_drawing (PInt 0) (PInt 0) PNone PNone (PInt 10) (PInt 20) example_library =
     rectangle example_drawing (PInt 0) (PInt 0) (PInt 10) (PInt 20) PNone PNone example_library
   \<and> calls (snd (rectangle example_drawing (PFloat 1) (PInt 2) PNone PNone (PInt 3) (PFloat 4)
        example_library)) =
     [NativeCall ''DrawRectangle'' 0
        [PyArg (PFloat 1), PyArg (PInt 2), PyArg (PFloat 4), PyArg (PFloat 6)],
      NativeCall ''DrawGetException'' 0 []]
   \<and> rectangle example_drawing (PFloat 1) (PInt 2) (PFloat 4) (PFloat 6) PNone PNone
        example_library =
     rectangle example_drawing (PFloat 1) (PInt 2) PNone PNone (PInt 3) (PFloat 4)
        example_library
   \<and> rectangle example_drawing (PBool True) (PInt 2) PNone PNone (PInt 3) (PInt 4)
        example_library =
     rectangle example_drawing (PBool True) (PInt 2) (PInt 4) (PInt 6) PNone PNone
        example_library
   \<and> rectangle example_drawing (PInt (2 ^ 1024)) (PInt 0) PNone PNone (PFloat 1) (PInt 0)
        example_library =
     (Inl (OverflowError ''int too large to convert to float''), example_library)
   \<and> (\<exists>m. rectangle example_drawing (PInt 0) (PInt 0) (PInt 10) (PInt 20) (PInt 10) PNone
        example_library = (Inl (TypeError m), example_library))
   \<and> (\<exists>m. rectangle example_drawing (PInt 0) (PInt 0) (PInt 10) (PInt 20) PNone (PInt 20)
        example_library = (Inl (TypeError m), example_library))"
proof -
  have h: "isinstance_Real (PFloat 1) \<and> isinstance_Real (PInt 2) \<and> isinstance_Real (PInt 3)
      \<and> isinstance_Real (PFloat 4) \<and> \<not> py_lt (PInt 3) (PInt 0)
      \<and> \<not> py_lt (PFloat 4) (PInt 0)"
    by (simp add: isinstance_Real_def py_lt_def nonfinite_of_def num_val_def)
  have rd: "round_double 4 = Finite 4" "round_double 6 = Finite 6"
    using round_double_int [of 4] round_double_int [of 6] by simp_all
  have a: "py_add (PFloat 1) (PInt 3) = Inr (PFloat 4)"
    "py_add (PInt 2) (PFloat 4) = Inr (PFloat 6)"
    by (simp_all add: py_add_def is_float_def to_double_simps double_add_def float_val_def rd)
  have g: "\<not> py_lt (PFloat 4) (PFloat 1) \<and> \<not> py_lt (PFloat 6) (PInt 2)"
    by (simp add: py_lt_def nonfinite_of_def num_val_def)
  have n: "PInt 10 \<noteq> PNone \<and> PInt 10 \<noteq> PNone" "PInt 20 \<noteq> PNone \<and> PInt 20 \<noteq> PNone"
    by simp_all
  have e: "w_exception (wands example_library 0) = None" "calls example_library = []"
    "resource example_drawing = 0"
    by (simp_all add: example_library_def example_wand_def example_drawing_def)
  note t = rectangle_parameterizations
    [where self = example_drawing and lib = example_library and left = "PFloat 1"
       and top' = "PInt 2" and width = "PInt 3" and height = "PFloat 4" and r = "PFloat 4"
       and b = "PFloat 6"]
  have 1: "rectangle example_drawing (PInt 0) (PInt 0) PNone PNone (PInt 10) (PInt 20)
        example_library =
     rectangle example_drawing (PInt 0) (PInt 0) (PInt 10) (PInt 20) PNone PNone example_library"
    using t by blast
  have c: "rectangle example_drawing (PFloat 1) (PInt 2) PNone PNone (PInt 3) (PFloat 4)
        example_library =
      raise_exception example_drawing
        (DrawRectangle (resource example_drawing) (PFloat 1) (PInt 2) (PFloat 4) (PFloat 6)
           example_library)"
    using t h a by blast
  then have 2: "calls (snd (rectangle example_drawing (PFloat 1) (PInt 2) PNone PNone (PInt 3)
        (PFloat 4) example_library)) =
     [NativeCall ''DrawRectangle'' 0
        [PyArg (PFloat 1), PyArg (PInt 2), PyArg (PFloat 4), PyArg (PFloat 6)],
      NativeCall ''DrawGetException'' 0 []]"
    by (simp add: e raise_exception_def DrawGetException_def DrawRectangle_def)
  have 3: "rectangle example_drawing (PFloat 1) (PInt 2) (PFloat 4) (PFloat 6) PNone PNone
        example_library =
     rectangle example_drawing (PFloat 1) (PInt 2) PNone PNone (PInt 3) (PFloat 4)
        example_library"
    using t h a g by blast
  have hi: "isinstance_Real (PBool True) \<and> \<not> is_float (PBool True) \<and> isinstance_Real (PInt 2)
      \<and> \<not> is_float (PInt 2) \<and> isinstance_Real (PInt 3) \<and> \<not> is_float (PInt 3)
      \<and> isinstance_Real (PInt 4) \<and> \<not> is_float (PInt 4) \<and> \<not> py_lt (PInt 3) (PInt 0)
      \<and> \<not> py_lt (PInt 4) (PInt 0)"
    by (simp add: isinstance_Real_def is_float_def py_lt_def nonfinite_of_def num_val_def)
  have "rectangle example_drawing (PBool True) (PInt 2) PNone PNone (PInt 3) (PInt 4)
        example_library =
     rectangle example_drawing (PBool True) (PInt 2)
       (PInt (int_val (PBool True) + int_val (PInt 3))) (PInt (int_val (PInt 2) + int_val (PInt 4)))
       PNone PNone example_library"
    using hi rectangle_parameterizations
      [where self = example_drawing and lib = example_library and left = "PBool True"
         and top' = "PInt 2" and width = "PInt 3" and height = "PInt 4"]
    by blast
  then have 4: "rectangle example_drawing (PBool True) (PInt 2) PNone PNone (PInt 3) (PInt 4)
        example_library =
     rectangle example_drawing (PBool True) (PInt 2) (PInt 4) (PInt 6) PNone PNone
        example_library"
    by (simp add: int_val_def)
  have ho: "isinstance_Real (PInt (2 ^ 1024)) \<and> isinstance_Real (PInt 0)
      \<and> isinstance_Real (PFloat 1) \<and> isinstance_Real (PInt 0) \<and> \<not> py_lt (PFloat 1) (PInt 0)"
    by (simp add: isinstance_Real_def py_lt_def nonfinite_of_def num_val_def)
  have 5: "rectangle example_drawing (PInt (2 ^ 1024)) (PInt 0) PNone PNone (PFloat 1) (PInt 0)
        example_library =
     (Inl (OverflowError ''int too large to convert to float''), example_library)"
    using ho py_add_overflow rectangle_parameterizations
      [where self = example_drawing and lib = example_library and left = "PInt (2 ^ 1024)"
         and top' = "PInt 0" and width = "PFloat 1" and height = "PInt 0"
         and e = "OverflowError ''int too large to convert to float''"]
    by blast
  have 6: "\<exists>m. rectangle example_drawing (PInt 0) (PInt 0) (PInt 10) (PInt 20) (PInt 10) PNone
        example_library = (Inl (TypeError m), example_library)"
    using n(1) rectangle_parameterizations
      [where self = example_drawing and lib = example_library and left = "PInt 0"
         and top' = "PInt 0" and right = "PInt 10" and bottom = "PInt 20" and width = "PInt 10"
         and height = PNone]
    by blast
  have 7: "\<exists>m. rectangle example_drawing (PInt 0) (PInt 0) (PInt 10) (PInt 20) PNone (PInt 20)
        example_library = (Inl (TypeError m), example_library)"
    using n(2) rectangle_parameterizations
      [where self = example_drawing and lib = example_library and left = "PInt 0"
         and top' = "PInt 0" and right = "PInt 10" and bottom = "PInt 20" and width = PNone
         and height = "PInt 20"]
    by blast
  show ?thesis using 1 2 3 4 5 6 7 by blast
qed

text \<open>
  C6: in the corner form, \<^verbatim>\<open>right < left\<close> or \<^verbatim>\<open>bottom < top\<close> raises
  \<^verbatim>\<open>ValueError\<close> with the library unchanged, so before \<^verbatim>\<open>DrawRectangle\<close>; in
  particular \<^verbatim>\<open>rectangle(left=5, top=5, right=2, bottom=10)\<close> does.
\<close>

theorem rectangle_rejects_inverted_corners:
  "rectangle self (PInt 5) (PInt 5) (PInt 2) (PInt 10) PNone PNone lib =
     (Inl (ValueError ''right must be more than left''), lib)
   \<and> (isinstance_Real left \<and> isinstance_Real top' \<and> isinstance_Real right
      \<and> isinstance_Real bottom \<and> (py_lt right left \<or> py_lt bottom top') \<longrightarrow>
      (\<exists>m. rectangle self left top' right bottom PNone PNone lib = (Inl (ValueError m), lib)))"
proof -
  have "isinstance_Real (PInt 5)" "isinstance_Real (PInt 2)" "isinstance_Real (PInt 10)"
    "py_lt (PInt 2) (PInt 5)"
    by (simp_all add: isinstance_Real_def py_lt_def nonfinite_of_def num_val_def)
  then have "rectangle self (PInt 5) (PInt 5) (PInt 2) (PInt 10) PNone PNone lib =
     (Inl (ValueError ''right must be more than left''), lib)"
    by (simp add: rectangle_corners)
  then show ?thesis by (auto simp: rectangle_corners)
qed

theorem rectangle_rejects_inverted_corners_witness:
  "(\<exists>m. rectangle example_drawing (PInt 5) (PInt 5) (PInt 2) (PInt 10) PNone PNone
          example_library = (Inl (ValueError m), example_library))
   \<and> (\<exists>m. rectangle example_drawing (PInt 1) (PFloat 7.5) (PInt 4) (PInt 7) PNone PNone
          example_library = (Inl (ValueError m), example_library))"
proof -
  have a: "isinstance_Real (PInt 5) \<and> isinstance_Real (PInt 5) \<and> isinstance_Real (PInt 2)
      \<and> isinstance_Real (PInt 10) \<and> (py_lt (PInt 2) (PInt 5) \<or> py_lt (PInt 10) (PInt 5))"
    by (simp add: isinstance_Real_def py_lt_def nonfinite_of_def num_val_def)
  have b: "isinstance_Real (PInt 1) \<and> isinstance_Real (PFloat 7.5) \<and> isinstance_Real (PInt 4)
      \<and> isinstance_Real (PInt 7) \<and> (py_lt (PInt 4) (PInt 1) \<or> py_lt (PInt 7) (PFloat 7.5))"
    by (simp add: isinstance_Real_def py_lt_def nonfinite_of_def num_val_def)
  show ?thesis
    using a b
      rectangle_rejects_inverted_corners
        [of example_drawing example_library "PInt 5" "PInt 5" "PInt 2" "PInt 10"]
      rectangle_rejects_inverted_corners
        [of example_drawing example_library "PInt 1" "PFloat 7.5" "PInt 4" "PInt 7"]
    by blast
qed

subsection \<open>Coordinate lists\<close>

lemma numeric_pair_cases:
  assumes "numeric_pair p"
  obtains x y where "p = PTuple [x, y] \<or> p = PList [x, y]"
    "isinstance_Real x" "isinstance_Real y"
  using assms by (auto simp: numeric_pair_def split: pyval.splits list.splits)

lemma convertible_pair_iff:
  "convertible_pair p =
     (numeric_pair p \<and> has_double (coordinate [p] 0) \<and> has_double (coordinate [p] 1))"
  by (auto simp: convertible_pair_def numeric_pair_def coordinate_def
      split: pyval.splits list.splits)

lemma length_pair_coordinates: "numeric_pair p \<Longrightarrow> length (pair_coordinates p) = 2"
  by (erule numeric_pair_cases) (auto simp: pair_coordinates_def)

lemma length_flat_coordinates:
  "list_all numeric_pair ps \<Longrightarrow> length (flat_coordinates ps) = 2 * length ps"
  by (induction ps) (simp_all add: flat_coordinates_def length_pair_coordinates)

lemma flat_coordinates_nth:
  "list_all numeric_pair ps \<Longrightarrow> k < 2 * length ps \<Longrightarrow>
   flat_coordinates ps ! k = pair_coordinates (ps ! (k div 2)) ! (k mod 2)"
proof (induction ps arbitrary: k)
  case Nil
  then show ?case by simp
next
  case (Cons p ps)
  have l: "length (pair_coordinates p) = 2"
    using Cons.prems by (simp add: length_pair_coordinates)
  have f: "flat_coordinates (p # ps) = pair_coordinates p @ flat_coordinates ps"
    by (simp add: flat_coordinates_def)
  show ?case
  proof (cases "k < 2")
    case True
    then have "k div 2 = 0" "k mod 2 = k" by simp_all
    with True l show ?thesis by (simp add: f nth_append)
  next
    case False
    then obtain j where k: "k = j + 2" by (metis le_add_diff_inverse2 not_less)
    with Cons.prems have "j < 2 * length ps" by simp
    with Cons have "flat_coordinates ps ! j = pair_coordinates (ps ! (j div 2)) ! (j mod 2)"
      by simp
    then show ?thesis by (simp add: f nth_append l k)
  qed
qed

lemma coordinate_item:
  assumes "list_all numeric_pair ps" "d < 2 * length ps"
  shows "py_subscript (ps ! (d div 2)) (d mod 2) = Inr (coordinate ps d)"
    and "isinstance_Real (coordinate ps d)"
    and "flat_coordinates ps ! d = double_val (coordinate ps d)"
proof -
  have j: "d div 2 < length ps" using assms(2) by simp
  with assms(1) have "numeric_pair (ps ! (d div 2))" by (simp add: list_all_length)
  then obtain x y where p: "ps ! (d div 2) = PTuple [x, y] \<or> ps ! (d div 2) = PList [x, y]"
    and r: "isinstance_Real x" "isinstance_Real y"
    by (rule numeric_pair_cases)
  have m: "d mod 2 = 0 \<or> d mod 2 = 1" by auto
  show "py_subscript (ps ! (d div 2)) (d mod 2) = Inr (coordinate ps d)"
    using p m by (auto simp: py_subscript_def coordinate_def)
  show "isinstance_Real (coordinate ps d)"
    using p m r by (auto simp: coordinate_def)
  have "pair_coordinates (ps ! (d div 2)) ! (d mod 2) = double_val (coordinate ps d)"
    using p m by (auto simp: pair_coordinates_def coordinate_def)
  then show "flat_coordinates ps ! d = double_val (coordinate ps d)"
    using assms by (simp add: flat_coordinates_nth)
qed

lemma coordinate_of_pair:
  assumes "i < length ps"
  shows "coordinate ps (2 * i) = coordinate [ps ! i] 0"
    and "coordinate ps (2 * i + 1) = coordinate [ps ! i] 1"
  by (simp_all add: coordinate_def cong: pyval.case_cong)

lemma convertible_coordinates:
  assumes "list_all numeric_pair ps"
  shows "list_all convertible_pair ps = (\<forall>d<2 * length ps. has_double (coordinate ps d))"
proof
  assume c: "list_all convertible_pair ps"
  show "\<forall>d<2 * length ps. has_double (coordinate ps d)"
  proof (intro allI impI)
    fix d assume d: "d < 2 * length ps"
    then have j: "d div 2 < length ps" by simp
    with c have "convertible_pair (ps ! (d div 2))" by (simp add: list_all_length)
    then have h: "has_double (coordinate [ps ! (d div 2)] 0)"
      "has_double (coordinate [ps ! (d div 2)] 1)"
      by (simp_all add: convertible_pair_iff)
    have "d = 2 * (d div 2) \<or> d = 2 * (d div 2) + 1" by presburger
    then show "has_double (coordinate ps d)"
      using h coordinate_of_pair [OF j] by metis
  qed
next
  assume h: "\<forall>d<2 * length ps. has_double (coordinate ps d)"
  show "list_all convertible_pair ps"
    unfolding list_all_length
  proof (intro allI impI)
    fix i assume i: "i < length ps"
    then have "2 * i < 2 * length ps" "2 * i + 1 < 2 * length ps" by simp_all
    with h have "has_double (coordinate ps (2 * i))" "has_double (coordinate ps (2 * i + 1))"
      by blast+
    then have "has_double (coordinate [ps ! i] 0)" "has_double (coordinate [ps ! i] 1)"
      by (simp_all only: coordinate_of_pair [OF i])
    moreover have "numeric_pair (ps ! i)"
      using assms i by (simp add: list_all_length)
    ultimately show "convertible_pair (ps ! i)" by (simp add: convertible_pair_iff)
  qed
qed

lemma c_double_Real:
  assumes "isinstance_Real v"
  shows "has_double v \<Longrightarrow> c_double v = Inr (double_val v)"
    and "\<not> has_double v \<Longrightarrow> \<exists>m. c_double v = Inl (OverflowError m)"
proof -
  show "has_double v \<Longrightarrow> c_double v = Inr (double_val v)"
    using assms by (auto simp: c_double_def has_double_def double_val_def split: sum.splits)
  show "\<not> has_double v \<Longrightarrow> \<exists>m. c_double v = Inl (OverflowError m)"
    using assms to_double_error [of v]
    by (auto simp: c_double_def has_double_def split: sum.splits)
qed

lemma py_subscript_list: "i < length ps \<Longrightarrow> py_subscript (PList ps) i = Inr (ps ! i)"
  by (simp add: py_subscript_def)

lemma point_info_loop_step:
  assumes "list_all numeric_pair ps" "k < 2 * length ps"
  shows "point_info_loop ps [k..<2 * length ps] arr =
     (case c_double (coordinate ps k) of
        Inl e \<Rightarrow> Inl e
      | Inr r \<Rightarrow> point_info_loop ps [Suc k..<2 * length ps] (arr[k := r]))"
proof -
  have d: "k div 2 < length ps" using assms(2) by simp
  have u: "[k..<2 * length ps] = k # [Suc k..<2 * length ps]"
    using assms(2) by (simp add: upt_conv_Cons)
  show ?thesis
    using d by (simp add: u py_subscript_list coordinate_item(1) [OF assms])
qed

lemma point_info_loop_invariant:
  "list_all numeric_pair ps \<Longrightarrow> length arr = 2 * length ps \<Longrightarrow> k \<le> 2 * length ps \<Longrightarrow>
   \<forall>d. k \<le> d \<and> d < 2 * length ps \<longrightarrow> has_double (coordinate ps d) \<Longrightarrow>
   point_info_loop ps [k..<2 * length ps] arr = Inr (take k arr @ drop k (flat_coordinates ps))"
proof (induction "2 * length ps - k" arbitrary: k arr)
  case 0
  then have "k = 2 * length ps" by simp
  with 0 show ?case by (simp add: length_flat_coordinates)
next
  case (Suc n)
  then have k: "k < 2 * length ps" by simp
  let ?r = "flat_coordinates ps ! k"
  have h: "has_double (coordinate ps k)" using Suc.prems(4) k by simp
  have c: "c_double (coordinate ps k) = Inr ?r"
    using c_double_Real(1) [OF coordinate_item(2) [OF Suc.prems(1) k] h]
    by (simp add: coordinate_item(3) [OF Suc.prems(1) k])
  have ih: "point_info_loop ps [Suc k..<2 * length ps] (arr[k := ?r]) =
      Inr (take (Suc k) (arr[k := ?r]) @ drop (Suc k) (flat_coordinates ps))"
    using Suc.hyps(1) [of "Suc k" "arr[k := ?r]"] Suc.hyps(2) Suc.prems k by simp
  have t: "take (Suc k) (arr[k := ?r]) = take k arr @ [?r]"
    using k Suc.prems(2) by (simp add: take_Suc_conv_app_nth)
  have dr: "drop k (flat_coordinates ps) = ?r # drop (Suc k) (flat_coordinates ps)"
    using k Suc.prems(1) by (simp add: Cons_nth_drop_Suc length_flat_coordinates)
  show ?case
    by (simp add: point_info_loop_step [OF Suc.prems(1) k] c ih t dr)
qed

lemma point_info_loop_overflow:
  "list_all numeric_pair ps \<Longrightarrow> k \<le> d \<Longrightarrow> d < 2 * length ps \<Longrightarrow>
   \<not> has_double (coordinate ps d) \<Longrightarrow>
   \<exists>m. point_info_loop ps [k..<2 * length ps] arr = Inl (OverflowError m)"
proof (induction "d - k" arbitrary: k arr)
  case 0
  then have k: "k = d" "k < 2 * length ps" by simp_all
  from c_double_Real(2) [OF coordinate_item(2) [OF "0.prems"(1) k(2)]] "0.prems"(4) k(1)
  obtain m where "c_double (coordinate ps k) = Inl (OverflowError m)" by blast
  then show ?case
    by (simp add: point_info_loop_step [OF "0.prems"(1) k(2)])
next
  case (Suc n)
  then have k: "k < 2 * length ps" "Suc k \<le> d" "n = d - Suc k" by simp_all
  show ?case
  proof (cases "has_double (coordinate ps k)")
    case True
    from c_double_Real(1) [OF coordinate_item(2) [OF Suc.prems(1) k(1)] True]
    have c: "c_double (coordinate ps k) = Inr (double_val (coordinate ps k))" .
    from Suc.hyps(1) [OF k(3) Suc.prems(1) k(2) Suc.prems(3,4)]
    show ?thesis
      by (simp add: point_info_loop_step [OF Suc.prems(1) k(1)] c)
  next
    case False
    from c_double_Real(2) [OF coordinate_item(2) [OF Suc.prems(1) k(1)] False]
    obtain m where "c_double (coordinate ps k) = Inl (OverflowError m)" by blast
    then show ?thesis
      by (simp add: point_info_loop_step [OF Suc.prems(1) k(1)])
  qed
qed

lemma convertible_numeric: "list_all convertible_pair ps \<Longrightarrow> list_all numeric_pair ps"
  by (simp add: list_all_length convertible_pair_iff)

lemma list_to_point_info_pairs:
  assumes "list_all convertible_pair ps"
  shows "list_to_point_info (PList ps) = Inr (length ps, flat_coordinates ps)"
proof -
  have n: "list_all numeric_pair ps" using assms by (rule convertible_numeric)
  have h: "\<forall>d. 0 \<le> d \<and> d < 2 * length ps \<longrightarrow> has_double (coordinate ps d)"
    using assms convertible_coordinates [OF n] by simp
  show ?thesis
    using point_info_loop_invariant [OF n _ _ h, of "replicate (2 * length ps) (Finite 0)"]
    by (simp add: list_to_point_info_def Let_def mult.commute)
qed

lemma list_to_point_info_overflow:
  assumes "list_all numeric_pair ps" "\<not> list_all convertible_pair ps"
  shows "\<exists>m. list_to_point_info (PList ps) = Inl (OverflowError m)"
proof -
  from assms convertible_coordinates [OF assms(1)]
  obtain d where d: "d < 2 * length ps" "\<not> has_double (coordinate ps d)" by blast
  from point_info_loop_overflow [OF assms(1) _ d, of 0 "replicate (2 * length ps) (Finite 0)"]
  obtain m where "point_info_loop ps [0..<2 * length ps] (replicate (2 * length ps) (Finite 0)) =
      Inl (OverflowError m)" by auto
  then show ?thesis
    by (simp add: list_to_point_info_def Let_def mult.commute)
qed

lemma list_to_point_info_not_list:
  "\<not> isinstance_list v \<Longrightarrow>
   list_to_point_info v = Inl (TypeError ''points must be a list, not '')"
  by (cases v) (simp_all add: list_to_point_info_def isinstance_list_def)

lemma flat_coordinates_order:
  assumes "list_all numeric_pair ps" "i < length ps"
  shows "flat_coordinates ps ! (2 * i) = pair_coordinates (ps ! i) ! 0"
    and "flat_coordinates ps ! (2 * i + 1) = pair_coordinates (ps ! i) ! 1"
  using assms by (simp_all add: flat_coordinates_nth)

lemma double_val_simps:
  "double_val (PFloat r) = Finite r"
  "\<bar>i\<bar> < 2 ^ 53 \<Longrightarrow> double_val (PInt i) = Finite (real_of_int i)"
  "double_val (PBool b) = Finite (if b then 1 else 0)"
  "double_val (PNonfinite n) = Nonfinite n"
  by (simp_all add: double_val_def to_double_simps)

lemma has_double_simps:
  "has_double (PFloat r)"
  "\<bar>i\<bar> < 2 ^ 53 \<Longrightarrow> has_double (PInt i)"
  "has_double (PBool b)"
  "has_double (PNonfinite n)"
  by (simp_all add: has_double_def to_double_simps)

lemma not_has_double_2_1024: "\<not> has_double (PInt (2 ^ 1024))"
  by (simp only: has_double_def to_double_def int_val_def double_of_int_2_1024 pyval.case
      sum.case simp_thms)

text \<open>
  C3 as stated fails: \<^verbatim>\<open>[(2**1024, 0)]\<close> is a list of one pair of numbers, and the
  conversion of \<^verbatim>\<open>2**1024\<close> to a C double raises \<^verbatim>\<open>OverflowError\<close>, so no array
  is produced.
\<close>

theorem list_to_point_info_counterexample:
  "list_all numeric_pair [PTuple [PInt (2 ^ 1024), PInt 0]]
   \<and> list_to_point_info (PList [PTuple [PInt (2 ^ 1024), PInt 0]]) =
       Inl (OverflowError ''int too large to convert to float'')
   \<and> polygon example_drawing (PList [PTuple [PInt (2 ^ 1024), PInt 0]]) example_library =
       (Inl (OverflowError ''int too large to convert to float''), example_library)"
proof -
  have r: "isinstance_Real (PInt (2 ^ 1024))" "isinstance_Real (PInt 0)"
    by (simp_all add: isinstance_Real_def)
  have n: "list_all numeric_pair [PTuple [PInt (2 ^ 1024), PInt 0]]"
    using r by (simp add: numeric_pair_def)
  have c: "c_double (PInt (2 ^ 1024)) =
      Inl (OverflowError ''int too large to convert to float'')"
    using r(1)
    by (simp only: c_double_def to_double_def int_val_def double_of_int_2_1024 pyval.case
        if_True)
  have s: "py_subscript (PList [PTuple [PInt (2 ^ 1024), PInt 0]]) 0 =
      Inr (PTuple [PInt (2 ^ 1024), PInt 0])"
    "py_subscript (PTuple [PInt (2 ^ 1024), PInt 0]) 0 = Inr (PInt (2 ^ 1024))"
    by (simp_all add: py_subscript_def del: power_numeral)
  have u: "[0..<length [PTuple [PInt (2 ^ 1024), PInt 0]] * 2] = [0, 1]"
    by (simp add: upt_conv_Cons)
  have l: "list_to_point_info (PList [PTuple [PInt (2 ^ 1024), PInt 0]]) =
       Inl (OverflowError ''int too large to convert to float'')"
    unfolding list_to_point_info_def Let_def pyval.case u
    by (simp add: s c del: power_numeral)
  then have "polygon example_drawing (PList [PTuple [PInt (2 ^ 1024), PInt 0]]) example_library
      = (Inl (OverflowError ''int too large to convert to float''), example_library)"
    by (simp add: polygon_def del: power_numeral)
  with n l show ?thesis by (simp only: simp_thms)
qed

text \<open>
  C3, amended: for a list of \<open>N\<close> pairs of numbers that each have a C double (every
  float and \<^verbatim>\<open>bool\<close>, and every \<^verbatim>\<open>int\<close> that rounds to a finite double)
  \<^verbatim>\<open>_list_to_point_info\<close> returns the point count \<open>N\<close> and the array of length
  \<open>2 * N\<close> whose entries \<open>2 * i\<close> and \<open>2 * i + 1\<close> are the two coordinates of the
  \<open>i\<close>-th pair as doubles (a float as it is, an \<^verbatim>\<open>int\<close> below \<open>2 ^ 53\<close> in
  magnitude exactly), and \<^verbatim>\<open>polygon\<close>, \<^verbatim>\<open>polyline\<close> and \<^verbatim>\<open>bezier\<close> pass
  exactly that count and array to their one native call; \<^verbatim>\<open>[(1,2),(3,4)]\<close> gives
  \<^verbatim>\<open>[1.0, 2.0, 3.0, 4.0]\<close> with count 2. A list of pairs of numbers in which some
  \<^verbatim>\<open>int\<close> has no double raises \<^verbatim>\<open>OverflowError\<close>, and an argument that is not a
  list raises \<^verbatim>\<open>TypeError\<close>; the three methods then leave the library unchanged.
\<close>

theorem list_to_point_info_flattens:
  "(list_all convertible_pair ps \<longrightarrow>
      list_to_point_info (PList ps) = Inr (length ps, flat_coordinates ps)
      \<and> length (flat_coordinates ps) = 2 * length ps
      \<and> (\<forall>i<length ps.
           flat_coordinates ps ! (2 * i) = pair_coordinates (ps ! i) ! 0
           \<and> flat_coordinates ps ! (2 * i + 1) = pair_coordinates (ps ! i) ! 1)
      \<and> polygon self (PList ps) lib =
          (Inr (), DrawPolygon (resource self) (length ps) (flat_coordinates ps) lib)
      \<and> polyline self (PList ps) lib =
          (Inr (), DrawPolyline (resource self) (length ps) (flat_coordinates ps) lib)
      \<and> bezier self (PList ps) lib =
          (Inr (), DrawBezier (resource self) (length ps) (flat_coordinates ps) lib))
   \<and> (\<forall>x y. pair_coordinates (PTuple [x, y]) = [double_val x, double_val y]
          \<and> pair_coordinates (PList [x, y]) = [double_val x, double_val y])
   \<and> (\<forall>r. double_val (PFloat r) = Finite r)
   \<and> (\<forall>i. \<bar>i\<bar> < 2 ^ 53 \<longrightarrow> double_val (PInt i) = Finite (real_of_int i))
   \<and> (list_all numeric_pair ps \<and> \<not> list_all convertible_pair ps \<longrightarrow>
      (\<exists>m. list_to_point_info (PList ps) = Inl (OverflowError m)
           \<and> polygon self (PList ps) lib = (Inl (OverflowError m), lib)
           \<and> polyline self (PList ps) lib = (Inl (OverflowError m), lib)
           \<and> bezier self (PList ps) lib = (Inl (OverflowError m), lib)))
   \<and> list_to_point_info (PList [PTuple [PInt 1, PInt 2], PTuple [PInt 3, PInt 4]]) =
       Inr (2, [Finite 1, Finite 2, Finite 3, Finite 4])
   \<and> (\<not> isinstance_list v \<longrightarrow>
      list_to_point_info v = Inl (TypeError ''points must be a list, not '')
      \<and> polygon self v lib = (Inl (TypeError ''points must be a list, not ''), lib)
      \<and> polyline self v lib = (Inl (TypeError ''points must be a list, not ''), lib)
      \<and> bezier self v lib = (Inl (TypeError ''points must be a list, not ''), lib))"
proof -
  have e: "list_all convertible_pair [PTuple [PInt 1, PInt 2], PTuple [PInt 3, PInt 4]]"
    by (simp add: convertible_pair_def isinstance_Real_def has_double_simps)
  have 1: "list_to_point_info (PList [PTuple [PInt 1, PInt 2], PTuple [PInt 3, PInt 4]]) =
       Inr (2, [Finite 1, Finite 2, Finite 3, Finite 4])"
    using list_to_point_info_pairs [OF e]
    by (simp add: flat_coordinates_def pair_coordinates_def double_val_simps)
  have 2: "list_all convertible_pair ps \<longrightarrow>
      (\<forall>i<length ps.
           flat_coordinates ps ! (2 * i) = pair_coordinates (ps ! i) ! 0
           \<and> flat_coordinates ps ! (2 * i + 1) = pair_coordinates (ps ! i) ! 1)"
    using flat_coordinates_order convertible_numeric by blast
  have 3: "list_all convertible_pair ps \<longrightarrow>
      list_to_point_info (PList ps) = Inr (length ps, flat_coordinates ps)
      \<and> length (flat_coordinates ps) = 2 * length ps
      \<and> polygon self (PList ps) lib =
          (Inr (), DrawPolygon (resource self) (length ps) (flat_coordinates ps) lib)
      \<and> polyline self (PList ps) lib =
          (Inr (), DrawPolyline (resource self) (length ps) (flat_coordinates ps) lib)
      \<and> bezier self (PList ps) lib =
          (Inr (), DrawBezier (resource self) (length ps) (flat_coordinates ps) lib)"
    by (simp add: list_to_point_info_pairs length_flat_coordinates convertible_numeric
        polygon_def polyline_def bezier_def)
  have 4: "\<forall>x y. pair_coordinates (PTuple [x, y]) = [double_val x, double_val y]
          \<and> pair_coordinates (PList [x, y]) = [double_val x, double_val y]"
    by (simp add: pair_coordinates_def)
  have 5: "(\<forall>r. double_val (PFloat r) = Finite r)
     \<and> (\<forall>i. \<bar>i\<bar> < 2 ^ 53 \<longrightarrow> double_val (PInt i) = Finite (real_of_int i))"
    using double_val_simps(1,2) by blast
  have 6: "list_all numeric_pair ps \<and> \<not> list_all convertible_pair ps \<longrightarrow>
      (\<exists>m. list_to_point_info (PList ps) = Inl (OverflowError m)
           \<and> polygon self (PList ps) lib = (Inl (OverflowError m), lib)
           \<and> polyline self (PList ps) lib = (Inl (OverflowError m), lib)
           \<and> bezier self (PList ps) lib = (Inl (OverflowError m), lib))"
  proof
    assume "list_all numeric_pair ps \<and> \<not> list_all convertible_pair ps"
    then obtain m where "list_to_point_info (PList ps) = Inl (OverflowError m)"
      using list_to_point_info_overflow by blast
    then show "\<exists>m. list_to_point_info (PList ps) = Inl (OverflowError m)
           \<and> polygon self (PList ps) lib = (Inl (OverflowError m), lib)
           \<and> polyline self (PList ps) lib = (Inl (OverflowError m), lib)
           \<and> bezier self (PList ps) lib = (Inl (OverflowError m), lib)"
      by (simp add: polygon_def polyline_def bezier_def)
  qed
  have 7: "\<not> isinstance_list v \<longrightarrow>
      list_to_point_info v = Inl (TypeError ''points must be a list, not '')
      \<and> polygon self v lib = (Inl (TypeError ''points must be a list, not ''), lib)
      \<and> polyline self v lib = (Inl (TypeError ''points must be a list, not ''), lib)
      \<and> bezier self v lib = (Inl (TypeError ''points must be a list, not ''), lib)"
    by (simp add: list_to_point_info_not_list polygon_def polyline_def bezier_def)
  show ?thesis using 1 2 3 4 5 6 7 by blast
qed

theorem list_to_point_info_flattens_witness:
  "list_to_point_info (PList [PList [PFloat 2, PInt 7], PTuple [PBool True, PInt (- 4)],
       PTuple [PInt 0, PNonfinite PosInf]]) =
     Inr (3, [Finite 2, Finite 7, Finite 1, Finite (- 4), Finite 0, Nonfinite PosInf])
   \<and> calls (snd (polygon example_drawing
        (PList [PList [PFloat 2, PInt 7], PTuple [PBool True, PInt (- 4)],
           PTuple [PInt 0, PNonfinite PosInf]]) example_library)) =
       [NativeCall ''DrawPolygon'' 0
          [IntArg 3,
           ArrayArg [Finite 2, Finite 7, Finite 1, Finite (- 4), Finite 0, Nonfinite PosInf]]]
   \<and> (\<exists>m. bezier example_drawing (PList [PTuple [PInt 1, PInt 2], PTuple [PInt (2 ^ 1024), PInt 4]])
          example_library = (Inl (OverflowError m), example_library))
   \<and> bezier example_drawing (PTuple [PTuple [PInt 1, PInt 2], PTuple [PInt 3, PInt 4]])
        example_library =
       (Inl (TypeError ''points must be a list, not ''), example_library)
   \<and> polyline example_drawing PNone example_library =
       (Inl (TypeError ''points must be a list, not ''), example_library)"
proof -
  let ?ps = "[PList [PFloat 2, PInt 7], PTuple [PBool True, PInt (- 4)],
       PTuple [PInt 0, PNonfinite PosInf]]"
  let ?qs = "[PTuple [PInt 1, PInt 2], PTuple [PInt (2 ^ 1024), PInt 4]]"
  have a: "list_all convertible_pair ?ps"
    by (simp add: convertible_pair_def isinstance_Real_def has_double_simps)
  have f: "flat_coordinates ?ps =
      [Finite 2, Finite 7, Finite 1, Finite (- 4), Finite 0, Nonfinite PosInf]"
    by (simp add: flat_coordinates_def pair_coordinates_def double_val_simps)
  have q: "list_all numeric_pair ?qs"
    by (simp add: numeric_pair_def isinstance_Real_def)
  have "\<not> convertible_pair (PTuple [PInt (2 ^ 1024), PInt 4])"
    using not_has_double_2_1024 by (simp add: convertible_pair_def del: power_numeral)
  then have nq: "\<not> list_all convertible_pair ?qs"
    by (simp del: power_numeral)
  have n: "\<not> isinstance_list (PTuple [PTuple [PInt 1, PInt 2], PTuple [PInt 3, PInt 4]])"
    "\<not> isinstance_list PNone"
    by (simp_all add: isinstance_list_def)
  have e: "calls example_library = []" "resource example_drawing = 0"
    by (simp_all add: example_library_def example_drawing_def)
  note t = list_to_point_info_flattens
    [where ps = ?ps and self = example_drawing and lib = example_library]
  have 1: "list_to_point_info (PList ?ps) =
      Inr (3, [Finite 2, Finite 7, Finite 1, Finite (- 4), Finite 0, Nonfinite PosInf])"
    using a t [where v = PNone] by (simp add: f)
  have "polygon example_drawing (PList ?ps) example_library =
      (Inr (), DrawPolygon (resource example_drawing) (length ?ps) (flat_coordinates ?ps)
         example_library)"
    using a t [where v = PNone] by blast
  then have 2: "calls (snd (polygon example_drawing (PList ?ps) example_library)) =
       [NativeCall ''DrawPolygon'' 0
          [IntArg 3,
           ArrayArg [Finite 2, Finite 7, Finite 1, Finite (- 4), Finite 0, Nonfinite PosInf]]]"
    by (simp add: f e DrawPolygon_def)
  have 3: "\<exists>m. bezier example_drawing (PList ?qs) example_library =
      (Inl (OverflowError m), example_library)"
    using q nq list_to_point_info_flattens
      [where ps = ?qs and self = example_drawing and lib = example_library and v = PNone]
    by blast
  have 4: "bezier example_drawing (PTuple [PTuple [PInt 1, PInt 2], PTuple [PInt 3, PInt 4]])
        example_library =
       (Inl (TypeError ''points must be a list, not ''), example_library)"
    using n(1) list_to_point_info_flattens
      [where ps = "[]" and self = example_drawing and lib = example_library
         and v = "PTuple [PTuple [PInt 1, PInt 2], PTuple [PInt 3, PInt 4]]"]
    by blast
  have 5: "polyline example_drawing PNone example_library =
       (Inl (TypeError ''points must be a list, not ''), example_library)"
    using n(2) list_to_point_info_flattens
      [where ps = "[]" and self = example_drawing and lib = example_library and v = PNone]
    by blast
  show ?thesis using 1 2 3 4 5 by blast
qed

subsection \<open>Cloning and path operators\<close>

lemma clone_result:
  "clone d lib = (Inr \<lparr>resource = next_handle lib\<rparr>, snd (CloneDrawingWand (resource d) lib))"
  by (simp add: clone_def Drawing_init_def truthy_def CloneDrawingWand_def)

lemma wands_CloneDrawingWand:
  "wands (snd (CloneDrawingWand h lib)) = (wands lib)(next_handle lib := wands lib h)"
  by (simp add: CloneDrawingWand_def)

lemma next_handle_CloneDrawingWand:
  "next_handle (snd (CloneDrawingWand h lib)) = Suc (next_handle lib)"
  by (simp add: CloneDrawingWand_def)

lemma stroke_color_setter_other:
  "resource a \<noteq> resource b \<Longrightarrow>
   wands (snd (stroke_color_setter a (PColor col) lib)) (resource b) = wands lib (resource b)"
  by (simp add: stroke_color_setter_def DrawSetStrokeColor_def)

lemma stroke_color_getter_value:
  "fst (stroke_color_getter a lib) = Inr (PColor (w_stroke_color (wands lib (resource a))))"
  by (simp add: stroke_color_getter_def DrawGetStrokeColor_def)

lemma stroke_color_setter_own:
  "fst (stroke_color_getter a (snd (stroke_color_setter a (PColor col) lib))) = Inr (PColor col)"
  by (simp add: stroke_color_getter_value stroke_color_setter_def DrawSetStrokeColor_def)

text \<open>
  C7: cloning a drawing whose handle the library has handed out (by \<^verbatim>\<open>clone()\<close> or
  by \<^verbatim>\<open>Drawing(drawing=d)\<close>, which are the same computation) yields a drawing on a
  different handle whose wand starts as a copy of the original's. Setting the stroke
  colour of the clone then changes what the clone reads back and leaves the wand of the
  original, and so the stroke colour the original reads, unchanged; and the same with
  the two exchanged.
\<close>

theorem clone_independent:
  assumes "resource d < next_handle lib"
  shows "\<exists>c lib1.
     clone d lib = (Inr c, lib1) \<and> Drawing_init (PDrawing d) lib = (Inr c, lib1)
     \<and> resource c \<noteq> resource d
     \<and> resource c < next_handle lib1 \<and> resource d < next_handle lib1
     \<and> wands lib1 (resource c) = wands lib (resource d)
     \<and> wands lib1 (resource d) = wands lib (resource d)
     \<and> (\<forall>col.
          fst (stroke_color_getter c (snd (stroke_color_setter c (PColor col) lib1))) =
            Inr (PColor col)
          \<and> wands (snd (stroke_color_setter c (PColor col) lib1)) (resource d) =
              wands lib1 (resource d)
          \<and> fst (stroke_color_getter d (snd (stroke_color_setter c (PColor col) lib1))) =
              fst (stroke_color_getter d lib1))
     \<and> (\<forall>col.
          fst (stroke_color_getter d (snd (stroke_color_setter d (PColor col) lib1))) =
            Inr (PColor col)
          \<and> wands (snd (stroke_color_setter d (PColor col) lib1)) (resource c) =
              wands lib1 (resource c)
          \<and> fst (stroke_color_getter c (snd (stroke_color_setter d (PColor col) lib1))) =
              fst (stroke_color_getter c lib1))"
proof -
  let ?c = "\<lparr>resource = next_handle lib\<rparr>"
  let ?lib1 = "snd (CloneDrawingWand (resource d) lib)"
  have ne: "resource ?c \<noteq> resource d" "resource d \<noteq> resource ?c"
    using assms by simp_all
  have 1: "clone d lib = (Inr ?c, ?lib1)" "Drawing_init (PDrawing d) lib = (Inr ?c, ?lib1)"
    using clone_result [of d lib] by (simp_all add: clone_def)
  have 2: "resource ?c < next_handle ?lib1" "resource d < next_handle ?lib1"
    using assms by (simp_all add: next_handle_CloneDrawingWand)
  have 3: "wands ?lib1 (resource ?c) = wands lib (resource d)"
    "wands ?lib1 (resource d) = wands lib (resource d)"
    using assms by (simp_all add: wands_CloneDrawingWand)
  have 4: "\<forall>col.
          fst (stroke_color_getter ?c (snd (stroke_color_setter ?c (PColor col) ?lib1))) =
            Inr (PColor col)
          \<and> wands (snd (stroke_color_setter ?c (PColor col) ?lib1)) (resource d) =
              wands ?lib1 (resource d)
          \<and> fst (stroke_color_getter d (snd (stroke_color_setter ?c (PColor col) ?lib1))) =
              fst (stroke_color_getter d ?lib1)"
    using stroke_color_setter_other [OF ne(1), of _ ?lib1] stroke_color_setter_own [of ?c _ ?lib1]
      stroke_color_getter_value [of d]
    by metis
  have 5: "\<forall>col.
          fst (stroke_color_getter d (snd (stroke_color_setter d (PColor col) ?lib1))) =
            Inr (PColor col)
          \<and> wands (snd (stroke_color_setter d (PColor col) ?lib1)) (resource ?c) =
              wands ?lib1 (resource ?c)
          \<and> fst (stroke_color_getter ?c (snd (stroke_color_setter d (PColor col) ?lib1))) =
              fst (stroke_color_getter ?c ?lib1)"
    using stroke_color_setter_other [OF ne(2), of _ ?lib1] stroke_color_setter_own [of d _ ?lib1]
      stroke_color_getter_value [of ?c]
    by metis
  show ?thesis
    using ne(1) 1 2 3 4 5 by blast
qed

theorem clone_independent_witness:
  "resource example_drawing < next_handle example_library
   \<and> (\<exists>c lib1. clone example_drawing example_library = (Inr c, lib1)
        \<and> resource c \<noteq> resource example_drawing
        \<and> fst (stroke_color_getter c (snd (stroke_color_setter c (PColor (Color ''red'')) lib1)))
            = Inr (PColor (Color ''red''))
        \<and> fst (stroke_color_getter example_drawing
              (snd (stroke_color_setter c (PColor (Color ''red'')) lib1)))
            = Inr (PColor (Color ''#000'')))"
proof -
  have h: "resource example_drawing < next_handle example_library"
    by (simp add: example_drawing_def example_library_def)
  from clone_independent [OF h] obtain c lib1 where
    c: "clone example_drawing example_library = (Inr c, lib1)"
      "resource c \<noteq> resource example_drawing"
      "wands lib1 (resource example_drawing) = wands example_library (resource example_drawing)"
      "\<forall>col.
          fst (stroke_color_getter c (snd (stroke_color_setter c (PColor col) lib1))) =
            Inr (PColor col)
          \<and> wands (snd (stroke_color_setter c (PColor col) lib1)) (resource example_drawing) =
              wands lib1 (resource example_drawing)
          \<and> fst (stroke_color_getter example_drawing
                (snd (stroke_color_setter c (PColor col) lib1))) =
              fst (stroke_color_getter example_drawing lib1)"
    by blast
  have "fst (stroke_color_getter example_drawing lib1) = Inr (PColor (Color ''#000''))"
    by (simp add: stroke_color_getter_value c(3))
      (simp add: example_library_def example_wand_def)
  with h c show ?thesis by auto
qed

lemma path_move_returns_self:
  "fst (path_move f self to relative lib) = Inr r \<Longrightarrow> r = self"
  by (auto simp: path_move_def split: if_splits sum.splits prod.splits)

lemma path_line_returns_self:
  "fst (path_line f self to relative lib) = Inr r \<Longrightarrow> r = self"
  by (auto simp: path_line_def split: if_splits sum.splits prod.splits)

lemma path_horizontal_line_returns_self:
  "fst (path_horizontal_line f self x relative lib) = Inr r \<Longrightarrow> r = self"
  by (auto simp: path_horizontal_line_def split: if_splits sum.splits prod.splits)

lemma path_vertical_line_returns_self:
  "fst (path_vertical_line f self y relative lib) = Inr r \<Longrightarrow> r = self"
  by (auto simp: path_vertical_line_def split: if_splits sum.splits prod.splits)

lemma path_curve_returns_self:
  "fst (path_curve self to controls smooth relative lib) = Inr r \<Longrightarrow> r = self"
  by (auto simp: path_curve_def split: if_splits sum.splits prod.splits)

lemma path_curve_to_quadratic_bezier_returns_self:
  "fst (path_curve_to_quadratic_bezier f self to control smooth relative lib) = Inr r
   \<Longrightarrow> r = self"
  by (auto simp: path_curve_to_quadratic_bezier_def split: if_splits sum.splits prod.splits)

lemma path_elliptic_arc_returns_self:
  "fst (path_elliptic_arc f self to radius rotation large_arc clockwise relative lib) = Inr r
   \<Longrightarrow> r = self"
  by (auto simp: path_elliptic_arc_def split: if_splits sum.splits prod.splits)

text \<open>
  C10: every path operator returns the drawing it was invoked on whenever it returns
  normally. \<^verbatim>\<open>path_start\<close>, \<^verbatim>\<open>path_finish\<close> and \<^verbatim>\<open>path_close\<close> always do;
  the others return either an error or \<open>self\<close>.
\<close>

theorem path_operators_return_self:
  "fst (path_start self lib) = Inr self
   \<and> fst (path_finish self lib) = Inr self
   \<and> fst (path_close self lib) = Inr self
   \<and> (\<forall>r. fst (path_move f self to relative lib) = Inr r \<longrightarrow> r = self)
   \<and> (\<forall>r. fst (path_line f self to relative lib) = Inr r \<longrightarrow> r = self)
   \<and> (\<forall>r. fst (path_horizontal_line f self x relative lib) = Inr r \<longrightarrow> r = self)
   \<and> (\<forall>r. fst (path_vertical_line f self y relative lib) = Inr r \<longrightarrow> r = self)
   \<and> (\<forall>r. fst (path_curve self to controls smooth relative lib) = Inr r \<longrightarrow> r = self)
   \<and> (\<forall>r. fst (path_curve_to_quadratic_bezier f self to control smooth relative lib) = Inr r
          \<longrightarrow> r = self)
   \<and> (\<forall>r. fst (path_elliptic_arc f self to radius rotation large_arc clockwise relative lib)
            = Inr r \<longrightarrow> r = self)"
  using path_move_returns_self path_line_returns_self path_horizontal_line_returns_self
    path_vertical_line_returns_self path_curve_returns_self
    path_curve_to_quadratic_bezier_returns_self path_elliptic_arc_returns_self
  by (simp add: path_start_def path_finish_def path_close_def)


theorem path_operators_return_self_witness:
  "fst (path_move (\<lambda>_. None) example_drawing (PTuple [PInt 10, PFloat 20]) (PBool False) example_library) = Inr example_drawing 
   \<and> fst (path_line (\<lambda>_. None) example_drawing (PList [PInt 3, PInt 4]) (PBool True) example_library) = Inr example_drawing 
   \<and> fst (path_horizontal_line (\<lambda>_. None) example_drawing (PInt 7) (PBool False) example_library) = Inr example_drawing 
   \<and> fst (path_vertical_line (\<lambda>_. None) example_drawing (PFloat 8) PNone example_library) = Inr example_drawing 
   \<and> fst (path_curve example_drawing (PTuple [PInt 5, PInt 6])
          (PTuple [PTuple [PInt 1, PInt 2], PTuple [PInt 3, PInt 4]]) (PBool False) (PBool False)
          example_library) = Inr example_drawing 
   \<and> fst (path_curve_to_quadratic_bezier (\<lambda>_. None) example_drawing (PTuple [PInt 5, PInt 6]) PNone
          (PBool True) (PBool False) example_library) = Inr example_drawing 
   \<and> fst (path_elliptic_arc (\<lambda>_. None) example_drawing (PTuple [PInt 5, PInt 6])
          (PTuple [PInt 2, PInt 1]) (PFloat 0) (PBool False) (PBool True) (PBool False)
          example_library) = Inr example_drawing"
proof -
  have "\<exists>r. fst (path_move (\<lambda>_. None) example_drawing (PTuple [PInt 10, PFloat 20]) (PBool False) example_library) = Inr r"
    by (simp add: path_move_def unpack2_def py_float_def to_double_simps truthy_def)
  then have c0: "fst (path_move (\<lambda>_. None) example_drawing (PTuple [PInt 10, PFloat 20]) (PBool False) example_library) = Inr example_drawing"
    using path_operators_return_self
      [where self = example_drawing and lib = example_library and f = "\<lambda>_. None" and to = "PTuple [PInt 10, PFloat 20]" and relative = "PBool False"]
    by blast
  have "\<exists>r. fst (path_line (\<lambda>_. None) example_drawing (PList [PInt 3, PInt 4]) (PBool True) example_library) = Inr r"
    by (simp add: path_line_def unpack2_def py_float_def to_double_simps truthy_def)
  then have c1: "fst (path_line (\<lambda>_. None) example_drawing (PList [PInt 3, PInt 4]) (PBool True) example_library) = Inr example_drawing"
    using path_operators_return_self
      [where self = example_drawing and lib = example_library and f = "\<lambda>_. None" and to = "PList [PInt 3, PInt 4]" and relative = "PBool True"]
    by blast
  have "\<exists>r. fst (path_horizontal_line (\<lambda>_. None) example_drawing (PInt 7) (PBool False) example_library) = Inr r"
    by (simp add: path_horizontal_line_def unpack2_def py_float_def to_double_simps truthy_def)
  then have c2: "fst (path_horizontal_line (\<lambda>_. None) example_drawing (PInt 7) (PBool False) example_library) = Inr example_drawing"
    using path_operators_return_self
      [where self = example_drawing and lib = example_library and f = "\<lambda>_. None" and x = "PInt 7" and relative = "PBool False"]
    by blast
  have "\<exists>r. fst (path_vertical_line (\<lambda>_. None) example_drawing (PFloat 8) PNone example_library) = Inr r"
    by (simp add: path_vertical_line_def unpack2_def py_float_def to_double_simps truthy_def)
  then have c3: "fst (path_vertical_line (\<lambda>_. None) example_drawing (PFloat 8) PNone example_library) = Inr example_drawing"
    using path_operators_return_self
      [where self = example_drawing and lib = example_library and f = "\<lambda>_. None" and y = "PFloat 8" and relative = PNone]
    by blast
  have "\<exists>r. fst (path_curve example_drawing (PTuple [PInt 5, PInt 6])
          (PTuple [PTuple [PInt 1, PInt 2], PTuple [PInt 3, PInt 4]]) (PBool False) (PBool False)
          example_library) = Inr r"
    by (simp add: path_curve_def unpack2_def py_float_def to_double_simps truthy_def)
  then have c4: "fst (path_curve example_drawing (PTuple [PInt 5, PInt 6])
          (PTuple [PTuple [PInt 1, PInt 2], PTuple [PInt 3, PInt 4]]) (PBool False) (PBool False)
          example_library) = Inr example_drawing"
    using path_operators_return_self
      [where self = example_drawing and lib = example_library and to = "PTuple [PInt 5, PInt 6]" and controls = "PTuple [PTuple [PInt 1, PInt 2], PTuple [PInt 3, PInt 4]]" and smooth = "PBool False" and relative = "PBool False"]
    by blast
  have "\<exists>r. fst (path_curve_to_quadratic_bezier (\<lambda>_. None) example_drawing (PTuple [PInt 5, PInt 6]) PNone
          (PBool True) (PBool False) example_library) = Inr r"
    by (simp add: path_curve_to_quadratic_bezier_def unpack2_def py_float_def to_double_simps truthy_def)
  then have c5: "fst (path_curve_to_quadratic_bezier (\<lambda>_. None) example_drawing (PTuple [PInt 5, PInt 6]) PNone
          (PBool True) (PBool False) example_library) = Inr example_drawing"
    using path_operators_return_self
      [where self = example_drawing and lib = example_library and f = "\<lambda>_. None" and to = "PTuple [PInt 5, PInt 6]" and control = PNone and smooth = "PBool True" and relative = "PBool False"]
    by blast
  have "\<exists>r. fst (path_elliptic_arc (\<lambda>_. None) example_drawing (PTuple [PInt 5, PInt 6])
          (PTuple [PInt 2, PInt 1]) (PFloat 0) (PBool False) (PBool True) (PBool False)
          example_library) = Inr r"
    by (simp add: path_elliptic_arc_def unpack2_def py_float_def to_double_simps truthy_def)
  then have c6: "fst (path_elliptic_arc (\<lambda>_. None) example_drawing (PTuple [PInt 5, PInt 6])
          (PTuple [PInt 2, PInt 1]) (PFloat 0) (PBool False) (PBool True) (PBool False)
          example_library) = Inr example_drawing"
    using path_operators_return_self
      [where self = example_drawing and lib = example_library and f = "\<lambda>_. None" and to = "PTuple [PInt 5, PInt 6]" and radius = "PTuple [PInt 2, PInt 1]" and rotation = "PFloat 0" and large_arc = "PBool False" and clockwise = "PBool True" and relative = "PBool False"]
    by blast
  show ?thesis using c0 c1 c2 c3 c4 c5 c6 by blast
qed

subsection \<open>The round trip through setter and getter\<close>

lemma text_alignment_roundtrip_nonzero:
  "i < length TEXT_ALIGN_TYPES \<Longrightarrow> i \<noteq> 0 \<Longrightarrow>
   fst (text_alignment_getter self (snd (text_alignment_setter self (TEXT_ALIGN_TYPES ! i) lib))) = Inr (TEXT_ALIGN_TYPES ! i)"
  by (simp add: text_alignment_setter_accept text_alignment_getter_def DrawGetTextAlignment_def DrawSetTextAlignment_def
      py_getitem_nth py_lift_def py_return_def py_bind_def)

lemma text_alignment_first_token_pending:
  assumes "w_exception (wands lib (resource self)) = Some msg"
  shows "fst (text_alignment_getter self (snd (text_alignment_setter self (TEXT_ALIGN_TYPES ! 0) lib))) = Inl (NativeError msg)"
proof -
  have "0 < length TEXT_ALIGN_TYPES" by (simp add: TEXT_ALIGN_TYPES_def)
  then have "text_alignment_setter self (TEXT_ALIGN_TYPES ! 0) lib =
      (Inr (), DrawSetTextAlignment (resource self) (int 0) lib)"
    by (rule text_alignment_setter_accept)
  then show ?thesis
    using assms
    by (simp add: text_alignment_getter_def DrawGetTextAlignment_def DrawSetTextAlignment_def py_bind_def
        raise_exception_def DrawGetException_def)
qed

lemma text_decoration_roundtrip_nonzero:
  "i < length TEXT_DECORATION_TYPES \<Longrightarrow> i \<noteq> 0 \<Longrightarrow>
   fst (text_decoration_getter self (snd (text_decoration_setter self (TEXT_DECORATION_TYPES ! i) lib))) = Inr (TEXT_DECORATION_TYPES ! i)"
  by (simp add: text_decoration_setter_accept text_decoration_getter_def DrawGetTextDecoration_def DrawSetTextDecoration_def
      py_getitem_nth py_lift_def py_return_def py_bind_def)

lemma text_decoration_first_token_pending:
  assumes "w_exception (wands lib (resource self)) = Some msg"
  shows "fst (text_decoration_getter self (snd (text_decoration_setter self (TEXT_DECORATION_TYPES ! 0) lib))) = Inl (NativeError msg)"
proof -
  have "0 < length TEXT_DECORATION_TYPES" by (simp add: TEXT_DECORATION_TYPES_def)
  then have "text_decoration_setter self (TEXT_DECORATION_TYPES ! 0) lib =
      (Inr (), DrawSetTextDecoration (resource self) (int 0) lib)"
    by (rule text_decoration_setter_accept)
  then show ?thesis
    using assms
    by (simp add: text_decoration_getter_def DrawGetTextDecoration_def DrawSetTextDecoration_def py_bind_def
        raise_exception_def DrawGetException_def)
qed

lemma text_direction_roundtrip_nonzero:
  "i < length TEXT_DIRECTION_TYPES \<Longrightarrow> i \<noteq> 0 \<Longrightarrow>
   fst (text_direction_getter self (snd (text_direction_setter self (TEXT_DIRECTION_TYPES ! i) lib))) = Inr (TEXT_DIRECTION_TYPES ! i)"
  by (simp add: text_direction_setter_accept text_direction_getter_def DrawGetTextDirection_def DrawSetTextDirection_def
      py_getitem_nth py_lift_def py_return_def py_bind_def)

lemma text_direction_first_token_pending:
  assumes "w_exception (wands lib (resource self)) = Some msg"
  shows "fst (text_direction_getter self (snd (text_direction_setter self (TEXT_DIRECTION_TYPES ! 0) lib))) = Inl (NativeError msg)"
proof -
  have "0 < length TEXT_DIRECTION_TYPES" by (simp add: TEXT_DIRECTION_TYPES_def)
  then have "text_direction_setter self (TEXT_DIRECTION_TYPES ! 0) lib =
      (Inr (), DrawSetTextDirection (resource self) (int 0) lib)"
    by (rule text_direction_setter_accept)
  then show ?thesis
    using assms
    by (simp add: text_direction_getter_def DrawGetTextDirection_def DrawSetTextDirection_def py_bind_def
        raise_exception_def DrawGetException_def)
qed

lemma gravity_roundtrip_nonzero:
  "i < length GRAVITY_TYPES \<Longrightarrow> i \<noteq> 0 \<Longrightarrow>
   fst (gravity_getter self (snd (gravity_setter self (GRAVITY_TYPES ! i) lib))) = Inr (GRAVITY_TYPES ! i)"
  by (simp add: gravity_setter_accept gravity_getter_def DrawGetGravity_def DrawSetGravity_def
      py_getitem_nth py_lift_def py_return_def py_bind_def)

lemma gravity_first_token_pending:
  assumes "w_exception (wands lib (resource self)) = Some msg"
  shows "fst (gravity_getter self (snd (gravity_setter self (GRAVITY_TYPES ! 0) lib))) = Inl (NativeError msg)"
proof -
  have "0 < length GRAVITY_TYPES" by (simp add: GRAVITY_TYPES_def)
  then have "gravity_setter self (GRAVITY_TYPES ! 0) lib =
      (Inr (), DrawSetGravity (resource self) (int 0) lib)"
    by (rule gravity_setter_accept)
  then show ?thesis
    using assms
    by (simp add: gravity_getter_def DrawGetGravity_def DrawSetGravity_def py_bind_def
        raise_exception_def DrawGetException_def)
qed

text \<open>
  The round trip as C1 states it fails: with an error pending on the wand, setting
  \<^verbatim>\<open>gravity\<close> to \<^verbatim>\<open>'forget'\<close> (index 0) and reading it back raises the pending
  error, because the getter takes the index 0 for a failure of the native call.
\<close>

theorem gravity_roundtrip_counterexample:
  "PStr ''forget'' \<in> set GRAVITY_TYPES
   \<and> fst (gravity_getter example_drawing
          (snd (gravity_setter example_drawing (PStr ''forget'') pending_library))) =
       Inl (NativeError ''MemoryAllocationFailed'')
   \<and> fst (gravity_getter example_drawing
          (snd (gravity_setter example_drawing (PStr ''forget'') pending_library))) \<noteq>
       Inr (PStr ''forget'')"
proof -
  have g: "GRAVITY_TYPES ! 0 = PStr ''forget''" "PStr ''forget'' \<in> set GRAVITY_TYPES"
    by (simp_all add: GRAVITY_TYPES_def)
  have "w_exception (wands pending_library (resource example_drawing)) =
      Some ''MemoryAllocationFailed''"
    by (simp add: pending_library_exception example_drawing_def)
  from gravity_first_token_pending [OF this] show ?thesis
    by (simp add: g)
qed

text \<open>
  C1, amended: setting an enumerated property to a token of its table and reading it
  back returns that token, for \<^verbatim>\<open>clip_rule\<close> and \<^verbatim>\<open>clip_units\<close> always; for
  \<^verbatim>\<open>text_alignment\<close>, \<^verbatim>\<open>text_decoration\<close>, \<^verbatim>\<open>text_direction\<close> and
  \<^verbatim>\<open>gravity\<close> whenever the token is not the first of its table or no error is pending
  on the wand, while reading back the first token with an error pending raises that
  error; for \<^verbatim>\<open>fill_rule\<close>, \<^verbatim>\<open>stroke_line_cap\<close> and \<^verbatim>\<open>stroke_line_join\<close>
  whenever no error is pending on the wand.
\<close>

theorem enum_roundtrip:
  "(\<forall>i<length FILL_RULE_TYPES.
        fst (clip_rule_getter self (snd (clip_rule_setter self (FILL_RULE_TYPES ! i) lib))) = Inr (FILL_RULE_TYPES ! i))
   \<and> (\<forall>i<length CLIP_PATH_UNITS.
        fst (clip_units_getter self (snd (clip_units_setter self (CLIP_PATH_UNITS ! i) lib))) = Inr (CLIP_PATH_UNITS ! i))
   \<and> (\<forall>i<length TEXT_ALIGN_TYPES. i \<noteq> 0 \<or> w_exception (wands lib (resource self)) = None \<longrightarrow>
        fst (text_alignment_getter self (snd (text_alignment_setter self (TEXT_ALIGN_TYPES ! i) lib))) = Inr (TEXT_ALIGN_TYPES ! i))
   \<and> (\<forall>msg. w_exception (wands lib (resource self)) = Some msg \<longrightarrow>
        fst (text_alignment_getter self (snd (text_alignment_setter self (TEXT_ALIGN_TYPES ! 0) lib))) = Inl (NativeError msg))
   \<and> (\<forall>i<length TEXT_DECORATION_TYPES. i \<noteq> 0 \<or> w_exception (wands lib (resource self)) = None \<longrightarrow>
        fst (text_decoration_getter self (snd (text_decoration_setter self (TEXT_DECORATION_TYPES ! i) lib))) = Inr (TEXT_DECORATION_TYPES ! i))
   \<and> (\<forall>msg. w_exception (wands lib (resource self)) = Some msg \<longrightarrow>
        fst (text_decoration_getter self (snd (text_decoration_setter self (TEXT_DECORATION_TYPES ! 0) lib))) = Inl (NativeError msg))
   \<and> (\<forall>i<length TEXT_DIRECTION_TYPES. i \<noteq> 0 \<or> w_exception (wands lib (resource self)) = None \<longrightarrow>
        fst (text_direction_getter self (snd (text_direction_setter self (TEXT_DIRECTION_TYPES ! i) lib))) = Inr (TEXT_DIRECTION_TYPES ! i))
   \<and> (\<forall>msg. w_exception (wands lib (resource self)) = Some msg \<longrightarrow>
        fst (text_direction_getter self (snd (text_direction_setter self (TEXT_DIRECTION_TYPES ! 0) lib))) = Inl (NativeError msg))
   \<and> (\<forall>i<length GRAVITY_TYPES. i \<noteq> 0 \<or> w_exception (wands lib (resource self)) = None \<longrightarrow>
        fst (gravity_getter self (snd (gravity_setter self (GRAVITY_TYPES ! i) lib))) = Inr (GRAVITY_TYPES ! i))
   \<and> (\<forall>msg. w_exception (wands lib (resource self)) = Some msg \<longrightarrow>
        fst (gravity_getter self (snd (gravity_setter self (GRAVITY_TYPES ! 0) lib))) = Inl (NativeError msg))
   \<and> (\<forall>i<length FILL_RULE_TYPES. w_exception (wands lib (resource self)) = None \<longrightarrow>
        fst (fill_rule_getter self (snd (fill_rule_setter self (FILL_RULE_TYPES ! i) lib))) = Inr (FILL_RULE_TYPES ! i))
   \<and> (\<forall>i<length LINE_CAP_TYPES. w_exception (wands lib (resource self)) = None \<longrightarrow>
        fst (stroke_line_cap_getter self (snd (stroke_line_cap_setter self (LINE_CAP_TYPES ! i) lib))) = Inr (LINE_CAP_TYPES ! i))
   \<and> (\<forall>i<length LINE_JOIN_TYPES. w_exception (wands lib (resource self)) = None \<longrightarrow>
        fst (stroke_line_join_getter self (snd (stroke_line_join_setter self (LINE_JOIN_TYPES ! i) lib))) = Inr (LINE_JOIN_TYPES ! i))"
proof -
  have plain: "(\<forall>i<length FILL_RULE_TYPES.
        fst (clip_rule_getter self (snd (clip_rule_setter self (FILL_RULE_TYPES ! i) lib))) = Inr (FILL_RULE_TYPES ! i))
      \<and> (\<forall>i<length CLIP_PATH_UNITS.
        fst (clip_units_getter self (snd (clip_units_setter self (CLIP_PATH_UNITS ! i) lib))) = Inr (CLIP_PATH_UNITS ! i))"
    by (simp add: clip_rule_roundtrip clip_units_roundtrip)
  have ta: "(\<forall>i<length TEXT_ALIGN_TYPES. i \<noteq> 0 \<or> w_exception (wands lib (resource self)) = None \<longrightarrow>
        fst (text_alignment_getter self (snd (text_alignment_setter self (TEXT_ALIGN_TYPES ! i) lib))) = Inr (TEXT_ALIGN_TYPES ! i))
   \<and> (\<forall>msg. w_exception (wands lib (resource self)) = Some msg \<longrightarrow>
        fst (text_alignment_getter self (snd (text_alignment_setter self (TEXT_ALIGN_TYPES ! 0) lib))) = Inl (NativeError msg))"
    using text_alignment_roundtrip text_alignment_roundtrip_nonzero text_alignment_first_token_pending by blast
  have td: "(\<forall>i<length TEXT_DECORATION_TYPES. i \<noteq> 0 \<or> w_exception (wands lib (resource self)) = None \<longrightarrow>
        fst (text_decoration_getter self (snd (text_decoration_setter self (TEXT_DECORATION_TYPES ! i) lib))) = Inr (TEXT_DECORATION_TYPES ! i))
   \<and> (\<forall>msg. w_exception (wands lib (resource self)) = Some msg \<longrightarrow>
        fst (text_decoration_getter self (snd (text_decoration_setter self (TEXT_DECORATION_TYPES ! 0) lib))) = Inl (NativeError msg))"
    using text_decoration_roundtrip text_decoration_roundtrip_nonzero text_decoration_first_token_pending by blast
  have tdir: "(\<forall>i<length TEXT_DIRECTION_TYPES. i \<noteq> 0 \<or> w_exception (wands lib (resource self)) = None \<longrightarrow>
        fst (text_direction_getter self (snd (text_direction_setter self (TEXT_DIRECTION_TYPES ! i) lib))) = Inr (TEXT_DIRECTION_TYPES ! i))
   \<and> (\<forall>msg. w_exception (wands lib (resource self)) = Some msg \<longrightarrow>
        fst (text_direction_getter self (snd (text_direction_setter self (TEXT_DIRECTION_TYPES ! 0) lib))) = Inl (NativeError msg))"
    using text_direction_roundtrip text_direction_roundtrip_nonzero text_direction_first_token_pending by blast
  have gr: "(\<forall>i<length GRAVITY_TYPES. i \<noteq> 0 \<or> w_exception (wands lib (resource self)) = None \<longrightarrow>
        fst (gravity_getter self (snd (gravity_setter self (GRAVITY_TYPES ! i) lib))) = Inr (GRAVITY_TYPES ! i))
   \<and> (\<forall>msg. w_exception (wands lib (resource self)) = Some msg \<longrightarrow>
        fst (gravity_getter self (snd (gravity_setter self (GRAVITY_TYPES ! 0) lib))) = Inl (NativeError msg))"
    using gravity_roundtrip gravity_roundtrip_nonzero gravity_first_token_pending by blast
  have slip: "(\<forall>i<length FILL_RULE_TYPES. w_exception (wands lib (resource self)) = None \<longrightarrow>
        fst (fill_rule_getter self (snd (fill_rule_setter self (FILL_RULE_TYPES ! i) lib))) = Inr (FILL_RULE_TYPES ! i))
      \<and> (\<forall>i<length LINE_CAP_TYPES. w_exception (wands lib (resource self)) = None \<longrightarrow>
        fst (stroke_line_cap_getter self (snd (stroke_line_cap_setter self (LINE_CAP_TYPES ! i) lib))) = Inr (LINE_CAP_TYPES ! i))
      \<and> (\<forall>i<length LINE_JOIN_TYPES. w_exception (wands lib (resource self)) = None \<longrightarrow>
        fst (stroke_line_join_getter self (snd (stroke_line_join_setter self (LINE_JOIN_TYPES ! i) lib))) = Inr (LINE_JOIN_TYPES ! i))"
    by (simp add: fill_rule_roundtrip stroke_line_cap_roundtrip stroke_line_join_roundtrip)
  show ?thesis
    using plain ta td tdir gr slip by blast
qed

theorem enum_roundtrip_witness:
  "fst (clip_units_getter example_drawing
          (snd (clip_units_setter example_drawing (PStr ''user_space'') pending_library))) =
     Inr (PStr ''user_space'')
   \<and> fst (gravity_getter example_drawing
          (snd (gravity_setter example_drawing (PStr ''forget'') example_library))) =
     Inr (PStr ''forget'')
   \<and> fst (gravity_getter example_drawing
          (snd (gravity_setter example_drawing (PStr ''north'') pending_library))) =
     Inr (PStr ''north'')
   \<and> fst (text_alignment_getter example_drawing
          (snd (text_alignment_setter example_drawing (PStr ''undefined'') pending_library))) =
     Inl (NativeError ''MemoryAllocationFailed'')
   \<and> fst (stroke_line_cap_getter example_drawing
          (snd (stroke_line_cap_setter example_drawing (PStr ''square'') example_library))) =
     Inr (PStr ''square'')"
proof -
  have e: "w_exception (wands example_library (resource example_drawing)) = None"
    by (simp add: example_library_def example_wand_def)
  have p: "w_exception (wands pending_library (resource example_drawing)) =
      Some ''MemoryAllocationFailed''"
    by (simp add: pending_library_exception example_drawing_def)
  have l: "1 < length CLIP_PATH_UNITS" "0 < length GRAVITY_TYPES" "2 < length GRAVITY_TYPES"
    "3 < length LINE_CAP_TYPES"
    by (simp_all add: tables_defs)
  have t: "CLIP_PATH_UNITS ! 1 = PStr ''user_space''" "GRAVITY_TYPES ! 0 = PStr ''forget''"
    "GRAVITY_TYPES ! 2 = PStr ''north''" "TEXT_ALIGN_TYPES ! 0 = PStr ''undefined''"
    "LINE_CAP_TYPES ! 3 = PStr ''square''"
    by (simp_all add: tables_defs)
  note a = enum_roundtrip [of example_drawing example_library]
  note b = enum_roundtrip [of example_drawing pending_library]
  have 1: "fst (clip_units_getter example_drawing
          (snd (clip_units_setter example_drawing (CLIP_PATH_UNITS ! 1) pending_library))) =
     Inr (CLIP_PATH_UNITS ! 1)"
    using b l(1) by blast
  have 2: "fst (gravity_getter example_drawing
          (snd (gravity_setter example_drawing (GRAVITY_TYPES ! 0) example_library))) =
     Inr (GRAVITY_TYPES ! 0)"
    using a l(2) e by blast
  have 3: "fst (gravity_getter example_drawing
          (snd (gravity_setter example_drawing (GRAVITY_TYPES ! 2) pending_library))) =
     Inr (GRAVITY_TYPES ! 2)"
    using b l(3) by (metis zero_neq_numeral)
  have 4: "fst (text_alignment_getter example_drawing
          (snd (text_alignment_setter example_drawing (TEXT_ALIGN_TYPES ! 0) pending_library))) =
     Inl (NativeError ''MemoryAllocationFailed'')"
    using b p by blast
  have 5: "fst (stroke_line_cap_getter example_drawing
          (snd (stroke_line_cap_setter example_drawing (LINE_CAP_TYPES ! 3) example_library))) =
     Inr (LINE_CAP_TYPES ! 3)"
    using a l(4) e by blast
  show ?thesis
    using 1 [unfolded t] 2 [unfolded t] 3 [unfolded t] 4 [unfolded t] 5 [unfolded t]
    by blast
qed


end
